theory Spec2Isabelle
  imports Main "HOL-Library.AList"
begin

section \<open>Python values\<close>

text \<open>
  The reconcilers exchange JSON documents with the remote API. A document is \<open>None\<close>, an
  integer, a string, a list or a dictionary. Python's \<open>True\<close> and \<open>False\<close> are the
  integers 1 and 0 under \<open>==\<close>, hashing and truthiness, and are represented so;
  numbers are integers. A dictionary is an association list whose first binding of a key
  is the binding. The modules compare names and identifiers, for which \<open>==\<close> is equality
  of these values; on dictionaries it is finer than Python's, which ignores the order of
  the keys.
\<close>

datatype json = JNull | JInt int | JStr string | JList "json list" | JObj "(string \<times> json) list"

text \<open>
  What ends an invocation early: \<open>module.fail_json(msg=...)\<close>, a Python exception raised
  by the module's own code, or a failure signalled by the API client. A message is kept as
  its format string and the values formatted into it.
\<close>

datatype error = FailJson string "json list" | KeyError string | TypeError | ValueError | RemoteError string

text \<open>
  The interpreter that runs a module. The modules carry the \<open>from __future__\<close> imports of
  code meant for both lines of the language; of the differences between the two, the
  modules meet the ordering of \<open>None\<close> against an integer and the literals that \<open>int\<close>
  accepts. \<open>Python3\<close> stands for the releases from 3.6 on.
\<close>

datatype python = Python2 | Python3

text \<open>Python truthiness, as in \<open>if not existing_object\<close> and \<open>bool(existing_object)\<close>.\<close>

fun truthy :: "json \<Rightarrow> bool" where
  "truthy JNull = False"
| "truthy (JInt i) = (i \<noteq> 0)"
| "truthy (JStr s) = (s \<noteq> [])"
| "truthy (JList xs) = (xs \<noteq> [])"
| "truthy (JObj kvs) = (kvs \<noteq> [])"

text \<open>A parameter of type \<open>str\<close> is a string or \<open>None\<close>; one of type \<open>int\<close> an integer or \<open>None\<close>.\<close>

fun of_str :: "string option \<Rightarrow> json" where
  "of_str None = JNull"
| "of_str (Some s) = JStr s"

fun of_int_opt :: "int option \<Rightarrow> json" where
  "of_int_opt None = JNull"
| "of_int_opt (Some i) = JInt i"

fun of_str_list :: "string list option \<Rightarrow> json" where
  "of_str_list None = JNull"
| "of_str_list (Some xs) = JList (map JStr xs)"

text \<open>\<open>obj[key]\<close> for a string key: only a dictionary holding the key answers.\<close>

fun getitem :: "json \<Rightarrow> string \<Rightarrow> error + json" where
  "getitem (JObj kvs) k = (case map_of kvs k of None \<Rightarrow> Inl (KeyError k) | Some v \<Rightarrow> Inr v)"
| "getitem _ k = Inl TypeError"

text \<open>\<open>obj[key] = value\<close> on a dictionary built by the module itself.\<close>

definition setitem :: "string \<Rightarrow> json \<Rightarrow> (string \<times> json) list \<Rightarrow> (string \<times> json) list" where
  "setitem k v kvs = AList.update k v kvs"

text \<open>Iteration, as in \<open>for x in value\<close>: a list gives its elements, a dictionary its keys,
  a string its characters; \<open>None\<close> and integers are not iterable.\<close>

fun py_iter :: "json \<Rightarrow> error + json list" where
  "py_iter (JList xs) = Inr xs"
| "py_iter (JObj kvs) = Inr (map JStr (remdups (map fst kvs)))"
| "py_iter (JStr s) = Inr (map (\<lambda>c. JStr [c]) s)"
| "py_iter _ = Inl TypeError"

text \<open>A list comprehension whose element expression may raise.\<close>

fun map_err :: "('a \<Rightarrow> error + 'b) \<Rightarrow> 'a list \<Rightarrow> error + 'b list" where
  "map_err f [] = Inr []"
| "map_err f (x # xs) =
     (case f x of Inl e \<Rightarrow> Inl e
      | Inr y \<Rightarrow> (case map_err f xs of Inl e \<Rightarrow> Inl e | Inr ys \<Rightarrow> Inr (y # ys)))"

text \<open>Lists and dictionaries are unhashable: \<open>set(...)\<close> over them raises TypeError.\<close>

fun hashable :: "json \<Rightarrow> bool" where
  "hashable (JList xs) = False"
| "hashable (JObj kvs) = False"
| "hashable _ = True"

definition py_set :: "json \<Rightarrow> error + json set" where
  "py_set v = (case py_iter v of Inl e \<Rightarrow> Inl e
     | Inr xs \<Rightarrow> if list_all hashable xs then Inr (set xs) else Inl TypeError)"

text \<open>
  \<open>int(s)\<close> on a string: surrounding white space, an optional sign, decimal digits.
  Python 3 strips the separator and no-break characters too, and accepts single underscores
  between digits.
\<close>

definition is_space :: "python \<Rightarrow> char \<Rightarrow> bool" where
  "is_space py c =
     (c \<in> set [CHR '' '', CHR 0x09, CHR 0x0A, CHR 0x0B, CHR 0x0C, CHR 0x0D]
      \<or> (py = Python3 \<and> c \<in> set [CHR 0x1C, CHR 0x1D, CHR 0x1E, CHR 0x1F, CHR 0x85, CHR 0xA0]))"

definition is_digit :: "char \<Rightarrow> bool" where
  "is_digit c = (c \<in> set ''0123456789'')"

definition digit_val :: "char \<Rightarrow> int" where
  "digit_val c = int (of_char c) - 48"

definition strip :: "python \<Rightarrow> string \<Rightarrow> string" where
  "strip py s = rev (dropWhile (is_space py) (rev (dropWhile (is_space py) s)))"

definition digits_val :: "string \<Rightarrow> int" where
  "digits_val ds = foldl (\<lambda>acc c. 10 * acc + digit_val c) 0 ds"

text \<open>Digits, with single underscores between them.\<close>

fun grouped :: "string \<Rightarrow> bool" where
  "grouped [] = False"
| "grouped [c] = is_digit c"
| "grouped (c # d # cs) = (is_digit c \<and> (if d = CHR ''_'' then grouped cs else grouped (d # cs)))"

definition int_of_digits :: "python \<Rightarrow> string \<Rightarrow> error + int" where
  "int_of_digits py ds =
     (case py of
        Python2 \<Rightarrow> if ds \<noteq> [] \<and> list_all is_digit ds then Inr (digits_val ds) else Inl ValueError
      | Python3 \<Rightarrow> if grouped ds then Inr (digits_val (filter (\<lambda>c. c \<noteq> CHR ''_'') ds))
                   else Inl ValueError)"

definition int_of_string :: "python \<Rightarrow> string \<Rightarrow> error + int" where
  "int_of_string py s = (case strip py s of
       [] \<Rightarrow> Inl ValueError
     | c # cs \<Rightarrow>
        if c = CHR ''-'' then (case int_of_digits py cs of Inl e \<Rightarrow> Inl e | Inr i \<Rightarrow> Inr (- i))
        else if c = CHR ''+'' then int_of_digits py cs
        else int_of_digits py (c # cs))"

fun py_int :: "python \<Rightarrow> json \<Rightarrow> error + int" where
  "py_int py (JInt i) = Inr i"
| "py_int py (JStr s) = int_of_string py s"
| "py_int py _ = Inl TypeError"

text \<open>
  \<open>index >= 0\<close> for an index that is a position or \<open>None\<close>: Python 2 orders \<open>None\<close> below
  every integer, Python 3 raises \<open>TypeError\<close>.
\<close>

definition index_ge_zero :: "python \<Rightarrow> nat option \<Rightarrow> error + bool" where
  "index_ge_zero py index =
     (case index of
        Some idx \<Rightarrow> Inr True
      | None \<Rightarrow> (case py of Python2 \<Rightarrow> Inr False | Python3 \<Rightarrow> Inl TypeError))"

text \<open>\<open>x in container\<close>: membership in a list, key of a dictionary, substring of a string.\<close>

fun starts_with :: "string \<Rightarrow> string \<Rightarrow> bool" where
  "starts_with [] s = True"
| "starts_with (p # ps) [] = False"
| "starts_with (p # ps) (c # cs) = (p = c \<and> starts_with ps cs)"

fun contains_str :: "string \<Rightarrow> string \<Rightarrow> bool" where
  "contains_str p [] = (p = [])"
| "contains_str p (c # cs) = (starts_with p (c # cs) \<or> contains_str p cs)"

fun py_in :: "json \<Rightarrow> json \<Rightarrow> error + bool" where
  "py_in x (JList xs) = Inr (x \<in> set xs)"
| "py_in x (JObj kvs) =
     (if hashable x then Inr (case x of JStr k \<Rightarrow> k \<in> set (map fst kvs) | _ \<Rightarrow> False)
      else Inl TypeError)"
| "py_in x (JStr s) = (case x of JStr p \<Rightarrow> Inr (contains_str p s) | _ \<Rightarrow> Inl TypeError)"
| "py_in x _ = Inl TypeError"

text \<open>\<open>obj[key] = value\<close> on a document received from the API.\<close>

fun setitem_json :: "json \<Rightarrow> string \<Rightarrow> json \<Rightarrow> error + json" where
  "setitem_json (JObj kvs) k v = Inr (JObj (setitem k v kvs))"
| "setitem_json _ k v = Inl TypeError"

definition err_bind :: "error + 'a \<Rightarrow> ('a \<Rightarrow> error + 'b) \<Rightarrow> error + 'b" where
  "err_bind r f = (case r of Inl e \<Rightarrow> Inl e | Inr x \<Rightarrow> f x)"

section \<open>The API client and the invocation\<close>

text \<open>
  The endpoint constants \<open>TETRATION_API_*\<close> are imported from the shared API library; the
  modules use them only as opaque names of resource collections.
\<close>

datatype endpoint =
    TETRATION_API_TENANT | TETRATION_API_USER | TETRATION_API_ROLE | TETRATION_API_SCOPES
  | TETRATION_API_AGENT_NAT_CONFIG | TETRATION_API_INTERFACE_INTENTS
  | TETRATION_API_INVENTORY_FILTER

text \<open>
  A target is a collection, or a format string applied to a collection and an identifier:
  \<open>'%s/%s/enable' % (TETRATION_API_USER, id)\<close> is \<open>Format ''%s/%s/enable'' TETRATION_API_USER id\<close>.
\<close>

datatype target = Target endpoint | Format string endpoint json

text \<open>One call of the client: \<open>get_object(target, filter)\<close> or \<open>run_method(method_name, target, req_payload)\<close>.\<close>

datatype call = GetObject target json | RunMethod string target json

fun mutating :: "call \<Rightarrow> bool" where
  "mutating (GetObject t f) = False"
| "mutating (RunMethod m t p) = (m \<in> {''post'', ''put'', ''delete''})"

fun is_delete :: "call \<Rightarrow> bool" where
  "is_delete (GetObject t f) = False"
| "is_delete (RunMethod m t p) = (m = ''delete'')"

text \<open>
  The client (\<open>TetrationApiModule\<close>) is a parameter: any remote state \<open>'s\<close> and any two
  functions answering \<open>get_object(target, filter, params, sub_element)\<close> and
  \<open>run_method(method_name, target, req_payload)\<close> with a document or a failure.
\<close>

record 's api =
  api_get_object :: "target \<Rightarrow> json \<Rightarrow> json \<Rightarrow> json \<Rightarrow> 's \<Rightarrow> (error + json) \<times> 's"
  api_run_method :: "string \<Rightarrow> target \<Rightarrow> json \<Rightarrow> 's \<Rightarrow> (error + json) \<times> 's"

text \<open>An invocation runs against the remote state and leaves the list of calls it issued.\<close>

record 's world =
  remote :: 's
  calls :: "call list"

type_synonym ('s, 'a) prog = "'s world \<Rightarrow> (error + 'a) \<times> 's world"

definition ret :: "'a \<Rightarrow> ('s, 'a) prog" where
  "ret x w = (Inr x, w)"

definition throw :: "error \<Rightarrow> ('s, 'a) prog" where
  "throw e w = (Inl e, w)"

definition bnd :: "('s, 'a) prog \<Rightarrow> ('a \<Rightarrow> ('s, 'b) prog) \<Rightarrow> ('s, 'b) prog" where
  "bnd m f w = (case m w of (Inl e, w') \<Rightarrow> (Inl e, w') | (Inr x, w') \<Rightarrow> f x w')"

definition lift :: "error + 'a \<Rightarrow> ('s, 'a) prog" where
  "lift r w = (r, w)"

definition get_object :: "'s api \<Rightarrow> target \<Rightarrow> json \<Rightarrow> json \<Rightarrow> json \<Rightarrow> ('s, json) prog" where
  "get_object api t flt params sub_element w =
     (case api_get_object api t flt params sub_element (remote w) of
        (r, s') \<Rightarrow> (r, \<lparr>remote = s', calls = calls w @ [GetObject t flt]\<rparr>))"

definition run_method :: "'s api \<Rightarrow> string \<Rightarrow> target \<Rightarrow> json \<Rightarrow> ('s, json) prog" where
  "run_method api m t payload w =
     (case api_run_method api m t payload (remote w) of
        (r, s') \<Rightarrow> (r, \<lparr>remote = s', calls = calls w @ [RunMethod m t payload]\<rparr>))"

text \<open>The \<open>state\<close> parameter and what \<open>module.exit_json(changed=changed, **result)\<close> reports.\<close>

datatype state = present | absent | query

record result =
  changed :: bool
  object :: json

section \<open>The tenant module\<close>

text \<open>\<open>id = 676769; while id in existing_ids: id -= 1\<close>\<close>

function generate_id :: "int \<Rightarrow> json list \<Rightarrow> int" where
  "generate_id i existing_ids =
     (if JInt i \<in> set existing_ids then generate_id (i - 1) existing_ids else i)"
  by pat_completeness auto

fun id_at_most :: "int \<Rightarrow> json \<Rightarrow> bool" where
  "id_at_most i (JInt k) = (k \<le> i)"
| "id_at_most i _ = False"

termination generate_id
proof (relation "measure (\<lambda>(i, ids). length (filter (id_at_most i) ids))")
  show "wf (measure (\<lambda>(i, ids). length (filter (id_at_most i) ids)))" by simp
next
  fix i :: int and existing_ids :: "json list"
  assume mem: "JInt i \<in> set existing_ids"
  have mono: "id_at_most (i - 1) x \<Longrightarrow> id_at_most i x" for x
    by (cases x) auto
  have le: "length (filter (id_at_most (i - 1)) xs) \<le> length (filter (id_at_most i) xs)" for xs
    using mono by (induction xs) auto
  have "JInt i \<in> set xs
          \<Longrightarrow> length (filter (id_at_most (i - 1)) xs) < length (filter (id_at_most i) xs)" for xs
  proof (induction xs)
    case Nil
    then show ?case by simp
  next
    case (Cons a xs)
    show ?case
    proof (cases "a = JInt i")
      case True
      with le [of xs] show ?thesis by simp
    next
      case False
      with Cons have "length (filter (id_at_most (i - 1)) xs) < length (filter (id_at_most i) xs)"
        by simp
      then show ?thesis using mono [of a] by auto
    qed
  qed
  with mem show "((i - 1, existing_ids), (i, existing_ids))
                   \<in> measure (\<lambda>(i, ids). length (filter (id_at_most i) ids))"
    by simp
qed

declare generate_id.simps [simp del]

text \<open>
  Reading the current state. The result is the pair \<open>(existing_object, id)\<close>; the
  parameter \<open>id\<close> is a string, the identifier read from a record an integer.
\<close>

definition tenant_read ::
  "python \<Rightarrow> 's api \<Rightarrow> state \<Rightarrow> string option \<Rightarrow> string option \<Rightarrow> string
     \<Rightarrow> ('s, json \<times> json) prog" where
  "tenant_read py api state name id' query_type =
     (if (state \<noteq> query \<or> query_type = ''single'') \<and> id' \<noteq> None then
        bnd (lift (py_int py (of_str id'))) (\<lambda>i.
        bnd (get_object api (Target TETRATION_API_TENANT) (JObj [(''id'', JInt i)]) JNull JNull)
          (\<lambda>existing_object. ret (existing_object, of_str id')))
      else if (state \<noteq> query \<or> query_type = ''single'') \<and> name \<noteq> None then
        bnd (get_object api (Target TETRATION_API_TENANT) (JObj [(''name'', of_str name)]) JNull JNull)
          (\<lambda>existing_object.
        bnd (if truthy existing_object
             then lift (err_bind (getitem existing_object ''id'') (\<lambda>v.
                        err_bind (py_int py v) (\<lambda>i. Inr (JInt i))))
             else ret JNull) (\<lambda>new_id.
        ret (existing_object, new_id)))
      else if state = query \<and> query_type = ''all'' then
        bnd (run_method api ''get'' (Target TETRATION_API_TENANT) JNull) (\<lambda>existing_object.
        bnd (lift (py_iter existing_object)) (\<lambda>tenants.
        ret (JList (filter (\<lambda>tenant. of_str name \<notin> set [JStr ''Tetration'', JStr ''Unknown'', JStr ''Default'']) tenants),
             of_str id')))
      else ret (JObj [], of_str id'))"

text \<open>\<open>if id is None\<close>: list the tenants and walk down from 676769.\<close>

definition tenant_generate :: "'s api \<Rightarrow> json \<Rightarrow> ('s, json) prog" where
  "tenant_generate api cur_id =
     (if cur_id = JNull then
        bnd (run_method api ''get'' (Target TETRATION_API_TENANT) JNull) (\<lambda>query_result.
        bnd (lift (py_iter query_result)) (\<lambda>xs.
        bnd (lift (map_err (\<lambda>x. getitem x ''id'') xs)) (\<lambda>existing_ids.
        ret (JInt (generate_id 676769 existing_ids)))))
      else ret cur_id)"

definition tenant_new_object :: "string option \<Rightarrow> string list option \<Rightarrow> (string \<times> json) list" where
  "tenant_new_object name switch_vrfs =
     (let new_object = [];
          new_object = (if switch_vrfs \<noteq> None
                        then setitem ''switch_vrfs'' (of_str_list switch_vrfs) new_object else new_object);
          new_object = (if name \<noteq> None
                        then setitem ''name'' (of_str name) new_object else new_object)
      in new_object)"

text \<open>
  The differencer: \<open>(name is not None and existing_object['name'] != name) or
  (switch_vrfs is not None and set(existing_object['switch_vrfs']) != set(switch_vrfs))\<close>,
  with Python's left-to-right short circuit.
\<close>

definition tenant_name_differs :: "json \<Rightarrow> string option \<Rightarrow> error + bool" where
  "tenant_name_differs existing_object name =
     (if name \<noteq> None
      then err_bind (getitem existing_object ''name'') (\<lambda>v. Inr (v \<noteq> of_str name))
      else Inr False)"

definition tenant_vrfs_differ :: "json \<Rightarrow> string list option \<Rightarrow> error + bool" where
  "tenant_vrfs_differ existing_object switch_vrfs =
     (case switch_vrfs of
        None \<Rightarrow> Inr False
      | Some vrfs \<Rightarrow>
          err_bind (getitem existing_object ''switch_vrfs'') (\<lambda>v.
          err_bind (py_set v) (\<lambda>s. Inr (s \<noteq> set (map JStr vrfs)))))"

definition tenant_differs :: "json \<Rightarrow> string option \<Rightarrow> string list option \<Rightarrow> error + bool" where
  "tenant_differs existing_object name switch_vrfs =
     err_bind (tenant_name_differs existing_object name) (\<lambda>a.
       if a then Inr True else tenant_vrfs_differ existing_object switch_vrfs)"

definition tenant_present ::
  "'s api \<Rightarrow> bool \<Rightarrow> string option \<Rightarrow> string list option \<Rightarrow> json \<Rightarrow> json \<Rightarrow> ('s, result) prog" where
  "tenant_present api check_mode name switch_vrfs existing_object cur_id =
     (let new_object = tenant_new_object name switch_vrfs in
      bnd (if \<not> truthy existing_object then
             (let new_object = setitem ''id'' cur_id new_object in
              if \<not> check_mode then
                bnd (run_method api ''post'' (Target TETRATION_API_TENANT) (JObj new_object))
                  (\<lambda>query_result.
                bnd (lift (getitem query_result ''id'')) (\<lambda>new_id.
                ret (True, new_object, new_id)))
              else ret (True, new_object, cur_id))
           else
             bnd (lift (tenant_differs existing_object name switch_vrfs)) (\<lambda>differs.
             if differs then
               (if \<not> check_mode then
                  bnd (run_method api ''put'' (Format ''%s/%s'' TETRATION_API_TENANT cur_id)
                         (JObj new_object)) (\<lambda>_.
                  ret (True, new_object, cur_id))
                else ret (True, new_object, cur_id))
             else ret (False, new_object, cur_id)))
        (\<lambda>(chg, new_object, cur_id).
           if \<not> chg then ret \<lparr>changed = chg, object = existing_object\<rparr>
           else if check_mode then ret \<lparr>changed = chg, object = JObj new_object\<rparr>
           else bnd (run_method api ''get'' (Format ''%s/%s'' TETRATION_API_TENANT cur_id) JNull)
                  (\<lambda>query_result. ret \<lparr>changed = chg, object = query_result\<rparr>)))"

definition tenant_absent :: "'s api \<Rightarrow> bool \<Rightarrow> json \<Rightarrow> json \<Rightarrow> ('s, result) prog" where
  "tenant_absent api check_mode existing_object cur_id =
     (if truthy existing_object then
        (if \<not> check_mode then
           bnd (run_method api ''delete'' (Format ''%s/%s'' TETRATION_API_TENANT cur_id) JNull) (\<lambda>_.
           ret \<lparr>changed = True, object = JNull\<rparr>)
         else ret \<lparr>changed = True, object = JNull\<rparr>)
      else ret \<lparr>changed = False, object = JNull\<rparr>)"

definition tenant_main ::
  "python \<Rightarrow> 's api \<Rightarrow> bool \<Rightarrow> state \<Rightarrow> string option \<Rightarrow> string option \<Rightarrow> string list option
     \<Rightarrow> string \<Rightarrow> ('s, result) prog" where
  "tenant_main py api check_mode state name id' switch_vrfs query_type =
     (if state \<in> {present, absent} \<and> (\<not> truthy (of_str name) \<and> \<not> truthy (of_str id'))
      then throw (FailJson ''Either name or id is required'' [])
      else
        bnd (tenant_read py api state name id' query_type) (\<lambda>(existing_object, cur_id).
        bnd (tenant_generate api cur_id) (\<lambda>cur_id.
        case state of
          present \<Rightarrow> tenant_present api check_mode name switch_vrfs existing_object cur_id
        | absent \<Rightarrow> tenant_absent api check_mode existing_object cur_id
        | query \<Rightarrow> ret \<lparr>changed = False, object = existing_object\<rparr>)))"

section \<open>The user module\<close>

definition user_lookup :: "'s api \<Rightarrow> string \<Rightarrow> ('s, json) prog" where
  "user_lookup api email =
     get_object api (Target TETRATION_API_USER) (JObj [(''email'', JStr email)])
       (JObj [(''include_disabled'', JStr ''true'')]) JNull"

text \<open>The result is \<open>(existing_object, disabled_user, id)\<close>.\<close>

definition user_read :: "'s api \<Rightarrow> string \<Rightarrow> ('s, json \<times> bool \<times> json) prog" where
  "user_read api email =
     bnd (user_lookup api email) (\<lambda>existing_object.
     bnd (lift (if existing_object = JNull then Inr False
                else err_bind (getitem existing_object ''disabled_at'') (\<lambda>d. Inr (d \<noteq> JNull))))
       (\<lambda>disabled_user.
     bnd (lift (if existing_object = JNull then Inr JNull else getitem existing_object ''id''))
       (\<lambda>cur_id.
     ret (existing_object, disabled_user, cur_id))))"

definition user_new_object ::
  "string \<Rightarrow> string option \<Rightarrow> string option \<Rightarrow> string option \<Rightarrow> (string \<times> json) list" where
  "user_new_object email first_name last_name app_scope_id =
     (let new_object = [(''email'', JStr email)];
          new_object = (if first_name \<noteq> None
                        then setitem ''first_name'' (of_str first_name) new_object else new_object);
          new_object = (if last_name \<noteq> None
                        then setitem ''last_name'' (of_str last_name) new_object else new_object);
          new_object = (if app_scope_id \<noteq> None
                        then setitem ''app_scope_id'' (of_str app_scope_id) new_object else new_object)
      in new_object)"

definition user_scope_error :: string where
  "user_scope_error =
     ''You specified an app scope name that does not exist. Try '' @
     ''again with a valid name or exclude both app_scope_name '' @
     ''and app_scope_id to create a Service Provider user. Only '' @
     ''root scopes are allowed. For example, Default is valid '' @
     ''but Default:Datacenter is not a valid scope name for '' @
     ''user accounts.''"

text \<open>
  \<open>if app_scope_name:\<close> resolve the scope name. The result is \<open>new_object\<close> and the
  value of \<open>module.params['app_scope_id']\<close> afterwards.
\<close>

definition user_resolve_scope ::
  "'s api \<Rightarrow> string option \<Rightarrow> string option \<Rightarrow> (string \<times> json) list
     \<Rightarrow> ('s, (string \<times> json) list \<times> json) prog" where
  "user_resolve_scope api app_scope_id app_scope_name new_object =
     (if truthy (of_str app_scope_name) then
        bnd (get_object api (Target TETRATION_API_SCOPES) (JObj [(''name'', of_str app_scope_name)])
               JNull JNull) (\<lambda>app_scope.
        if app_scope = JNull \<or> CHR '':'' \<in> set (case app_scope_name of Some n \<Rightarrow> n | None \<Rightarrow> [])
        then throw (FailJson user_scope_error [])
        else bnd (lift (getitem app_scope ''id'')) (\<lambda>scope_id.
             ret (setitem ''app_scope_id'' scope_id new_object, scope_id)))
      else ret (new_object, of_str app_scope_id))"

text \<open>\<open>module.params[k] is not None and existing_object[k] != module.params[k]\<close>\<close>

definition user_field_differs :: "json \<Rightarrow> string \<times> json \<Rightarrow> error + bool" where
  "user_field_differs existing_object kv =
     (if snd kv \<noteq> JNull
      then err_bind (getitem existing_object (fst kv)) (\<lambda>x. Inr (x \<noteq> snd kv))
      else Inr False)"

definition user_update_needed :: "json \<Rightarrow> (string \<times> json) list \<Rightarrow> error + bool" where
  "user_update_needed existing_object params =
     err_bind (map_err (user_field_differs existing_object) params) (\<lambda>bs. Inr (list_ex (\<lambda>b. b) bs))"

definition user_present ::
  "'s api \<Rightarrow> bool \<Rightarrow> string \<Rightarrow> string option \<Rightarrow> string option \<Rightarrow> string option \<Rightarrow> string option
     \<Rightarrow> json \<Rightarrow> bool \<Rightarrow> json \<Rightarrow> ('s, result) prog" where
  "user_present api check_mode email first_name last_name app_scope_id app_scope_name
       existing_object disabled_user cur_id =
     bnd (user_resolve_scope api app_scope_id app_scope_name
            (user_new_object email first_name last_name app_scope_id))
       (\<lambda>(new_object, param_app_scope_id).
     bnd (if \<not> truthy existing_object then
            (if \<not> check_mode then
               bnd (run_method api ''post'' (Target TETRATION_API_USER) (JObj new_object))
                 (\<lambda>query_result.
               bnd (lift (getitem query_result ''id'')) (\<lambda>new_id. ret (True, new_id)))
             else ret (True, cur_id))
          else
            bnd (if disabled_user then
                   bnd (run_method api ''post'' (Format ''%s/%s/enable'' TETRATION_API_USER cur_id) JNull)
                     (\<lambda>_. ret True)
                 else ret False) (\<lambda>chg.
            bnd (lift (user_update_needed existing_object
                   [(''first_name'', of_str first_name), (''last_name'', of_str last_name),
                    (''app_scope_id'', param_app_scope_id)])) (\<lambda>update_needed.
            if update_needed then
              (if \<not> check_mode then
                 bnd (run_method api ''put'' (Format ''%s/%s'' TETRATION_API_USER cur_id)
                        (JObj new_object)) (\<lambda>_. ret (True, cur_id))
               else ret (True, cur_id))
            else ret (chg, cur_id))))
       (\<lambda>(chg, cur_id).
          if \<not> chg then ret \<lparr>changed = chg, object = existing_object\<rparr>
          else if check_mode then ret \<lparr>changed = chg, object = JObj new_object\<rparr>
          else bnd (run_method api ''get'' (Format ''%s/%s'' TETRATION_API_USER cur_id) JNull)
                 (\<lambda>query_result. ret \<lparr>changed = chg, object = query_result\<rparr>)))"

text \<open>\<open>now\<close> is the value of \<open>int(time.time())\<close>.\<close>

definition user_absent ::
  "'s api \<Rightarrow> bool \<Rightarrow> int \<Rightarrow> string \<Rightarrow> json \<Rightarrow> bool \<Rightarrow> json \<Rightarrow> ('s, result) prog" where
  "user_absent api check_mode now email existing_object disabled_user cur_id =
     (if truthy existing_object \<and> \<not> disabled_user then
        (if check_mode then
           bnd (lift (setitem_json existing_object ''disabled_at'' (JInt now))) (\<lambda>existing_object.
           ret \<lparr>changed = True, object = existing_object\<rparr>)
         else
           bnd (run_method api ''delete'' (Format ''%s/%s'' TETRATION_API_USER cur_id) JNull) (\<lambda>_.
           bnd (user_lookup api email) (\<lambda>existing_object.
           ret \<lparr>changed = True, object = existing_object\<rparr>)))
      else ret \<lparr>changed = False, object = existing_object\<rparr>)"

definition user_main ::
  "'s api \<Rightarrow> bool \<Rightarrow> int \<Rightarrow> state \<Rightarrow> string \<Rightarrow> string option \<Rightarrow> string option \<Rightarrow> string option
     \<Rightarrow> string option \<Rightarrow> ('s, result) prog" where
  "user_main api check_mode now state email first_name last_name app_scope_id app_scope_name =
     bnd (user_read api email) (\<lambda>(existing_object, disabled_user, cur_id).
     case state of
       present \<Rightarrow> user_present api check_mode email first_name last_name app_scope_id app_scope_name
                    existing_object disabled_user cur_id
     | absent \<Rightarrow> user_absent api check_mode now email existing_object disabled_user cur_id
     | query \<Rightarrow> ret \<lparr>changed = False, object = existing_object\<rparr>)"

section \<open>The role module\<close>

definition CAPABILITIES :: "(string \<times> string) list" where
  "CAPABILITIES =
     [(''read'', ''SCOPE_READ''), (''write'', ''SCOPE_WRITE''), (''execute'', ''EXECUTE''),
      (''developer'', ''DEVELOPER''), (''enforce'', ''ENFORCE''), (''owner'', ''SCOPE_OWNER'')]"

definition role_id_error :: string where
  "role_id_error =
     ''The ID specified does not exist. To create a new object, do '' @
     ''not specify an ID as Tetration will assign one to every new '' @
     ''object.''"

text \<open>The result is \<open>(existing_object, id)\<close>.\<close>

definition role_read ::
  "'s api \<Rightarrow> state \<Rightarrow> string option \<Rightarrow> string option \<Rightarrow> string option \<Rightarrow> ('s, json \<times> json) prog" where
  "role_read api state scope name id' =
     (if id' \<noteq> None then
        bnd (get_object api (Target TETRATION_API_ROLE) (JObj [(''id'', of_str id')]) JNull JNull)
          (\<lambda>existing_object.
        if truthy existing_object then
          bnd (run_method api ''get'' (Format ''%s/%s'' TETRATION_API_ROLE (of_str id')) JNull)
            (\<lambda>existing_object. ret (existing_object, of_str id'))
        else if state = present then throw (FailJson role_id_error [])
        else ret (existing_object, of_str id'))
      else if name \<noteq> None then
        bnd (get_object api (Target TETRATION_API_ROLE)
               (JObj [(''name'', of_str name), (''app_scope_id'', of_str scope)]) JNull JNull)
          (\<lambda>existing_object.
        if existing_object \<noteq> JNull then
          bnd (lift (getitem existing_object ''id'')) (\<lambda>cur_id.
          bnd (run_method api ''get'' (Format ''%s/%s'' TETRATION_API_ROLE cur_id) JNull)
            (\<lambda>existing_object. ret (existing_object, cur_id)))
        else ret (existing_object, of_str id'))
      else ret (JObj [], of_str id'))"

definition role_new_object :: "string option \<Rightarrow> string option \<Rightarrow> (string \<times> json) list" where
  "role_new_object name description =
     (let new_object = [];
          new_object = (if description \<noteq> None
                        then setitem ''description'' (of_str description) new_object else new_object);
          new_object = (if name \<noteq> None
                        then setitem ''name'' (of_str name) new_object else new_object)
      in new_object)"

text \<open>
  \<open>(name is not None and existing_object['name'] != name) or
  (description is not None and existing_object['description'] != description)\<close>
\<close>

definition role_differs :: "json \<Rightarrow> string option \<Rightarrow> string option \<Rightarrow> error + bool" where
  "role_differs existing_object name description =
     err_bind (if name \<noteq> None
               then err_bind (getitem existing_object ''name'') (\<lambda>v. Inr (v \<noteq> of_str name))
               else Inr False) (\<lambda>a.
     if a then Inr True
     else if description \<noteq> None
          then err_bind (getitem existing_object ''description'') (\<lambda>v. Inr (v \<noteq> of_str description))
          else Inr False)"

text \<open>Create or update the role itself. The result is \<open>(changed, new_object, id)\<close>.\<close>

definition role_upsert ::
  "'s api \<Rightarrow> bool \<Rightarrow> string option \<Rightarrow> string option \<Rightarrow> string option \<Rightarrow> json \<Rightarrow> json
     \<Rightarrow> ('s, bool \<times> (string \<times> json) list \<times> json) prog" where
  "role_upsert api check_mode scope name description existing_object cur_id =
     (let new_object = role_new_object name description in
      if \<not> truthy existing_object then
        (let new_object = (if of_str scope \<noteq> JStr []
                           then setitem ''app_scope_id'' (of_str scope) new_object else new_object) in
         if \<not> check_mode then
           bnd (run_method api ''post'' (Target TETRATION_API_ROLE) (JObj new_object))
             (\<lambda>query_result.
           bnd (lift (getitem query_result ''id'')) (\<lambda>new_id. ret (True, new_object, new_id)))
         else ret (True, new_object, cur_id))
      else
        bnd (lift (role_differs existing_object name description)) (\<lambda>differs.
        if differs then
          (if \<not> check_mode then
             bnd (run_method api ''put'' (Format ''%s/%s'' TETRATION_API_ROLE cur_id)
                    (JObj new_object)) (\<lambda>_. ret (True, new_object, cur_id))
           else ret (True, new_object, cur_id))
        else ret (False, new_object, cur_id)))"

text \<open>
  \<open>t\<close>: the (ability, app_scope_id) pairs of the existing record's capabilities, or the
  empty list when there is no record or it has no \<open>capabilities\<close> key.
\<close>

definition role_capability_pairs :: "json \<Rightarrow> error + (json \<times> json) list" where
  "role_capability_pairs existing_object =
     (if truthy existing_object then
        err_bind (py_in (JStr ''capabilities'') existing_object) (\<lambda>has.
        if has then
          err_bind (getitem existing_object ''capabilities'') (\<lambda>caps.
          err_bind (py_iter caps) (\<lambda>objs.
          map_err (\<lambda>obj. err_bind (getitem obj ''ability'') (\<lambda>a.
                          err_bind (getitem obj ''app_scope_id'') (\<lambda>sc. Inr (a, sc)))) objs))
        else Inr [])
      else Inr [])"

text \<open>\<open>if module.params['capability_ability'] is not None:\<close> the result is \<open>changed\<close>.\<close>

definition role_add_capability ::
  "'s api \<Rightarrow> bool \<Rightarrow> string option \<Rightarrow> string option \<Rightarrow> json \<Rightarrow> json \<Rightarrow> bool \<Rightarrow> ('s, bool) prog" where
  "role_add_capability api check_mode capability_appscope capability_ability existing_object cur_id chg =
     (case capability_ability of
        None \<Rightarrow> ret chg
      | Some ability \<Rightarrow>
          (case map_of CAPABILITIES ability of
             None \<Rightarrow> throw (KeyError ability)
           | Some my_ability \<Rightarrow>
               bnd (lift (role_capability_pairs existing_object)) (\<lambda>t.
               if (JStr my_ability, of_str capability_appscope) \<notin> set t then
                 (if \<not> check_mode then
                    bnd (run_method api ''post'' (Format ''%s/%s/capabilities'' TETRATION_API_ROLE cur_id)
                           (JObj [(''app_scope_id'', of_str capability_appscope),
                                  (''ability'', JStr my_ability)])) (\<lambda>_. ret True)
                  else ret True)
               else ret chg)))"

definition role_present ::
  "'s api \<Rightarrow> bool \<Rightarrow> string option \<Rightarrow> string option \<Rightarrow> string option \<Rightarrow> string option
     \<Rightarrow> string option \<Rightarrow> json \<Rightarrow> json \<Rightarrow> ('s, result) prog" where
  "role_present api check_mode scope name description capability_appscope capability_ability
       existing_object cur_id =
     bnd (role_upsert api check_mode scope name description existing_object cur_id)
       (\<lambda>(chg, new_object, cur_id).
     bnd (role_add_capability api check_mode capability_appscope capability_ability
            existing_object cur_id chg) (\<lambda>chg.
     if \<not> chg then ret \<lparr>changed = chg, object = existing_object\<rparr>
     else if check_mode then ret \<lparr>changed = chg, object = JObj new_object\<rparr>
     else bnd (run_method api ''get'' (Format ''%s/%s'' TETRATION_API_ROLE cur_id) JNull)
            (\<lambda>query_result. ret \<lparr>changed = chg, object = query_result\<rparr>)))"

definition role_absent :: "'s api \<Rightarrow> bool \<Rightarrow> json \<Rightarrow> json \<Rightarrow> ('s, result) prog" where
  "role_absent api check_mode existing_object cur_id =
     (if truthy existing_object then
        (if \<not> check_mode then
           bnd (run_method api ''delete'' (Format ''%s/%s'' TETRATION_API_ROLE cur_id) JNull) (\<lambda>_.
           ret \<lparr>changed = True, object = JNull\<rparr>)
         else ret \<lparr>changed = True, object = JNull\<rparr>)
      else ret \<lparr>changed = False, object = JNull\<rparr>)"

definition role_main ::
  "'s api \<Rightarrow> bool \<Rightarrow> state \<Rightarrow> string option \<Rightarrow> string option \<Rightarrow> string option \<Rightarrow> string option
     \<Rightarrow> string option \<Rightarrow> string option \<Rightarrow> ('s, result) prog" where
  "role_main api check_mode state scope name description id' capability_appscope capability_ability =
     bnd (role_read api state scope name id') (\<lambda>(existing_object, cur_id).
     case state of
       present \<Rightarrow> role_present api check_mode scope name description capability_appscope
                    capability_ability existing_object cur_id
     | absent \<Rightarrow> role_absent api check_mode existing_object cur_id
     | query \<Rightarrow> ret \<lparr>changed = False, object = existing_object\<rparr>)"

section \<open>The user-role-binding module\<close>

definition user_role_error :: string where
  "user_role_error =
     ''The user whose email address you specified does not exist or is '' @
     ''disabled. Roles cannot be added or removed from a disabled or '' @
     ''nonexistent user.''"

text \<open>\<open>for role in requested_list: if role not in existing_list: ...\<close>\<close>

fun add_roles :: "'s api \<Rightarrow> bool \<Rightarrow> json \<Rightarrow> json \<Rightarrow> json list \<Rightarrow> bool \<Rightarrow> ('s, bool) prog" where
  "add_roles api check_mode cur_id existing_list [] chg = ret chg"
| "add_roles api check_mode cur_id existing_list (role # requested_list) chg =
     bnd (lift (py_in role existing_list)) (\<lambda>member.
     if \<not> member then
       (if \<not> check_mode then
          bnd (run_method api ''put'' (Format ''%s/%s/add_role'' TETRATION_API_USER cur_id)
                 (JObj [(''role_id'', role)])) (\<lambda>_.
          add_roles api check_mode cur_id existing_list requested_list True)
        else add_roles api check_mode cur_id existing_list requested_list True)
     else add_roles api check_mode cur_id existing_list requested_list chg)"

text \<open>\<open>for role in requested_list: if role in existing_list: ...\<close>\<close>

fun remove_roles ::
  "'s api \<Rightarrow> bool \<Rightarrow> json \<Rightarrow> json \<Rightarrow> json list \<Rightarrow> json list \<Rightarrow> bool \<Rightarrow> ('s, bool) prog" where
  "remove_roles api check_mode cur_id existing_list active_role_ids [] chg = ret chg"
| "remove_roles api check_mode cur_id existing_list active_role_ids (role # requested_list) chg =
     bnd (lift (py_in role existing_list)) (\<lambda>member.
     if member then
       (if \<not> check_mode \<and> role \<in> set active_role_ids then
          bnd (run_method api ''delete'' (Format ''%s/%s/remove_role'' TETRATION_API_USER cur_id)
                 (JObj [(''role_id'', role)])) (\<lambda>_.
          remove_roles api check_mode cur_id existing_list active_role_ids requested_list True)
        else remove_roles api check_mode cur_id existing_list active_role_ids requested_list True)
     else remove_roles api check_mode cur_id existing_list active_role_ids requested_list chg)"

definition user_role_main ::
  "'s api \<Rightarrow> bool \<Rightarrow> state \<Rightarrow> string \<Rightarrow> json list \<Rightarrow> ('s, result) prog" where
  "user_role_main api check_mode state email requested_list =
     bnd (get_object api (Target TETRATION_API_USER) (JObj [(''email'', JStr email)]) JNull JNull)
       (\<lambda>existing_object.
     if truthy existing_object then
       bnd (lift (getitem existing_object ''id'')) (\<lambda>cur_id.
       bnd (lift (getitem existing_object ''role_ids'')) (\<lambda>existing_list.
       bnd (case state of
              present \<Rightarrow> add_roles api check_mode cur_id existing_list requested_list False
            | absent \<Rightarrow>
                bnd (run_method api ''get'' (Target TETRATION_API_ROLE) JNull) (\<lambda>active_roles.
                bnd (lift (err_bind (py_iter active_roles) (map_err (\<lambda>role. getitem role ''id''))))
                  (\<lambda>active_role_ids.
                remove_roles api check_mode cur_id existing_list active_role_ids requested_list False))
            | query \<Rightarrow> ret False) (\<lambda>chg.
       bnd (run_method api ''get'' (Format ''%s/%s'' TETRATION_API_USER cur_id) JNull)
         (\<lambda>query_result. ret \<lparr>changed = chg, object = query_result\<rparr>))))
     else throw (FailJson user_role_error []))"

section \<open>The NAT-config module\<close>

definition nat_filter :: "json \<Rightarrow> string option \<Rightarrow> int option \<Rightarrow> int option \<Rightarrow> json" where
  "nat_filter vrf_id src_subnet src_port_range_start src_port_range_end =
     JObj [(''vrf_id'', vrf_id), (''src_subnet'', of_str src_subnet),
           (''src_port_range_start'', of_int_opt src_port_range_start),
           (''src_port_range_end'', of_int_opt src_port_range_end)]"

text \<open>Reading the current state. The result is \<open>(existing_object, vrf_id)\<close>.\<close>

definition nat_read ::
  "'s api \<Rightarrow> string option \<Rightarrow> int option \<Rightarrow> int option \<Rightarrow> string option \<Rightarrow> int option
     \<Rightarrow> string option \<Rightarrow> ('s, json \<times> json) prog" where
  "nat_read api src_subnet src_port_range_start src_port_range_end vrf_name vrf_id nat_config_id =
     (if truthy (of_str nat_config_id) then
        bnd (get_object api (Target TETRATION_API_AGENT_NAT_CONFIG)
               (JObj [(''id'', of_str nat_config_id)]) JNull (JStr ''results''))
          (\<lambda>existing_object. ret (existing_object, of_int_opt vrf_id))
      else if truthy (of_int_opt vrf_id) then
        bnd (get_object api (Target TETRATION_API_AGENT_NAT_CONFIG)
               (nat_filter (of_int_opt vrf_id) src_subnet src_port_range_start src_port_range_end)
               JNull (JStr ''results''))
          (\<lambda>existing_object. ret (existing_object, of_int_opt vrf_id))
      else
        bnd (get_object api (Target TETRATION_API_TENANT) (JObj [(''name'', of_str vrf_name)])
               JNull JNull) (\<lambda>existing_object.
        if \<not> truthy existing_object
        then throw (FailJson ''A vrf could not be found matching vrf name: %s'' [of_str vrf_name])
        else
          bnd (lift (getitem existing_object ''id'')) (\<lambda>vrf_id.
          bnd (get_object api (Target TETRATION_API_AGENT_NAT_CONFIG)
                 (nat_filter vrf_id src_subnet src_port_range_start src_port_range_end)
                 JNull (JStr ''results''))
            (\<lambda>existing_object. ret (existing_object, vrf_id)))))"

definition nat_present ::
  "'s api \<Rightarrow> bool \<Rightarrow> string option \<Rightarrow> int option \<Rightarrow> int option \<Rightarrow> json \<Rightarrow> json \<Rightarrow> ('s, result) prog" where
  "nat_present api check_mode src_subnet src_port_range_start src_port_range_end existing_object vrf_id =
     (let new_object = JObj [(''src_subnet'', of_str src_subnet),
                             (''src_port_range_start'', of_int_opt src_port_range_start),
                             (''src_port_range_end'', of_int_opt src_port_range_end),
                             (''vrf_id'', vrf_id)] in
      if \<not> truthy existing_object then
        (if \<not> check_mode then
           bnd (run_method api ''post'' (Target TETRATION_API_AGENT_NAT_CONFIG) new_object)
             (\<lambda>post_result. ret \<lparr>changed = True, object = post_result\<rparr>)
         else ret \<lparr>changed = True, object = new_object\<rparr>)
      else ret \<lparr>changed = False, object = existing_object\<rparr>)"

definition nat_absent :: "'s api \<Rightarrow> bool \<Rightarrow> json \<Rightarrow> ('s, result) prog" where
  "nat_absent api check_mode existing_object =
     (if \<not> truthy existing_object then ret \<lparr>changed = False, object = JNull\<rparr>
      else if \<not> check_mode then
        bnd (lift (getitem existing_object ''id'')) (\<lambda>nat_id.
        bnd (run_method api ''delete'' (Format ''%s/%s'' TETRATION_API_AGENT_NAT_CONFIG nat_id) JNull)
          (\<lambda>_. ret \<lparr>changed = True, object = JNull\<rparr>))
      else ret \<lparr>changed = True, object = JNull\<rparr>)"

definition nat_absent_error :: string where
  "nat_absent_error =
     ''Either a valid nat config id or vrf, src_subnet, src_port_range_start, and '' @
     ''src_port_range_end is required for state '' @ [CHR 0x27] @ ''absent'' @ [CHR 0x27]"

definition nat_main ::
  "'s api \<Rightarrow> bool \<Rightarrow> state \<Rightarrow> string option \<Rightarrow> int option \<Rightarrow> int option \<Rightarrow> string option \<Rightarrow> int option
     \<Rightarrow> string option \<Rightarrow> ('s, result) prog" where
  "nat_main api check_mode state src_subnet src_port_range_start src_port_range_end vrf_name vrf_id
       nat_config_id =
     (if state = absent \<and> \<not> truthy (of_str nat_config_id)
          \<and> \<not> (truthy (of_int_opt vrf_id) \<or> truthy (of_str vrf_name))
          \<and> \<not> (truthy (of_str src_subnet) \<and> truthy (of_int_opt src_port_range_end)
                 \<and> truthy (of_int_opt src_port_range_start))
      then throw (FailJson nat_absent_error [])
      else
        bnd (nat_read api src_subnet src_port_range_start src_port_range_end vrf_name vrf_id
               nat_config_id) (\<lambda>(existing_object, vrf_id).
        case state of
          present \<Rightarrow> nat_present api check_mode src_subnet src_port_range_start src_port_range_end
                       existing_object vrf_id
        | absent \<Rightarrow> nat_absent api check_mode existing_object
        | query \<Rightarrow> ret \<lparr>changed = False, object = existing_object\<rparr>))"

section \<open>The interface-intent module\<close>

text \<open>
  \<open>for idx, intent in enumerate(current_intents)\<close>: the first intent of the VRF gives
  \<open>target_object_index\<close>, and \<open>result['changed']\<close> is set when its inventory filter differs.
  The result is \<open>(target_object_index, changed)\<close>.
\<close>

fun intent_find :: "json \<Rightarrow> json \<Rightarrow> nat \<Rightarrow> json list \<Rightarrow> error + (nat option \<times> bool)" where
  "intent_find vrf_id inventory_filter_id idx [] = Inr (None, False)"
| "intent_find vrf_id inventory_filter_id idx (intent # rest) =
     err_bind (getitem intent ''vrf_id'') (\<lambda>v.
     if v = vrf_id then
       err_bind (getitem intent ''inventory_filter_id'') (\<lambda>f.
       Inr (Some idx, f \<noteq> inventory_filter_id))
     else intent_find vrf_id inventory_filter_id (Suc idx) rest)"

definition intent_resolve_vrf :: "'s api \<Rightarrow> state \<Rightarrow> string option \<Rightarrow> string option \<Rightarrow> ('s, json) prog" where
  "intent_resolve_vrf api state vrf_name vrf_id =
     bnd (if \<not> truthy (of_str vrf_id) then
            bnd (get_object api (Target TETRATION_API_TENANT) (JObj [(''name'', of_str vrf_name)])
                   JNull JNull) (\<lambda>vrf_object.
            if vrf_object = JNull then ret JNull else lift (getitem vrf_object ''id''))
          else ret (of_str vrf_id)) (\<lambda>vrf_id.
     if \<not> truthy vrf_id \<and> state \<noteq> query
     then throw (FailJson ''A VRF could not be found matching name: %s'' [of_str vrf_name])
     else ret vrf_id)"

definition intent_resolve_filter ::
  "'s api \<Rightarrow> state \<Rightarrow> string option \<Rightarrow> string option \<Rightarrow> ('s, json) prog" where
  "intent_resolve_filter api state inventory_filter_name inventory_filter_id =
     bnd (if \<not> truthy (of_str inventory_filter_id) then
            bnd (get_object api (Target TETRATION_API_SCOPES) (JObj [(''name'', JStr ''Default'')])
                   JNull JNull) (\<lambda>scope_object.
            if \<not> truthy scope_object
            then throw (FailJson ''An app scope cannot be found with name: %s'' [JStr ''Default''])
            else
              bnd (lift (getitem scope_object ''id'')) (\<lambda>app_scope_id.
              bnd (get_object api (Target TETRATION_API_INVENTORY_FILTER)
                     (JObj [(''name'', of_str inventory_filter_name), (''app_scope_id'', app_scope_id)])
                     JNull JNull) (\<lambda>filter_object.
              if filter_object = JNull then ret JNull else lift (getitem filter_object ''id''))))
          else ret (of_str inventory_filter_id)) (\<lambda>inventory_filter_id.
     if \<not> truthy inventory_filter_id \<and> state \<noteq> query
     then throw (FailJson ''An inventory filter could not be found matching name: %s''
                   [of_str inventory_filter_name])
     else ret inventory_filter_id)"

text \<open>\<open>current_intents = list(current_intents['intents']) if current_intents else []\<close>\<close>

definition intent_list :: "'s api \<Rightarrow> ('s, json list) prog" where
  "intent_list api =
     bnd (run_method api ''get'' (Target TETRATION_API_INTERFACE_INTENTS) JNull) (\<lambda>current_intents.
     lift (if truthy current_intents
           then err_bind (getitem current_intents ''intents'') py_iter
           else Inr []))"

text \<open>\<open>current_intents[-1][key] = value\<close>\<close>

definition set_last :: "json list \<Rightarrow> string \<Rightarrow> json \<Rightarrow> error + json list" where
  "set_last current_intents k v =
     (if current_intents = [] then Inl (KeyError ''-1'')
      else err_bind (setitem_json (last current_intents) k v) (\<lambda>x. Inr (butlast current_intents @ [x])))"

text \<open>
  \<open>target_object_index\<close> is \<open>None\<close> until the loop finds an intent of the VRF, and each
  state compares it with \<open>>= 0\<close> before anything else.
\<close>

definition intent_present ::
  "python \<Rightarrow> 's api \<Rightarrow> bool \<Rightarrow> json \<Rightarrow> json \<Rightarrow> json list \<Rightarrow> nat option \<Rightarrow> bool
     \<Rightarrow> ('s, result) prog" where
  "intent_present py api check_mode vrf_id inventory_filter_id current_intents target_object_index chg =
     (let new_object = JObj [(''vrf_id'', vrf_id), (''inventory_filter_id'', inventory_filter_id)] in
      bnd (lift (index_ge_zero py target_object_index)) (\<lambda>found.
      if \<not> found \<or> chg then
        bnd (if \<not> chg then ret (current_intents @ [new_object])
             else (case target_object_index of
                     Some idx \<Rightarrow> ret (current_intents[idx := new_object])
                   | None \<Rightarrow> throw TypeError)) (\<lambda>current_intents.
        if \<not> check_mode then
          bnd (run_method api ''post'' (Target TETRATION_API_INTERFACE_INTENTS)
                 (JObj [(''intents'', JList current_intents)])) (\<lambda>post_result.
          bnd (run_method api ''get'' (Target TETRATION_API_INTERFACE_INTENTS) JNull) (\<lambda>r.
          ret \<lparr>changed = True, object = r\<rparr>))
        else
          bnd (get_object api (Target TETRATION_API_INVENTORY_FILTER)
                 (JObj [(''id'', inventory_filter_id)]) JNull JNull) (\<lambda>filter_object.
          bnd (get_object api (Target TETRATION_API_TENANT) (JObj [(''id'', vrf_id)]) JNull JNull)
            (\<lambda>vrf_object.
          bnd (lift (set_last current_intents ''inventory_filter'' filter_object))
            (\<lambda>current_intents.
          bnd (lift (getitem vrf_object ''name'')) (\<lambda>vrf_name.
          bnd (lift (set_last current_intents ''vrf_name'' vrf_name)) (\<lambda>current_intents.
          ret \<lparr>changed = True, object = JList current_intents\<rparr>))))))
      else ret \<lparr>changed = False, object = JList current_intents\<rparr>))"

text \<open>\<open>del current_intents[target_object_index]\<close> is reached with a position only.\<close>

definition intent_absent ::
  "python \<Rightarrow> 's api \<Rightarrow> bool \<Rightarrow> json \<Rightarrow> json \<Rightarrow> json list \<Rightarrow> nat option \<Rightarrow> bool
     \<Rightarrow> ('s, result) prog" where
  "intent_absent py api check_mode vrf_id inventory_filter_id current_intents target_object_index chg =
     bnd (lift (index_ge_zero py target_object_index)) (\<lambda>found.
     if found \<and> \<not> chg then
       (case target_object_index of
          Some idx \<Rightarrow>
            (let current_intents = take idx current_intents @ drop (Suc idx) current_intents in
             if \<not> check_mode then
               bnd (run_method api ''post'' (Target TETRATION_API_INTERFACE_INTENTS)
                      (JObj [(''intents'', JList current_intents)])) (\<lambda>post_result.
               ret \<lparr>changed = True, object = JList current_intents\<rparr>)
             else ret \<lparr>changed = True, object = JList current_intents\<rparr>)
        | None \<Rightarrow> throw TypeError)
     else if chg then
       throw (FailJson
         ''Inventory filter id %s does not match current filter associated with vrf %s config intent''
         [inventory_filter_id, vrf_id])
     else ret \<lparr>changed = chg, object = JList current_intents\<rparr>)"

definition intent_query ::
  "python \<Rightarrow> string \<Rightarrow> json list \<Rightarrow> nat option \<Rightarrow> bool \<Rightarrow> ('s, result) prog" where
  "intent_query py query_type current_intents target_object_index chg =
     (if query_type = ''single'' then
        bnd (lift (index_ge_zero py target_object_index)) (\<lambda>found.
        if found then
          (case target_object_index of
             Some idx \<Rightarrow>
               if idx < length current_intents
               then ret \<lparr>changed = chg, object = current_intents ! idx\<rparr>
               else throw (KeyError ''index'')
           | None \<Rightarrow> throw TypeError)
        else ret \<lparr>changed = chg, object = JNull\<rparr>)
      else ret \<lparr>changed = chg, object = JList current_intents\<rparr>)"

definition intent_main ::
  "python \<Rightarrow> 's api \<Rightarrow> bool \<Rightarrow> state \<Rightarrow> string option \<Rightarrow> string option \<Rightarrow> string option
     \<Rightarrow> string option \<Rightarrow> string \<Rightarrow> ('s, result) prog" where
  "intent_main py api check_mode state vrf_name vrf_id inventory_filter_name inventory_filter_id
       query_type =
     (if (state \<noteq> query \<or> query_type \<noteq> ''all'')
          \<and> \<not> (truthy (of_str vrf_name) \<or> truthy (of_str vrf_id))
      then throw (FailJson ''One of the following parameters is required: vrf_name or vrf_id'' [])
      else if (state \<noteq> query \<or> query_type \<noteq> ''all'')
          \<and> \<not> (truthy (of_str inventory_filter_name) \<or> truthy (of_str inventory_filter_id))
      then throw (FailJson
             ''One of the following parameters is required: inventory_filter_name or inventory_filter_id'' [])
      else
        bnd (intent_resolve_vrf api state vrf_name vrf_id) (\<lambda>vrf_id.
        bnd (intent_resolve_filter api state inventory_filter_name inventory_filter_id)
          (\<lambda>inventory_filter_id.
        bnd (intent_list api) (\<lambda>current_intents.
        bnd (lift (intent_find vrf_id inventory_filter_id 0 current_intents))
          (\<lambda>(target_object_index, chg).
        case state of
          present \<Rightarrow> intent_present py api check_mode vrf_id inventory_filter_id current_intents
                       target_object_index chg
        | absent \<Rightarrow> intent_absent py api check_mode vrf_id inventory_filter_id current_intents
                      target_object_index chg
        | query \<Rightarrow> intent_query py query_type current_intents target_object_index chg)))))"

section \<open>Running an invocation\<close>

text \<open>An invocation starts with no call issued.\<close>

definition run :: "('s, 'a) prog \<Rightarrow> 's \<Rightarrow> (error + 'a) \<times> 's world" where
  "run m s = m \<lparr>remote = s, calls = []\<rparr>"

definition outcome :: "('s, 'a) prog \<Rightarrow> 's \<Rightarrow> error + 'a" where
  "outcome m s = fst (run m s)"

definition issued :: "('s, 'a) prog \<Rightarrow> 's \<Rightarrow> call list" where
  "issued m s = calls (snd (run m s))"

definition after :: "('s, 'a) prog \<Rightarrow> 's \<Rightarrow> 's" where
  "after m s = remote (snd (run m s))"

section \<open>A reference remote\<close>

text \<open>
  Modelled from the spec: the remote platform and the client in front of it, which are not
  part of the modules. Each collection is the list of its records.
  \<open>get_object\<close> answers the first record that carries every field of the filter, or
  \<open>None\<close>; a disabled user is listed only with \<open>include_disabled\<close>. POST on a collection
  creates a record, PUT on a record updates the fields given, DELETE removes the record
  (a user is disabled instead), and the sub-actions enable a user, add a capability to a
  role and add or remove a role of a user. The interface intents are read and written as a
  whole, under the key \<open>intents\<close>. A record is addressed by the path that
  \<open>'%s/%s' % (target, id)\<close> spells, so that the identifiers \<open>5\<close> and \<open>'5'\<close> address the
  same record; a new record gets an identifier longer than every identifier of its collection.
\<close>

text \<open>\<open>'%s' % id\<close> for an integer, a string or \<open>None\<close>.\<close>

definition digit_char :: "nat \<Rightarrow> char" where
  "digit_char d = ''0123456789'' ! d"

fun show_nat :: "nat \<Rightarrow> string" where
  "show_nat n = (if n < 10 then [digit_char n]
                 else show_nat (n div 10) @ [digit_char (n mod 10)])"

declare show_nat.simps [simp del]

definition show_int :: "int \<Rightarrow> string" where
  "show_int i = (if i < 0 then CHR ''-'' # show_nat (nat (- i)) else show_nat (nat i))"

fun path_of :: "json \<Rightarrow> string option" where
  "path_of JNull = Some ''None''"
| "path_of (JInt i) = Some (show_int i)"
| "path_of (JStr s) = Some s"
| "path_of _ = None"

type_synonym remote_model = "endpoint \<Rightarrow> json list"

definition matches :: "json \<Rightarrow> json \<Rightarrow> bool" where
  "matches flt r =
     (case flt of JObj kvs \<Rightarrow> list_all (\<lambda>kv. getitem r (fst kv) = Inr (snd kv)) kvs | _ \<Rightarrow> True)"

definition hidden :: "json \<Rightarrow> json \<Rightarrow> bool" where
  "hidden params r =
     (getitem params ''include_disabled'' \<noteq> Inr (JStr ''true'')
      \<and> (case getitem r ''disabled_at'' of Inr d \<Rightarrow> d \<noteq> JNull | Inl e \<Rightarrow> False))"

definition id_path :: "json \<Rightarrow> string option" where
  "id_path r = (case getitem r ''id'' of Inr j \<Rightarrow> path_of j | Inl e \<Rightarrow> None)"

definition has_id :: "json \<Rightarrow> json \<Rightarrow> bool" where
  "has_id i r = (id_path r \<noteq> None \<and> id_path r = path_of i)"

definition merge :: "json \<Rightarrow> json \<Rightarrow> json" where
  "merge payload r =
     (case payload of
        JObj new \<Rightarrow> (case r of JObj old \<Rightarrow> JObj (foldl (\<lambda>acc kv. setitem (fst kv) (snd kv) acc) old new)
                     | _ \<Rightarrow> r)
      | _ \<Rightarrow> r)"

definition append_to :: "string \<Rightarrow> json \<Rightarrow> json \<Rightarrow> json" where
  "append_to k v r =
     (case getitem r k of Inr (JList xs) \<Rightarrow> merge (JObj [(k, JList (xs @ [v]))]) r
      | _ \<Rightarrow> merge (JObj [(k, JList [v])]) r)"

definition remove_from :: "string \<Rightarrow> json \<Rightarrow> json \<Rightarrow> json" where
  "remove_from k v r =
     (case getitem r k of Inr (JList xs) \<Rightarrow> merge (JObj [(k, JList (filter (\<lambda>x. x \<noteq> v) xs))]) r
      | _ \<Rightarrow> r)"

definition update_record :: "(json \<Rightarrow> json) \<Rightarrow> json \<Rightarrow> json list \<Rightarrow> json list" where
  "update_record f i rs = map (\<lambda>r. if has_id i r then f r else r) rs"

definition fresh_id :: "json list \<Rightarrow> json" where
  "fresh_id rs =
     JStr (replicate (Suc (foldr (\<lambda>r n. max (case id_path r of Some p \<Rightarrow> length p | None \<Rightarrow> 0) n) rs 0)) (CHR ''0''))"

definition defaults_of :: "endpoint \<Rightarrow> json list \<Rightarrow> (string \<times> json) list" where
  "defaults_of e rs =
     (if e = TETRATION_API_USER
      then [(''id'', fresh_id rs), (''disabled_at'', JNull), (''role_ids'', JList [])]
      else if e = TETRATION_API_ROLE
      then [(''id'', fresh_id rs), (''app_scope_id'', JStr []), (''capabilities'', JList [])]
      else [(''id'', fresh_id rs)])"

definition model_get_object ::
  "target \<Rightarrow> json \<Rightarrow> json \<Rightarrow> json \<Rightarrow> remote_model \<Rightarrow> (error + json) \<times> remote_model" where
  "model_get_object t flt params sub_element s =
     (case t of
        Target e \<Rightarrow>
          (case filter (\<lambda>r. matches flt r \<and> \<not> hidden params r) (s e) of
             [] \<Rightarrow> (Inr JNull, s)
           | r # rs \<Rightarrow> (Inr r, s))
      | Format f e i \<Rightarrow> (Inl (RemoteError ''not a collection''), s))"

definition model_get :: "target \<Rightarrow> remote_model \<Rightarrow> (error + json) \<times> remote_model" where
  "model_get t s =
     (case t of
        Target e \<Rightarrow>
          (Inr (if e = TETRATION_API_INTERFACE_INTENTS then JObj [(''intents'', JList (s e))]
                else JList (s e)), s)
      | Format f e i \<Rightarrow>
          (if f = ''%s/%s'' then
             (case filter (has_id i) (s e) of
                [] \<Rightarrow> (Inl (RemoteError ''not found''), s)
              | r # rs \<Rightarrow> (Inr r, s))
           else (Inl (RemoteError ''bad request''), s)))"

definition model_post :: "target \<Rightarrow> json \<Rightarrow> remote_model \<Rightarrow> (error + json) \<times> remote_model" where
  "model_post t payload s =
     (case t of
        Target e \<Rightarrow>
          (if e = TETRATION_API_INTERFACE_INTENTS then
             (case getitem payload ''intents'' of
                Inr (JList xs) \<Rightarrow> (Inr JNull, s(e := xs))
              | _ \<Rightarrow> (Inl (RemoteError ''bad request''), s))
           else (let r = merge payload (JObj (defaults_of e (s e))) in (Inr r, s(e := s e @ [r]))))
      | Format f e i \<Rightarrow>
          (if f = ''%s/%s/enable''
           then (Inr JNull, s(e := update_record (merge (JObj [(''disabled_at'', JNull)])) i (s e)))
           else if f = ''%s/%s/capabilities''
           then (Inr payload, s(e := update_record (append_to ''capabilities'' payload) i (s e)))
           else (Inl (RemoteError ''bad request''), s)))"

definition model_put :: "target \<Rightarrow> json \<Rightarrow> remote_model \<Rightarrow> (error + json) \<times> remote_model" where
  "model_put t payload s =
     (case t of
        Target e \<Rightarrow> (Inl (RemoteError ''bad request''), s)
      | Format f e i \<Rightarrow>
          (if f = ''%s/%s''
           then (Inr JNull, s(e := update_record (merge payload) i (s e)))
           else if f = ''%s/%s/add_role'' then
             (case getitem payload ''role_id'' of
                Inr role \<Rightarrow> (Inr JNull, s(e := update_record (append_to ''role_ids'' role) i (s e)))
              | Inl err \<Rightarrow> (Inl (RemoteError ''bad request''), s))
           else (Inl (RemoteError ''bad request''), s)))"

definition model_delete :: "target \<Rightarrow> json \<Rightarrow> remote_model \<Rightarrow> (error + json) \<times> remote_model" where
  "model_delete t payload s =
     (case t of
        Target e \<Rightarrow> (Inl (RemoteError ''bad request''), s)
      | Format f e i \<Rightarrow>
          (if f = ''%s/%s'' then
             (if e = TETRATION_API_USER
              then (Inr JNull, s(e := update_record (merge (JObj [(''disabled_at'', JInt 1)])) i (s e)))
              else (Inr JNull, s(e := filter (\<lambda>r. \<not> has_id i r) (s e))))
           else if f = ''%s/%s/remove_role'' then
             (case getitem payload ''role_id'' of
                Inr role \<Rightarrow> (Inr JNull, s(e := update_record (remove_from ''role_ids'' role) i (s e)))
              | Inl err \<Rightarrow> (Inl (RemoteError ''bad request''), s))
           else (Inl (RemoteError ''bad request''), s)))"

definition model_run_method ::
  "string \<Rightarrow> target \<Rightarrow> json \<Rightarrow> remote_model \<Rightarrow> (error + json) \<times> remote_model" where
  "model_run_method m t payload s =
     (if m = ''get'' then model_get t s
      else if m = ''post'' then model_post t payload s
      else if m = ''put'' then model_put t payload s
      else if m = ''delete'' then model_delete t payload s
      else (Inl (RemoteError ''bad method''), s))"

definition model_api :: "remote_model api" where
  "model_api = \<lparr>api_get_object = model_get_object, api_run_method = model_run_method\<rparr>"

definition empty_remote :: remote_model where
  "empty_remote = (\<lambda>e. [])"

text \<open>
  Tenants of the reference remote in its regular states: every tenant carries an integer
  \<open>id\<close> and no two tenants share one. \<open>visible_named\<close> is what a lookup by name matches.
\<close>

definition has_int_id :: "json \<Rightarrow> bool" where
  "has_int_id r = (case getitem r ''id'' of Inr (JInt k) \<Rightarrow> True | _ \<Rightarrow> False)"

definition tenant_wf :: "json list \<Rightarrow> bool" where
  "tenant_wf rs = (list_all has_int_id rs \<and> distinct (map (\<lambda>r. getitem r ''id'') rs))"

definition visible_named :: "string \<Rightarrow> json \<Rightarrow> bool" where
  "visible_named n r = (matches (JObj [(''name'', JStr n)]) r \<and> \<not> hidden JNull r)"

text \<open>Every call a program adds to the list of calls satisfies \<open>P\<close>, from any starting point.\<close>

definition emits_only :: "(call \<Rightarrow> bool) \<Rightarrow> ('s, 'a) prog \<Rightarrow> bool" where
  "emits_only P m = (\<forall>w. \<exists>cs. calls (snd (m w)) = calls w @ cs \<and> list_all P cs)"

text \<open>
  What could take a capability away from a role: a call on the capabilities sub-resource
  that is not a POST, a payload that carries the field \<open>capabilities\<close>, and a DELETE.
\<close>

fun on_capabilities :: "call \<Rightarrow> bool" where
  "on_capabilities (GetObject t flt) = False"
| "on_capabilities (RunMethod m (Target e) payload) = False"
| "on_capabilities (RunMethod m (Format f e i) payload) = (f = ''%s/%s/capabilities'')"

fun is_post :: "call \<Rightarrow> bool" where
  "is_post (GetObject t flt) = False"
| "is_post (RunMethod m t payload) = (m = ''post'')"

fun carries_capabilities :: "call \<Rightarrow> bool" where
  "carries_capabilities (GetObject t flt) = False"
| "carries_capabilities (RunMethod m t payload) =
     (case getitem payload ''capabilities'' of Inr v \<Rightarrow> True | Inl e \<Rightarrow> False)"

text \<open>
  The capabilities a role record lists, and the comparison of the roles of two states of
  the reference remote: every role of the first state is in the second, at its place and
  under its identifier, with every capability it had. \<open>keeps\<close> says that a program
  takes every remote state to one that compares so.
\<close>

definition capabilities_of :: "json \<Rightarrow> json list" where
  "capabilities_of r = (case getitem r ''capabilities'' of Inr (JList xs) \<Rightarrow> xs | _ \<Rightarrow> [])"

definition role_kept :: "json \<Rightarrow> json \<Rightarrow> bool" where
  "role_kept r r' = (id_path r' = id_path r \<and> set (capabilities_of r) \<subseteq> set (capabilities_of r'))"

definition roles_kept :: "remote_model \<Rightarrow> remote_model \<Rightarrow> bool" where
  "roles_kept s s' =
     (length (s TETRATION_API_ROLE) \<le> length (s' TETRATION_API_ROLE)
      \<and> list_all2 role_kept (s TETRATION_API_ROLE)
            (take (length (s TETRATION_API_ROLE)) (s' TETRATION_API_ROLE)))"

definition keeps :: "('s \<Rightarrow> 's \<Rightarrow> bool) \<Rightarrow> ('s, 'a) prog \<Rightarrow> bool" where
  "keeps R m = (\<forall>w. R (remote w) (remote (snd (m w))))"

section \<open>Remote states used as examples\<close>

text \<open>One user, disabled (soft-deleted).\<close>

definition disabled_bob :: remote_model where
  "disabled_bob = empty_remote(TETRATION_API_USER :=
     [JObj [(''id'', JInt 1), (''email'', JStr ''bob@example.com''),
            (''disabled_at'', JInt 1541993885), (''role_ids'', JList [])]])"

text \<open>Two scopes, a root scope and a scope below it.\<close>

definition scoped_remote :: remote_model where
  "scoped_remote = empty_remote(TETRATION_API_SCOPES :=
     [JObj [(''id'', JStr ''5bb7''), (''name'', JStr ''Default'')],
      JObj [(''id'', JStr ''5bb8''), (''name'', JStr ''Default:Datacenter'')]])"

text \<open>The tenant ACME and two interface intents, the second one for ACME with filter f1.\<close>

definition acme_remote :: remote_model where
  "acme_remote = (empty_remote
     (TETRATION_API_TENANT := [JObj [(''id'', JInt 676740), (''name'', JStr ''ACME'')]]))
     (TETRATION_API_INTERFACE_INTENTS :=
        [JObj [(''vrf_id'', JInt 1), (''inventory_filter_id'', JStr ''f0'')],
         JObj [(''vrf_id'', JInt 676740), (''inventory_filter_id'', JStr ''f1'')]])"

text \<open>An enabled user holding the role r1, and the roles r1 and r2.\<close>

definition alice_remote :: remote_model where
  "alice_remote = (empty_remote
     (TETRATION_API_USER :=
        [JObj [(''id'', JStr ''u1''), (''email'', JStr ''alice@example.com''),
               (''disabled_at'', JNull), (''role_ids'', JList [JStr ''r1''])]]))
     (TETRATION_API_ROLE :=
        [JObj [(''id'', JStr ''r1''), (''name'', JStr ''reader''), (''app_scope_id'', JStr []),
               (''capabilities'', JList [JObj [(''app_scope_id'', JStr ''s1''), (''ability'', JStr ''SCOPE_READ'')]])],
         JObj [(''id'', JStr ''r2''), (''name'', JStr ''writer''), (''app_scope_id'', JStr []),
               (''capabilities'', JList [])]])"

text \<open>The tenant Eng as the tenant module creates it, and the role auditor with read on s1.\<close>

definition eng_remote :: remote_model where
  "eng_remote = empty_remote(TETRATION_API_TENANT :=
     [JObj [(''id'', JInt 676769), (''switch_vrfs'', JList []), (''name'', JStr ''Eng'')]])"

definition auditor_remote :: remote_model where
  "auditor_remote = empty_remote(TETRATION_API_ROLE :=
     [JObj [(''id'', JInt 1), (''app_scope_id'', JStr []),
            (''capabilities'', JList [JObj [(''app_scope_id'', JStr ''s1''), (''ability'', JStr ''SCOPE_READ'')]]),
            (''name'', JStr ''auditor'')]])"

section \<open>Identifiers in paths\<close>

text \<open>The decimal rendering of an integer determines it, so that two integer identifiers
  address the same record only when they are equal.\<close>

lemma digits_val_snoc: "digits_val (xs @ [c]) = 10 * digits_val xs + digit_val c"
  by (simp add: digits_val_def)

lemma digit_cases: "(d :: nat) < 10 \<Longrightarrow> d \<in> {0, 1, 2, 3, 4, 5, 6, 7, 8, 9}"
  by auto

lemma digit_val_char: "(d :: nat) < 10 \<Longrightarrow> digit_val (digit_char d) = int d"
  using digit_cases [of d] by (auto simp: digit_val_def digit_char_def)

lemma digit_char_not_minus: "(d :: nat) < 10 \<Longrightarrow> digit_char d \<noteq> CHR ''-''"
  using digit_cases [of d] by (auto simp: digit_char_def)

lemma digits_val_show_nat: "digits_val (show_nat n) = int n"
proof (induction n rule: show_nat.induct)
  case (1 n)
  show ?case
  proof (cases "n < 10")
    case True
    then show ?thesis
      by (subst show_nat.simps) (simp add: digits_val_def digit_val_char)
  next
    case False
    have "digits_val (show_nat n)
            = 10 * digits_val (show_nat (n div 10)) + digit_val (digit_char (n mod 10))"
      using False by (subst show_nat.simps) (simp add: digits_val_snoc)
    also have "\<dots> = 10 * int (n div 10) + int (n mod 10)"
      using 1 [OF False] by (simp add: digit_val_char)
    also have "\<dots> = int n" by presburger
    finally show ?thesis .
  qed
qed

lemma show_nat_no_minus: "CHR ''-'' \<notin> set (show_nat n)"
proof (induction n rule: show_nat.induct)
  case (1 n)
  show ?case
  proof (cases "n < 10")
    case True
    then show ?thesis using digit_char_not_minus [of n]
      by (subst show_nat.simps) auto
  next
    case False
    then show ?thesis using 1 [OF False] digit_char_not_minus [of "n mod 10"]
      by (subst show_nat.simps) auto
  qed
qed

lemma show_nat_eq: "show_nat m = show_nat n \<longleftrightarrow> m = n"
proof
  assume "show_nat m = show_nat n"
  then have "digits_val (show_nat m) = digits_val (show_nat n)" by simp
  then show "m = n" by (simp add: digits_val_show_nat)
qed simp

lemma show_int_eq: "show_int i = show_int j \<longleftrightarrow> i = j"
proof
  assume eq: "show_int i = show_int j"
  show "i = j"
  proof (cases "i < 0"; cases "j < 0")
    assume "i < 0" "j < 0"
    with eq have "nat (- i) = nat (- j)" by (simp add: show_int_def show_nat_eq)
    with \<open>i < 0\<close> \<open>j < 0\<close> show ?thesis by simp
  next
    assume a: "i < 0" "\<not> j < 0"
    with eq have "CHR ''-'' # show_nat (nat (- i)) = show_nat (nat j)"
      by (simp add: show_int_def)
    then have "CHR ''-'' \<in> set (show_nat (nat j))" by (metis list.set_intros(1))
    then show ?thesis using show_nat_no_minus by simp
  next
    assume a: "\<not> i < 0" "j < 0"
    with eq have "show_nat (nat i) = CHR ''-'' # show_nat (nat (- j))"
      by (simp add: show_int_def)
    then have "CHR ''-'' \<in> set (show_nat (nat i))" by (metis list.set_intros(1))
    then show ?thesis using show_nat_no_minus by simp
  next
    assume "\<not> i < 0" "\<not> j < 0"
    with eq have "nat i = nat j" by (simp add: show_int_def show_nat_eq)
    with \<open>\<not> i < 0\<close> \<open>\<not> j < 0\<close> show ?thesis by simp
  qed
qed simp

lemma has_id_int: "getitem r ''id'' = Inr (JInt k) \<Longrightarrow> has_id (JInt i) r \<longleftrightarrow> i = k"
  by (auto simp: has_id_def id_path_def show_int_eq)

lemma has_id_str: "getitem r ''id'' = Inr (JStr k) \<Longrightarrow> has_id (JStr i) r \<longleftrightarrow> i = k"
  by (auto simp: has_id_def id_path_def)

section \<open>Properties of the tenant module\<close>

lemma generate_id_props:
  "generate_id i ids \<le> i \<and> JInt (generate_id i ids) \<notin> set ids
     \<and> (\<forall>k. generate_id i ids < k \<and> k \<le> i \<longrightarrow> JInt k \<in> set ids)"
proof (induction i ids rule: generate_id.induct)
  case (1 i existing_ids)
  show ?case
  proof (cases "JInt i \<in> set existing_ids")
    case True
    with 1 have ih: "generate_id (i - 1) existing_ids \<le> i - 1"
      "JInt (generate_id (i - 1) existing_ids) \<notin> set existing_ids"
      "\<forall>k. generate_id (i - 1) existing_ids < k \<and> k \<le> i - 1 \<longrightarrow> JInt k \<in> set existing_ids"
      by auto
    have eq: "generate_id i existing_ids = generate_id (i - 1) existing_ids"
      using True by (subst generate_id.simps) simp
    have "JInt k \<in> set existing_ids" if "generate_id (i - 1) existing_ids < k" "k \<le> i" for k
    proof (cases "k = i")
      case True
      with \<open>JInt i \<in> set existing_ids\<close> show ?thesis by simp
    next
      case False
      with that have "k \<le> i - 1" by simp
      with that ih(3) show ?thesis by blast
    qed
    with ih eq show ?thesis by auto
  next
    case False
    then have "generate_id i existing_ids = i" by (subst generate_id.simps) simp
    with False show ?thesis by auto
  qed
qed

text \<open>
  Claim C8. A tenant asked for by name alone (no \<open>id\<close>), with no tenant of that name on
  the remote, is created under the largest integer not above 676769 that is not the \<open>id\<close>
  of a listed tenant: the loop that walks down from the constant terminates on every
  list (\<open>generate_id\<close> is total), its result is fresh, every integer above it up to the
  constant is taken, and it is the \<open>id\<close> of the record that is posted.
\<close>

theorem tenant_generated_id:
  assumes "api_get_object api (Target TETRATION_API_TENANT) (JObj [(''name'', JStr n)]) JNull JNull s
             = (Inr r, s1)"
      and "\<not> truthy r"
      and "n \<noteq> []"
      and "api_run_method api ''get'' (Target TETRATION_API_TENANT) JNull s1 = (Inr (JList xs), s2)"
      and "map_err (\<lambda>x. getitem x ''id'') xs = Inr existing_ids"
  shows "\<exists>g. g \<le> 676769 \<and> JInt g \<notin> set existing_ids
            \<and> (\<forall>k. g < k \<and> k \<le> 676769 \<longrightarrow> JInt k \<in> set existing_ids)
            \<and> RunMethod ''post'' (Target TETRATION_API_TENANT)
                 (JObj (setitem ''id'' (JInt g) (tenant_new_object (Some n) switch_vrfs)))
               \<in> set (issued (tenant_main py api False present (Some n) None switch_vrfs query_type) s)"
proof -
  let ?g = "generate_id 676769 existing_ids"
  have rd: "tenant_read py api present (Some n) None query_type \<lparr>remote = s, calls = []\<rparr>
          = (Inr (r, JNull), \<lparr>remote = s1, calls = [GetObject (Target TETRATION_API_TENANT) (JObj [(''name'', JStr n)])]\<rparr>)"
    using assms(1,2) by (simp add: tenant_read_def bnd_def get_object_def ret_def lift_def)
  have gen: "tenant_generate api JNull \<lparr>remote = s1, calls = cs\<rparr>
          = (Inr (JInt ?g), \<lparr>remote = s2, calls = cs @ [RunMethod ''get'' (Target TETRATION_API_TENANT) JNull]\<rparr>)" for cs
    using assms(4,5) by (simp add: tenant_generate_def bnd_def run_method_def ret_def lift_def)
  have pres: "RunMethod ''post'' (Target TETRATION_API_TENANT)
                 (JObj (setitem ''id'' (JInt ?g) (tenant_new_object (Some n) switch_vrfs)))
               \<in> set (calls (snd (tenant_present api False (Some n) switch_vrfs r (JInt ?g) \<lparr>remote = s2, calls = cs\<rparr>)))" for cs
    using assms(2)
    by (simp add: tenant_present_def bnd_def run_method_def ret_def lift_def Let_def
          split: prod.splits sum.splits)
  have "RunMethod ''post'' (Target TETRATION_API_TENANT)
                 (JObj (setitem ''id'' (JInt ?g) (tenant_new_object (Some n) switch_vrfs)))
               \<in> set (issued (tenant_main py api False present (Some n) None switch_vrfs query_type) s)"
    using pres assms(3) by (simp add: issued_def run_def tenant_main_def bnd_def rd gen)
  with generate_id_props [of 676769 existing_ids] show ?thesis by blast
qed


text \<open>Three tenants, two of them at the top of the range: the new tenant gets 676767.\<close>

theorem tenant_generated_id_witness:
  "\<exists>g. g \<le> 676769 \<and> JInt g \<notin> set [JInt 676769, JInt 5, JInt 676768]
      \<and> JInt (g + 1) \<in> set [JInt 676769, JInt 5, JInt 676768]
      \<and> RunMethod ''post'' (Target TETRATION_API_TENANT)
            (JObj (setitem ''id'' (JInt g) (tenant_new_object (Some ''Eng'') (Some []))))
          \<in> set (issued (tenant_main Python3 model_api False present (Some ''Eng'') None (Some []) ''single'')
                 (empty_remote(TETRATION_API_TENANT :=
                    [JObj [(''id'', JInt 676769), (''name'', JStr ''A'')],
                     JObj [(''id'', JInt 5), (''name'', JStr ''B'')],
                     JObj [(''id'', JInt 676768), (''name'', JStr ''C'')]])))"
proof -
  let ?s = "empty_remote(TETRATION_API_TENANT :=
                    [JObj [(''id'', JInt 676769), (''name'', JStr ''A'')],
                     JObj [(''id'', JInt 5), (''name'', JStr ''B'')],
                     JObj [(''id'', JInt 676768), (''name'', JStr ''C'')]])"
  have a: "api_get_object model_api (Target TETRATION_API_TENANT) (JObj [(''name'', JStr ''Eng'')]) JNull JNull ?s
             = (Inr JNull, ?s)"
    by (simp add: model_api_def model_get_object_def matches_def empty_remote_def)
  have b: "api_run_method model_api ''get'' (Target TETRATION_API_TENANT) JNull ?s
             = (Inr (JList [JObj [(''id'', JInt 676769), (''name'', JStr ''A'')],
                     JObj [(''id'', JInt 5), (''name'', JStr ''B'')],
                     JObj [(''id'', JInt 676768), (''name'', JStr ''C'')]]), ?s)"
    by (simp add: model_api_def model_run_method_def model_get_def empty_remote_def)
  have c: "map_err (\<lambda>x. getitem x ''id'') [JObj [(''id'', JInt 676769), (''name'', JStr ''A'')],
                     JObj [(''id'', JInt 5), (''name'', JStr ''B'')],
                     JObj [(''id'', JInt 676768), (''name'', JStr ''C'')]]
            = Inr [JInt 676769, JInt 5, JInt 676768]"
    by simp
  from tenant_generated_id [where switch_vrfs = "Some []" and query_type = "''single''" and py = Python3,
         OF a _ _ b c]
  obtain g where g: "g \<le> 676769" "JInt g \<notin> set [JInt 676769, JInt 5, JInt 676768]"
     "\<forall>k. g < k \<and> k \<le> 676769 \<longrightarrow> JInt k \<in> set [JInt 676769, JInt 5, JInt 676768]"
     "RunMethod ''post'' (Target TETRATION_API_TENANT)
            (JObj (setitem ''id'' (JInt g) (tenant_new_object (Some ''Eng'') (Some []))))
          \<in> set (issued (tenant_main Python3 model_api False present (Some ''Eng'') None (Some []) ''single'') ?s)"
    by auto
  from g(1,2) have "g < 676769" by (cases "g = 676769") auto
  moreover from g(3) have "g < g + 1 \<and> g + 1 \<le> 676769
      \<longrightarrow> JInt (g + 1) \<in> set [JInt 676769, JInt 5, JInt 676768]" by (rule spec)
  ultimately have "JInt (g + 1) \<in> set [JInt 676769, JInt 5, JInt 676768]" by simp
  with g show ?thesis by blast
qed

lemma tenant_vrfs_differ_list:
  assumes "getitem existing_object ''switch_vrfs'' = Inr (JList xs)" and "list_all hashable xs"
  shows "tenant_vrfs_differ existing_object (Some desired) = Inr (set xs \<noteq> set (map JStr desired))"
  using assms by (simp add: tenant_vrfs_differ_def err_bind_def py_set_def)

text \<open>
  Claim C4. The differencer of the tenant module compares \<open>switch_vrfs\<close> as a set. For an
  existing record whose name raises no difference and whose \<open>switch_vrfs\<close> is a list, the
  differencer reports a change exactly when the set of the record's elements differs from
  the set of the desired names, whatever the order and the repetitions. With equal sets
  \<open>present\<close> returns the record unchanged and issues no call; with different sets it
  reports \<open>changed\<close>, and outside check mode issues the PUT.
\<close>

theorem tenant_switch_vrfs_compared_as_set:
  assumes "truthy existing_object"
      and "tenant_name_differs existing_object name = Inr False"
      and "getitem existing_object ''switch_vrfs'' = Inr (JList xs)"
      and "list_all hashable xs"
  shows "tenant_differs existing_object name (Some desired) = Inr (set xs \<noteq> set (map JStr desired))
       \<and> (set xs = set (map JStr desired) \<longrightarrow>
            tenant_present api check_mode name (Some desired) existing_object cur_id w
              = (Inr \<lparr>changed = False, object = existing_object\<rparr>, w))
       \<and> (set xs \<noteq> set (map JStr desired) \<longrightarrow>
            tenant_present api True name (Some desired) existing_object cur_id w
              = (Inr \<lparr>changed = True, object = JObj (tenant_new_object name (Some desired))\<rparr>, w))
       \<and> (set xs \<noteq> set (map JStr desired) \<longrightarrow>
            RunMethod ''put'' (Format ''%s/%s'' TETRATION_API_TENANT cur_id)
              (JObj (tenant_new_object name (Some desired)))
            \<in> set (calls (snd (tenant_present api False name (Some desired) existing_object cur_id w))))"
proof -
  have d: "tenant_differs existing_object name (Some desired) = Inr (set xs \<noteq> set (map JStr desired))"
    using assms(2) tenant_vrfs_differ_list [OF assms(3,4)]
    by (simp add: tenant_differs_def err_bind_def)
  show ?thesis
    using assms(1) d
    by (simp add: tenant_present_def bnd_def lift_def ret_def run_method_def Let_def
          split: prod.splits sum.splits)
qed

text \<open>The record lists v1, v2, v1: the desired list v2, v1 is no change, the list v1 is one.\<close>

theorem tenant_switch_vrfs_compared_as_set_witness:
  "tenant_differs (JObj [(''id'', JInt 7), (''name'', JStr ''Eng''),
                         (''switch_vrfs'', JList [JStr ''v1'', JStr ''v2'', JStr ''v1''])])
     (Some ''Eng'') (Some [''v2'', ''v1'']) = Inr False
   \<and> tenant_differs (JObj [(''id'', JInt 7), (''name'', JStr ''Eng''),
                         (''switch_vrfs'', JList [JStr ''v1'', JStr ''v2'', JStr ''v1''])])
     (Some ''Eng'') (Some [''v1'']) = Inr True"
proof -
  let ?e = "JObj [(''id'', JInt 7), (''name'', JStr ''Eng''),
                  (''switch_vrfs'', JList [JStr ''v1'', JStr ''v2'', JStr ''v1''])]"
  have t: "truthy ?e" by simp
  have n: "tenant_name_differs ?e (Some ''Eng'') = Inr False"
    by (simp add: tenant_name_differs_def err_bind_def)
  have v: "getitem ?e ''switch_vrfs'' = Inr (JList [JStr ''v1'', JStr ''v2'', JStr ''v1''])" by simp
  have h: "list_all hashable [JStr ''v1'', JStr ''v2'', JStr ''v1'']" by simp
  have s1: "set [JStr ''v1'', JStr ''v2'', JStr ''v1''] = set (map JStr [''v2'', ''v1''])" by auto
  have s2: "set [JStr ''v1'', JStr ''v2'', JStr ''v1''] \<noteq> set (map JStr [''v1''])" by auto
  from tenant_switch_vrfs_compared_as_set [where desired = "[''v2'', ''v1'']", OF t n v h, THEN conjunct1]
       tenant_switch_vrfs_compared_as_set [where desired = "[''v1'']", OF t n v h, THEN conjunct1] s1 s2
  show ?thesis by simp
qed

section \<open>Evaluation and call discipline\<close>

lemmas prog_defs =
  bnd_def ret_def throw_def lift_def get_object_def run_method_def run_def issued_def
  outcome_def after_def

lemmas model_defs =
  model_api_def model_get_object_def model_run_method_def model_get_def model_post_def
  model_put_def model_delete_def matches_def hidden_def has_id_def merge_def append_to_def
  remove_from_def update_record_def defaults_of_def empty_remote_def setitem_def id_path_def
  show_int_eq fresh_id_def

lemma emits_ret: "emits_only P (ret x)"
  by (simp add: emits_only_def ret_def)

lemma emits_throw: "emits_only P (throw e)"
  by (simp add: emits_only_def throw_def)

lemma emits_lift: "emits_only P (lift r)"
  by (simp add: emits_only_def lift_def)

lemma emits_get_object: "P (GetObject t flt) \<Longrightarrow> emits_only P (get_object api t flt params sub_element)"
  by (simp add: emits_only_def get_object_def split: prod.splits)

lemma emits_run_method: "P (RunMethod m t payload) \<Longrightarrow> emits_only P (run_method api m t payload)"
  by (simp add: emits_only_def run_method_def split: prod.splits)

lemma emits_bnd:
  assumes m: "emits_only P m" and f: "\<And>x. emits_only P (f x)"
  shows "emits_only P (bnd m f)"
  unfolding emits_only_def
proof
  fix w
  from m obtain cs where cs: "calls (snd (m w)) = calls w @ cs" "list_all P cs"
    unfolding emits_only_def by blast
  show "\<exists>ds. calls (snd (bnd m f w)) = calls w @ ds \<and> list_all P ds"
  proof (cases "m w")
    case (Pair r w')
    show ?thesis
    proof (cases r)
      case (Inl e)
      with Pair cs show ?thesis by (auto simp: bnd_def)
    next
      case (Inr x)
      from f [of x] obtain ds where ds: "calls (snd (f x w')) = calls w' @ ds" "list_all P ds"
        unfolding emits_only_def by blast
      with Pair Inr cs have "calls (snd (bnd m f w)) = calls w @ (cs @ ds)" "list_all P (cs @ ds)"
        by (auto simp: bnd_def)
      then show ?thesis by blast
    qed
  qed
qed

lemma emits_if:
  "(c \<Longrightarrow> emits_only P a) \<Longrightarrow> (\<not> c \<Longrightarrow> emits_only P b) \<Longrightarrow> emits_only P (if c then a else b)"
  by simp

lemma emits_issued: "emits_only P m \<Longrightarrow> list_all P (issued m s)"
  unfolding emits_only_def issued_def run_def
proof -
  assume "\<forall>w. \<exists>cs. calls (snd (m w)) = calls w @ cs \<and> list_all P cs"
  then obtain cs where "calls (snd (m \<lparr>remote = s, calls = []\<rparr>)) = calls \<lparr>remote = s, calls = []\<rparr> @ cs"
    "list_all P cs" by blast
  then show "list_all P (calls (snd (m \<lparr>remote = s, calls = []\<rparr>)))" by simp
qed

lemma emits_case_prod: "(\<And>a b. emits_only P (f a b)) \<Longrightarrow> emits_only P (case_prod f x)"
  by (cases x) simp

lemma emits_case_state:
  "emits_only P a \<Longrightarrow> emits_only P b \<Longrightarrow> emits_only P c
     \<Longrightarrow> emits_only P (case state of present \<Rightarrow> a | absent \<Rightarrow> b | query \<Rightarrow> c)"
  by (cases state) simp_all

lemma emits_case_option:
  "emits_only P a \<Longrightarrow> (\<And>x. emits_only P (f x)) \<Longrightarrow> emits_only P (case v of None \<Rightarrow> a | Some x \<Rightarrow> f x)"
  by (cases v) simp_all

lemma emits_let: "emits_only P (f x) \<Longrightarrow> emits_only P (Let x f)"
  by simp

lemmas emits_all =
  emits_ret emits_throw emits_lift emits_get_object emits_run_method emits_bnd emits_if
  emits_case_prod emits_case_state emits_case_option emits_let

lemma bnd_Inr: "m w = (Inr x, w') \<Longrightarrow> bnd m f w = f x w'"
  by (simp add: bnd_def)

lemma bnd_Inl: "m w = (Inl e, w') \<Longrightarrow> bnd m f w = (Inl e, w')"
  by (simp add: bnd_def)

section \<open>Check mode\<close>

text \<open>
  Claim C1, at the failing input. The user module is invoked with check mode enabled and
  \<open>state=present\<close> for a user who exists but is disabled. The module issues the POST on
  \<open>users/1/enable\<close>, and the reference remote has the user enabled afterwards: the
  re-enable call is the one mutating call of the module that is not behind
  \<open>if not module.check_mode\<close>.
\<close>

theorem user_check_mode_enables_disabled_user:
  "issued (user_main model_api True 0 present ''bob@example.com'' None None None None) disabled_bob
     = [GetObject (Target TETRATION_API_USER) (JObj [(''email'', JStr ''bob@example.com'')]),
        RunMethod ''post'' (Format ''%s/%s/enable'' TETRATION_API_USER (JInt 1)) JNull]
   \<and> after (user_main model_api True 0 present ''bob@example.com'' None None None None) disabled_bob
       TETRATION_API_USER
     = [JObj [(''id'', JInt 1), (''email'', JStr ''bob@example.com''),
            (''disabled_at'', JNull), (''role_ids'', JList [])]]"
  by (simp add: prog_defs model_defs disabled_bob_def user_main_def user_read_def user_lookup_def
        user_present_def user_resolve_scope_def user_new_object_def user_update_needed_def
        user_field_differs_def err_bind_def)

text \<open>
  The same on any remote: whenever the lookup answers with a user whose \<open>disabled_at\<close> is
  set, the check-mode invocation issues the enable POST.
\<close>

lemma user_check_mode_enable_any_client:
  assumes "api_get_object api (Target TETRATION_API_USER) (JObj [(''email'', JStr email)])
             (JObj [(''include_disabled'', JStr ''true'')]) JNull s = (Inr existing_object, s1)"
      and "getitem existing_object ''disabled_at'' = Inr disabled_at"
      and "disabled_at \<noteq> JNull"
      and "getitem existing_object ''id'' = Inr cur_id"
  shows "RunMethod ''post'' (Format ''%s/%s/enable'' TETRATION_API_USER cur_id) JNull
           \<in> set (issued (user_main api True now present email first_name last_name app_scope_id None) s)"
proof -
  from assms(2) have nn: "existing_object \<noteq> JNull" and tr: "truthy existing_object"
    by (cases existing_object; auto)+
  have rd: "user_read api email \<lparr>remote = s, calls = []\<rparr>
              = (Inr (existing_object, True, cur_id),
                 \<lparr>remote = s1, calls = [GetObject (Target TETRATION_API_USER) (JObj [(''email'', JStr email)])]\<rparr>)"
    using assms nn
    by (simp add: user_read_def user_lookup_def bnd_def get_object_def lift_def ret_def err_bind_def)
  let ?w1 = "\<lparr>remote = s1, calls = [GetObject (Target TETRATION_API_USER) (JObj [(''email'', JStr email)])]\<rparr>"
  have main: "run (user_main api True now present email first_name last_name app_scope_id None) s
                = user_present api True email first_name last_name app_scope_id None
                    existing_object True cur_id ?w1"
    using rd by (simp add: run_def user_main_def bnd_def)
  have "RunMethod ''post'' (Format ''%s/%s/enable'' TETRATION_API_USER cur_id) JNull
          \<in> set (calls (snd (user_present api True email first_name last_name app_scope_id None
                                 existing_object True cur_id ?w1)))"
    using tr
    by (simp add: user_present_def user_resolve_scope_def bnd_def ret_def lift_def run_method_def
          split: prod.splits sum.splits)
  with main show ?thesis by (simp add: issued_def)
qed

text \<open>
  Everywhere else the guard is in place: in check mode the other five modules, and the user
  module outside the re-enable path, issue no POST, PUT or DELETE, on any remote.
\<close>

lemma tenant_check_mode_quiet:
  "emits_only (\<lambda>c. \<not> mutating c) (tenant_main py api True state name id' switch_vrfs query_type)"
  unfolding tenant_main_def tenant_read_def tenant_generate_def tenant_present_def tenant_absent_def
  by (intro emits_all) simp_all

lemma role_check_mode_quiet:
  "emits_only (\<lambda>c. \<not> mutating c)
     (role_main api True state scope name description id' capability_appscope capability_ability)"
  unfolding role_main_def role_read_def role_present_def role_upsert_def role_add_capability_def
    role_absent_def
  by (intro emits_all) simp_all

lemma add_roles_check_mode_quiet:
  "emits_only (\<lambda>c. \<not> mutating c) (add_roles api True cur_id existing_list requested_list chg)"
  by (induction requested_list arbitrary: chg) (auto intro!: emits_all)

lemma remove_roles_check_mode_quiet:
  "emits_only (\<lambda>c. \<not> mutating c)
     (remove_roles api True cur_id existing_list active_role_ids requested_list chg)"
  by (induction requested_list arbitrary: chg) (auto intro!: emits_all)

lemma user_role_check_mode_quiet:
  "emits_only (\<lambda>c. \<not> mutating c) (user_role_main api True state email requested_list)"
  unfolding user_role_main_def
  by (intro emits_all add_roles_check_mode_quiet remove_roles_check_mode_quiet) simp_all

lemma nat_check_mode_quiet:
  "emits_only (\<lambda>c. \<not> mutating c)
     (nat_main api True state src_subnet src_port_range_start src_port_range_end vrf_name vrf_id
        nat_config_id)"
  unfolding nat_main_def nat_read_def nat_present_def nat_absent_def
  by (intro emits_all) simp_all

lemma intent_check_mode_quiet:
  "emits_only (\<lambda>c. \<not> mutating c)
     (intent_main py api True state vrf_name vrf_id inventory_filter_name inventory_filter_id query_type)"
  unfolding intent_main_def intent_resolve_vrf_def intent_resolve_filter_def intent_list_def
    intent_present_def intent_absent_def intent_query_def Let_def
  by (intro emits_all) simp_all

lemma user_present_check_mode_quiet:
  "emits_only (\<lambda>c. \<not> mutating c)
     (user_present api True email first_name last_name app_scope_id app_scope_name
        existing_object False cur_id)"
  unfolding user_present_def user_resolve_scope_def
  by (intro emits_all) simp_all

lemma user_check_mode_quiet:
  "state \<noteq> present \<Longrightarrow> emits_only (\<lambda>c. \<not> mutating c)
     (user_main api True now state email first_name last_name app_scope_id app_scope_name)"
  unfolding user_main_def user_read_def user_lookup_def user_absent_def
  by (cases state) (auto intro!: emits_all)

section \<open>Properties of the user module\<close>

lemma user_read_calls:
  "calls (snd (user_read api email w))
     = calls w @ [GetObject (Target TETRATION_API_USER) (JObj [(''email'', JStr email)])]"
  by (simp add: user_read_def user_lookup_def bnd_def get_object_def lift_def ret_def
        split: prod.splits sum.splits)

lemma user_scope_name_rejected_precise:
  assumes rd: "user_read api email \<lparr>remote = s, calls = []\<rparr>
                 = (Inr (existing_object, disabled_user, cur_id), w1)"
      and sc: "api_get_object api (Target TETRATION_API_SCOPES) (JObj [(''name'', JStr n)]) JNull JNull
                 (remote w1) = (Inr app_scope, s2)"
      and ne: "n \<noteq> []"
      and bad: "CHR '':'' \<in> set n \<or> app_scope = JNull"
  shows "outcome (user_main api check_mode now present email first_name last_name app_scope_id (Some n)) s
           = Inl (FailJson user_scope_error [])
       \<and> issued (user_main api check_mode now present email first_name last_name app_scope_id (Some n)) s
           = [GetObject (Target TETRATION_API_USER) (JObj [(''email'', JStr email)]),
              GetObject (Target TETRATION_API_SCOPES) (JObj [(''name'', JStr n)])]"
proof -
  from user_read_calls [of api email "\<lparr>remote = s, calls = []\<rparr>"] rd
  have c1: "calls w1 = [GetObject (Target TETRATION_API_USER) (JObj [(''email'', JStr email)])]"
    by simp
  have rs: "user_resolve_scope api app_scope_id (Some n) new_object w1
              = (Inl (FailJson user_scope_error []),
                 \<lparr>remote = s2, calls = calls w1 @ [GetObject (Target TETRATION_API_SCOPES) (JObj [(''name'', JStr n)])]\<rparr>)"
    for new_object
    using sc ne bad by (auto simp: user_resolve_scope_def bnd_def get_object_def throw_def)
  have "run (user_main api check_mode now present email first_name last_name app_scope_id (Some n)) s
          = (Inl (FailJson user_scope_error []),
                 \<lparr>remote = s2, calls = calls w1 @ [GetObject (Target TETRATION_API_SCOPES) (JObj [(''name'', JStr n)])]\<rparr>)"
    using rd rs by (simp add: run_def user_main_def user_present_def bnd_def)
  with c1 show ?thesis by (simp add: outcome_def issued_def)
qed

lemma user_resolve_scope_colon:
  assumes "CHR '':'' \<in> set n"
  shows "\<exists>e w'. user_resolve_scope api app_scope_id (Some n) new_object w = (Inl e, w')
           \<and> calls w' = calls w @ [GetObject (Target TETRATION_API_SCOPES) (JObj [(''name'', JStr n)])]"
proof -
  from assms have ne: "n \<noteq> []" by auto
  obtain r s' where g: "api_get_object api (Target TETRATION_API_SCOPES) (JObj [(''name'', JStr n)])
                          JNull JNull (remote w) = (r, s')"
    by (cases "api_get_object api (Target TETRATION_API_SCOPES) (JObj [(''name'', JStr n)])
                 JNull JNull (remote w)")
  show ?thesis
    using assms ne g
    by (cases r) (simp_all add: user_resolve_scope_def bnd_def get_object_def throw_def)
qed

lemma user_scope_colon_always_fails:
  assumes "CHR '':'' \<in> set n"
  shows "(\<exists>e. outcome (user_main api check_mode now present email first_name last_name app_scope_id
                        (Some n)) s = Inl e)
       \<and> list_all (\<lambda>c. \<not> mutating c)
           (issued (user_main api check_mode now present email first_name last_name app_scope_id
                      (Some n)) s)"
proof -
  let ?w0 = "\<lparr>remote = s, calls = []\<rparr>"
  obtain r w1 where rd: "user_read api email ?w0 = (r, w1)" by (cases "user_read api email ?w0")
  from user_read_calls [of api email ?w0] rd
  have c1: "calls w1 = [GetObject (Target TETRATION_API_USER) (JObj [(''email'', JStr email)])]"
    by simp
  show ?thesis
  proof (cases r)
    case (Inl e)
    with rd c1 show ?thesis
      by (simp add: outcome_def issued_def run_def user_main_def bnd_def)
  next
    case (Inr x)
    obtain existing_object disabled_user cur_id where x: "x = (existing_object, disabled_user, cur_id)"
      by (cases x)
    from user_resolve_scope_colon [OF assms, of api app_scope_id
           "user_new_object email first_name last_name app_scope_id" w1]
    obtain e w2 where rs: "user_resolve_scope api app_scope_id (Some n)
                             (user_new_object email first_name last_name app_scope_id) w1 = (Inl e, w2)"
      and c2: "calls w2 = calls w1 @ [GetObject (Target TETRATION_API_SCOPES) (JObj [(''name'', JStr n)])]"
      by blast
    have "run (user_main api check_mode now present email first_name last_name app_scope_id (Some n)) s
            = (Inl e, w2)"
      using rd Inr x rs by (simp add: run_def user_main_def user_present_def bnd_def)
    with c1 c2 show ?thesis by (simp add: outcome_def issued_def)
  qed
qed

text \<open>
  Claim C10. With \<open>state=present\<close> and an \<open>app_scope_name\<close> that contains a colon the
  invocation always fails, and whatever it issued before failing is no POST, PUT or DELETE,
  in check mode or not. Once the user lookup and the scope lookup have answered, the
  failure is the module's message, whatever the scope lookup returned (also a scope of
  exactly that name), and the two lookups are the only calls issued; the same failure and
  the same two calls follow when a non-empty name does not resolve (the lookup returns
  \<open>None\<close>).
\<close>

theorem user_scope_name_rejected:
  "(CHR '':'' \<in> set n \<longrightarrow>
      (\<exists>e. outcome (user_main api check_mode now present email first_name last_name app_scope_id
                      (Some n)) s = Inl e)
      \<and> list_all (\<lambda>c. \<not> mutating c)
          (issued (user_main api check_mode now present email first_name last_name app_scope_id
                     (Some n)) s))
   \<and> (user_read api email \<lparr>remote = s, calls = []\<rparr>
         = (Inr (existing_object, disabled_user, cur_id), w1)
      \<longrightarrow> api_get_object api (Target TETRATION_API_SCOPES) (JObj [(''name'', JStr n)]) JNull JNull
            (remote w1) = (Inr app_scope, s2)
      \<longrightarrow> n \<noteq> []
      \<longrightarrow> CHR '':'' \<in> set n \<or> app_scope = JNull
      \<longrightarrow> outcome (user_main api check_mode now present email first_name last_name app_scope_id
                     (Some n)) s
            = Inl (FailJson user_scope_error [])
          \<and> issued (user_main api check_mode now present email first_name last_name app_scope_id
                      (Some n)) s
            = [GetObject (Target TETRATION_API_USER) (JObj [(''email'', JStr email)]),
               GetObject (Target TETRATION_API_SCOPES) (JObj [(''name'', JStr n)])])"
proof (intro conjI impI)
qed (rule user_scope_colon_always_fails [THEN conjunct1] user_scope_colon_always_fails [THEN conjunct2]
          user_scope_name_rejected_precise [THEN conjunct1]
          user_scope_name_rejected_precise [THEN conjunct2]; assumption)+

text \<open>
  The scope \<open>Default:Datacenter\<close> exists on the remote and is rejected; the name
  \<open>Nowhere\<close> resolves to nothing and is rejected with the same message.
\<close>

theorem user_scope_name_rejected_witness:
  "outcome (user_main model_api False 0 present ''bob@example.com'' (Some ''Bob'') (Some ''Smith'') None
              (Some ''Default:Datacenter'')) scoped_remote
     = Inl (FailJson user_scope_error [])
   \<and> outcome (user_main model_api False 0 present ''bob@example.com'' (Some ''Bob'') (Some ''Smith'') None
              (Some ''Nowhere'')) scoped_remote
     = Inl (FailJson user_scope_error [])"
proof -
  have rd: "user_read model_api ''bob@example.com'' \<lparr>remote = scoped_remote, calls = []\<rparr>
              = (Inr (JNull, False, JNull),
                 \<lparr>remote = scoped_remote,
                  calls = [GetObject (Target TETRATION_API_USER) (JObj [(''email'', JStr ''bob@example.com'')])]\<rparr>)"
    by (simp add: user_read_def user_lookup_def prog_defs model_defs scoped_remote_def)
  have s1: "api_get_object model_api (Target TETRATION_API_SCOPES) (JObj [(''name'', JStr ''Default:Datacenter'')])
              JNull JNull (remote \<lparr>remote = scoped_remote,
                  calls = [GetObject (Target TETRATION_API_USER) (JObj [(''email'', JStr ''bob@example.com'')])]\<rparr>)
              = (Inr (JObj [(''id'', JStr ''5bb8''), (''name'', JStr ''Default:Datacenter'')]), scoped_remote)"
    by (simp add: model_defs scoped_remote_def)
  have s2: "api_get_object model_api (Target TETRATION_API_SCOPES) (JObj [(''name'', JStr ''Nowhere'')])
              JNull JNull (remote \<lparr>remote = scoped_remote,
                  calls = [GetObject (Target TETRATION_API_USER) (JObj [(''email'', JStr ''bob@example.com'')])]\<rparr>)
              = (Inr JNull, scoped_remote)"
    by (simp add: model_defs scoped_remote_def)
  from user_scope_name_rejected [THEN conjunct2, rule_format, OF rd s1, THEN conjunct1]
       user_scope_name_rejected [THEN conjunct2, rule_format, OF rd s2, THEN conjunct1]
  show ?thesis by simp
qed

section \<open>Properties of the interface-intent module\<close>

lemma intent_find_first:
  assumes "\<forall>x\<in>set pre. \<exists>u. getitem x ''vrf_id'' = Inr u \<and> u \<noteq> v"
      and "getitem intent ''vrf_id'' = Inr v"
      and "getitem intent ''inventory_filter_id'' = Inr f'"
  shows "intent_find v f k (pre @ intent # post) = Inr (Some (k + length pre), f' \<noteq> f)"
  using assms by (induction pre arbitrary: k) (auto simp: err_bind_def)

lemma intent_query_quiet:
  "emits_only (\<lambda>c. \<not> mutating c)
     (intent_main py api check_mode query vrf_name vrf_id inventory_filter_name inventory_filter_id
        query_type)"
  by (auto simp: intent_main_def intent_resolve_vrf_def intent_resolve_filter_def intent_list_def
        intent_query_def intro!: emits_all)

text \<open>
  Claim C9. In the interface-intent module \<open>state=query\<close> can report \<open>changed=true\<close>.
  Whenever the VRF and the inventory filter are resolved, the intents are read, and the first
  intent of the resolved VRF carries another inventory filter than the resolved one, the
  read phase sets \<open>changed\<close> and the query returns it as it is, with the intent found (or
  the whole list for \<open>query_type=all\<close>), although the invocation issues no mutating
  call.
\<close>

theorem intent_query_reports_changed:
  assumes pv: "truthy (of_str vrf_name) \<or> truthy (of_str vrf_id)"
      and pf: "truthy (of_str inventory_filter_name) \<or> truthy (of_str inventory_filter_id)"
      and rv: "intent_resolve_vrf api query vrf_name vrf_id \<lparr>remote = s, calls = []\<rparr> = (Inr v, w1)"
      and rf: "intent_resolve_filter api query inventory_filter_name inventory_filter_id w1 = (Inr f, w2)"
      and li: "intent_list api w2 = (Inr (pre @ intent # post), w3)"
      and others: "\<forall>x\<in>set pre. \<exists>u. getitem x ''vrf_id'' = Inr u \<and> u \<noteq> v"
      and vrf: "getitem intent ''vrf_id'' = Inr v"
      and flt: "getitem intent ''inventory_filter_id'' = Inr f'"
      and diff: "f' \<noteq> f"
  shows "outcome (intent_main py api check_mode query vrf_name vrf_id inventory_filter_name
                    inventory_filter_id query_type) s
           = Inr \<lparr>changed = True,
                  object = (if query_type = ''single'' then intent else JList (pre @ intent # post))\<rparr>
       \<and> list_all (\<lambda>c. \<not> mutating c)
           (issued (intent_main py api check_mode query vrf_name vrf_id inventory_filter_name
                      inventory_filter_id query_type) s)"
proof -
  have fi: "intent_find v f 0 (pre @ intent # post) = Inr (Some (length pre), True)"
    using intent_find_first [OF others vrf flt, of f 0 post] diff by simp
  have "run (intent_main py api check_mode query vrf_name vrf_id inventory_filter_name
                    inventory_filter_id query_type) s
          = (Inr \<lparr>changed = True,
                  object = (if query_type = ''single'' then intent else JList (pre @ intent # post))\<rparr>, w3)"
    using pv pf rv rf li fi
    by (simp add: run_def intent_main_def intent_query_def index_ge_zero_def bnd_def lift_def ret_def)
  then show ?thesis
    using emits_issued [OF intent_query_quiet, of py api check_mode vrf_name vrf_id inventory_filter_name
        inventory_filter_id query_type s]
    by (simp add: outcome_def)
qed

text \<open>The input that exists: ACME has an intent with filter f1, the query asks with filter f2.\<close>

theorem intent_query_reports_changed_witness:
  "outcome (intent_main Python3 model_api False query (Some ''ACME'') None None (Some ''f2'') ''single'')
     acme_remote
   = Inr \<lparr>changed = True,
          object = JObj [(''vrf_id'', JInt 676740), (''inventory_filter_id'', JStr ''f1'')]\<rparr>"
proof -
  let ?w1 = "\<lparr>remote = acme_remote,
              calls = [GetObject (Target TETRATION_API_TENANT) (JObj [(''name'', JStr ''ACME'')])]\<rparr>"
  let ?w3 = "\<lparr>remote = acme_remote,
              calls = [GetObject (Target TETRATION_API_TENANT) (JObj [(''name'', JStr ''ACME'')]),
                       RunMethod ''get'' (Target TETRATION_API_INTERFACE_INTENTS) JNull]\<rparr>"
  have pv: "truthy (of_str (Some ''ACME'')) \<or> truthy (of_str None)" by simp
  have pf: "truthy (of_str None) \<or> truthy (of_str (Some ''f2''))" by simp
  have rv: "intent_resolve_vrf model_api query (Some ''ACME'') None \<lparr>remote = acme_remote, calls = []\<rparr>
              = (Inr (JInt 676740), ?w1)"
    by (simp add: intent_resolve_vrf_def prog_defs model_defs acme_remote_def)
  have rf: "intent_resolve_filter model_api query None (Some ''f2'') ?w1 = (Inr (JStr ''f2''), ?w1)"
    by (simp add: intent_resolve_filter_def prog_defs)
  have li: "intent_list model_api ?w1
              = (Inr ([JObj [(''vrf_id'', JInt 1), (''inventory_filter_id'', JStr ''f0'')]]
                      @ JObj [(''vrf_id'', JInt 676740), (''inventory_filter_id'', JStr ''f1'')] # []), ?w3)"
    by (simp add: intent_list_def prog_defs model_defs acme_remote_def err_bind_def)
  have others: "\<forall>x\<in>set [JObj [(''vrf_id'', JInt 1), (''inventory_filter_id'', JStr ''f0'')]].
                  \<exists>u. getitem x ''vrf_id'' = Inr u \<and> u \<noteq> JInt 676740"
    by simp
  have vrf: "getitem (JObj [(''vrf_id'', JInt 676740), (''inventory_filter_id'', JStr ''f1'')]) ''vrf_id''
               = Inr (JInt 676740)" by simp
  have flt: "getitem (JObj [(''vrf_id'', JInt 676740), (''inventory_filter_id'', JStr ''f1'')])
               ''inventory_filter_id'' = Inr (JStr ''f1'')" by simp
  have diff: "JStr ''f1'' \<noteq> JStr ''f2''" by simp
  from intent_query_reports_changed [where py = Python3 and check_mode = False and query_type = "''single''",
         OF pv pf rv rf li others vrf flt diff, THEN conjunct1]
  show ?thesis by simp
qed

section \<open>Resolution of parent references\<close>

text \<open>
  Claim C7, as stated, fails on the NAT-config module: a query by VRF name whose VRF does
  not exist ends in \<open>fail_json\<close>, not in an empty result. The module tests the lookup
  before it looks at the state.
\<close>

theorem nat_query_unresolved_vrf_is_fatal:
  "outcome (nat_main model_api False query (Some ''172.16.109.51/32'') (Some 0) (Some 65535)
              (Some ''Nowhere'') None None) empty_remote
     = Inl (FailJson ''A vrf could not be found matching vrf name: %s'' [JStr ''Nowhere''])"
  by (simp add: nat_main_def nat_read_def prog_defs model_defs)

lemma nat_unresolved_vrf:
  assumes "\<not> truthy (of_str nat_config_id)" and "\<not> truthy (of_int_opt vrf_id)"
      and "state = absent \<longrightarrow> truthy (of_str vrf_name)
             \<or> (truthy (of_str src_subnet) \<and> truthy (of_int_opt src_port_range_end)
                \<and> truthy (of_int_opt src_port_range_start))"
      and "api_get_object api (Target TETRATION_API_TENANT) (JObj [(''name'', of_str vrf_name)])
             JNull JNull s = (Inr found, s1)"
      and "\<not> truthy found"
  shows "outcome (nat_main api check_mode state src_subnet src_port_range_start src_port_range_end
                    vrf_name vrf_id nat_config_id) s
           = Inl (FailJson ''A vrf could not be found matching vrf name: %s'' [of_str vrf_name])"
  using assms by (auto simp: nat_main_def nat_read_def prog_defs)

lemma intent_resolve_vrf_unresolved:
  assumes "\<not> truthy (of_str vrf_id)"
      and "api_get_object api (Target TETRATION_API_TENANT) (JObj [(''name'', of_str vrf_name)])
             JNull JNull (remote w) = (Inr JNull, s1)"
  shows "intent_resolve_vrf api state vrf_name vrf_id w
           = (if state = query then Inr JNull
              else Inl (FailJson ''A VRF could not be found matching name: %s'' [of_str vrf_name]),
              \<lparr>remote = s1,
               calls = calls w @ [GetObject (Target TETRATION_API_TENANT)
                                    (JObj [(''name'', of_str vrf_name)])]\<rparr>)"
  using assms by (simp add: intent_resolve_vrf_def bnd_def get_object_def ret_def throw_def lift_def)

lemma intent_resolve_filter_unresolved:
  assumes "\<not> truthy (of_str inventory_filter_id)"
      and "api_get_object api (Target TETRATION_API_SCOPES) (JObj [(''name'', JStr ''Default'')])
             JNull JNull (remote w) = (Inr scope_object, s2)"
      and "truthy scope_object"
      and "getitem scope_object ''id'' = Inr app_scope_id"
      and "api_get_object api (Target TETRATION_API_INVENTORY_FILTER)
             (JObj [(''name'', of_str inventory_filter_name), (''app_scope_id'', app_scope_id)])
             JNull JNull s2 = (Inr JNull, s3)"
  shows "intent_resolve_filter api state inventory_filter_name inventory_filter_id w
           = (if state = query then Inr JNull
              else Inl (FailJson ''An inventory filter could not be found matching name: %s''
                          [of_str inventory_filter_name]),
              \<lparr>remote = s3,
               calls = calls w @
                 [GetObject (Target TETRATION_API_SCOPES) (JObj [(''name'', JStr ''Default'')]),
                  GetObject (Target TETRATION_API_INVENTORY_FILTER)
                    (JObj [(''name'', of_str inventory_filter_name), (''app_scope_id'', app_scope_id)])]\<rparr>)"
  using assms
  by (simp add: intent_resolve_filter_def bnd_def get_object_def ret_def throw_def lift_def)

lemma intent_unresolved_vrf_fatal:
  assumes "\<not> truthy (of_str vrf_id)" and "truthy (of_str vrf_name)"
      and "truthy (of_str inventory_filter_name) \<or> truthy (of_str inventory_filter_id)"
      and "api_get_object api (Target TETRATION_API_TENANT) (JObj [(''name'', of_str vrf_name)])
             JNull JNull s = (Inr JNull, s1)"
      and "state \<noteq> query"
  shows "outcome (intent_main py api check_mode state vrf_name vrf_id inventory_filter_name
                    inventory_filter_id query_type) s
           = Inl (FailJson ''A VRF could not be found matching name: %s'' [of_str vrf_name])"
  using assms(2,3,5)
    intent_resolve_vrf_unresolved [where w = "\<lparr>remote = s, calls = []\<rparr>" and state = state,
      OF assms(1)] assms(4)
  by (auto simp: intent_main_def outcome_def run_def bnd_def)

lemma intent_unresolved_vrf_query:
  assumes "\<not> truthy (of_str vrf_id)" and "truthy (of_str vrf_name)"
      and "truthy (of_str inventory_filter_name) \<or> truthy (of_str inventory_filter_id)"
      and "api_get_object api (Target TETRATION_API_TENANT) (JObj [(''name'', of_str vrf_name)])
             JNull JNull s = (Inr JNull, s1)"
      and "intent_resolve_filter api query inventory_filter_name inventory_filter_id
             \<lparr>remote = s1,
              calls = [GetObject (Target TETRATION_API_TENANT) (JObj [(''name'', of_str vrf_name)])]\<rparr>
             = (Inr f, w2)"
      and "intent_list api w2 = (Inr current_intents, w3)"
      and "intent_find JNull f 0 current_intents = Inr (None, False)"
  shows "run (intent_main py api check_mode query vrf_name vrf_id inventory_filter_name
                inventory_filter_id query_type) s
           = intent_query py query_type current_intents None False w3"
  using assms(2,3,5-)
    intent_resolve_vrf_unresolved [where w = "\<lparr>remote = s, calls = []\<rparr>" and state = query,
      OF assms(1)] assms(4)
  by (auto simp: intent_main_def run_def bnd_def lift_def)

lemma intent_unresolved_filter_fatal:
  assumes "truthy (of_str vrf_name) \<or> truthy (of_str vrf_id)"
      and "truthy (of_str inventory_filter_name)" and "\<not> truthy (of_str inventory_filter_id)"
      and "intent_resolve_vrf api state vrf_name vrf_id \<lparr>remote = s, calls = []\<rparr> = (Inr v, w1)"
      and "api_get_object api (Target TETRATION_API_SCOPES) (JObj [(''name'', JStr ''Default'')])
             JNull JNull (remote w1) = (Inr scope_object, s2)"
      and "truthy scope_object"
      and "getitem scope_object ''id'' = Inr app_scope_id"
      and "api_get_object api (Target TETRATION_API_INVENTORY_FILTER)
             (JObj [(''name'', of_str inventory_filter_name), (''app_scope_id'', app_scope_id)])
             JNull JNull s2 = (Inr JNull, s3)"
      and "state \<noteq> query"
  shows "outcome (intent_main py api check_mode state vrf_name vrf_id inventory_filter_name
                    inventory_filter_id query_type) s
           = Inl (FailJson ''An inventory filter could not be found matching name: %s''
                    [of_str inventory_filter_name])"
  using assms(1,2,4,9)
    intent_resolve_filter_unresolved [where w = w1 and state = state, OF assms(3,5,6,7,8)]
  by (auto simp: intent_main_def outcome_def run_def bnd_def)

lemma intent_unresolved_filter_query:
  assumes "truthy (of_str vrf_name) \<or> truthy (of_str vrf_id)"
      and "truthy (of_str inventory_filter_name)" and "\<not> truthy (of_str inventory_filter_id)"
      and "intent_resolve_vrf api query vrf_name vrf_id \<lparr>remote = s, calls = []\<rparr> = (Inr v, w1)"
      and "api_get_object api (Target TETRATION_API_SCOPES) (JObj [(''name'', JStr ''Default'')])
             JNull JNull (remote w1) = (Inr scope_object, s2)"
      and "truthy scope_object"
      and "getitem scope_object ''id'' = Inr app_scope_id"
      and "api_get_object api (Target TETRATION_API_INVENTORY_FILTER)
             (JObj [(''name'', of_str inventory_filter_name), (''app_scope_id'', app_scope_id)])
             JNull JNull s2 = (Inr JNull, s3)"
      and "intent_list api
             \<lparr>remote = s3,
              calls = calls w1 @
                [GetObject (Target TETRATION_API_SCOPES) (JObj [(''name'', JStr ''Default'')]),
                 GetObject (Target TETRATION_API_INVENTORY_FILTER)
                   (JObj [(''name'', of_str inventory_filter_name), (''app_scope_id'', app_scope_id)])]\<rparr>
             = (Inr current_intents, w3)"
      and "intent_find v JNull 0 current_intents = Inr (None, False)"
  shows "run (intent_main py api check_mode query vrf_name vrf_id inventory_filter_name
                inventory_filter_id query_type) s
           = intent_query py query_type current_intents None False w3"
  using assms(1,2,4,9,10)
    intent_resolve_filter_unresolved [where w = w1 and state = query, OF assms(3,5,6,7,8)]
  by (auto simp: intent_main_def run_def bnd_def lift_def)

lemma intent_query_nothing:
  "(query_type \<noteq> ''single''
      \<longrightarrow> intent_query py query_type current_intents None False w
            = (Inr \<lparr>changed = False, object = JList current_intents\<rparr>, w))
   \<and> intent_query Python2 ''single'' current_intents None False w
       = (Inr \<lparr>changed = False, object = JNull\<rparr>, w)
   \<and> intent_query Python3 ''single'' current_intents None False w = (Inl TypeError, w)"
  by (simp add: intent_query_def index_ge_zero_def bnd_def lift_def ret_def)

text \<open>
  Claim C7, amended. The NAT-config module, reaching the lookup of the VRF by name, fails
  with its message under every state, \<open>query\<close> included, when the lookup finds nothing.
  The interface-intent module, when the lookup of the VRF name or of the inventory filter
  name returns \<open>None\<close>, fails with the message of that lookup under \<open>present\<close> and
  \<open>absent\<close>; under \<open>query\<close> the invocation goes on without the identifier and reads the
  intents, and when they hold none for it the invocation returns \<open>changed=false\<close> with
  the list of intents for a query that is not \<open>single\<close>, and with a null object for a
  \<open>single\<close> query where \<open>None\<close> is ordered below 0 (Python 2).
\<close>

theorem resolution_failure_by_module:
  "(\<not> truthy (of_str nat_config_id) \<longrightarrow> \<not> truthy (of_int_opt nat_vrf_id)
      \<longrightarrow> (state = absent \<longrightarrow> truthy (of_str nat_vrf_name)
             \<or> (truthy (of_str src_subnet) \<and> truthy (of_int_opt src_port_range_end)
                \<and> truthy (of_int_opt src_port_range_start)))
      \<longrightarrow> api_get_object api (Target TETRATION_API_TENANT) (JObj [(''name'', of_str nat_vrf_name)])
            JNull JNull s = (Inr found, t1)
      \<longrightarrow> \<not> truthy found
      \<longrightarrow> outcome (nat_main api check_mode state src_subnet src_port_range_start src_port_range_end
                     nat_vrf_name nat_vrf_id nat_config_id) s
            = Inl (FailJson ''A vrf could not be found matching vrf name: %s'' [of_str nat_vrf_name]))
   \<and> (\<not> truthy (of_str vrf_id) \<longrightarrow> truthy (of_str vrf_name)
      \<longrightarrow> truthy (of_str inventory_filter_name) \<or> truthy (of_str inventory_filter_id)
      \<longrightarrow> api_get_object api (Target TETRATION_API_TENANT) (JObj [(''name'', of_str vrf_name)])
            JNull JNull s = (Inr JNull, s1)
      \<longrightarrow> (state \<noteq> query
            \<longrightarrow> outcome (intent_main py api check_mode state vrf_name vrf_id inventory_filter_name
                           inventory_filter_id query_type) s
                  = Inl (FailJson ''A VRF could not be found matching name: %s'' [of_str vrf_name]))
          \<and> (intent_resolve_filter api query inventory_filter_name inventory_filter_id
                \<lparr>remote = s1,
                 calls = [GetObject (Target TETRATION_API_TENANT)
                            (JObj [(''name'', of_str vrf_name)])]\<rparr> = (Inr f, w2)
              \<longrightarrow> intent_list api w2 = (Inr current_intents, w3)
              \<longrightarrow> intent_find JNull f 0 current_intents = Inr (None, False)
              \<longrightarrow> (query_type \<noteq> ''single''
                    \<longrightarrow> outcome (intent_main py api check_mode query vrf_name vrf_id
                                   inventory_filter_name inventory_filter_id query_type) s
                          = Inr \<lparr>changed = False, object = JList current_intents\<rparr>)
                  \<and> outcome (intent_main Python2 api check_mode query vrf_name vrf_id
                               inventory_filter_name inventory_filter_id ''single'') s
                      = Inr \<lparr>changed = False, object = JNull\<rparr>))
   \<and> (truthy (of_str vrf_name') \<or> truthy (of_str vrf_id')
      \<longrightarrow> truthy (of_str filter_name) \<longrightarrow> \<not> truthy (of_str filter_id)
      \<longrightarrow> intent_resolve_vrf api state vrf_name' vrf_id' \<lparr>remote = s, calls = []\<rparr> = (Inr v, w1)
      \<longrightarrow> api_get_object api (Target TETRATION_API_SCOPES) (JObj [(''name'', JStr ''Default'')])
            JNull JNull (remote w1) = (Inr scope_object, s2)
      \<longrightarrow> truthy scope_object
      \<longrightarrow> getitem scope_object ''id'' = Inr app_scope_id
      \<longrightarrow> api_get_object api (Target TETRATION_API_INVENTORY_FILTER)
            (JObj [(''name'', of_str filter_name), (''app_scope_id'', app_scope_id)])
            JNull JNull s2 = (Inr JNull, s3)
      \<longrightarrow> (state \<noteq> query
            \<longrightarrow> outcome (intent_main py api check_mode state vrf_name' vrf_id' filter_name filter_id
                           query_type) s
                  = Inl (FailJson ''An inventory filter could not be found matching name: %s''
                           [of_str filter_name]))
          \<and> (state = query
              \<longrightarrow> intent_list api
                    \<lparr>remote = s3,
                     calls = calls w1 @
                       [GetObject (Target TETRATION_API_SCOPES) (JObj [(''name'', JStr ''Default'')]),
                        GetObject (Target TETRATION_API_INVENTORY_FILTER)
                          (JObj [(''name'', of_str filter_name), (''app_scope_id'', app_scope_id)])]\<rparr>
                    = (Inr intents, w4)
              \<longrightarrow> intent_find v JNull 0 intents = Inr (None, False)
              \<longrightarrow> (query_type \<noteq> ''single''
                    \<longrightarrow> outcome (intent_main py api check_mode query vrf_name' vrf_id' filter_name
                                   filter_id query_type) s
                          = Inr \<lparr>changed = False, object = JList intents\<rparr>)
                  \<and> outcome (intent_main Python2 api check_mode query vrf_name' vrf_id' filter_name
                               filter_id ''single'') s
                      = Inr \<lparr>changed = False, object = JNull\<rparr>))"
proof (intro conjI impI)
  assume "\<not> truthy (of_str nat_config_id)" "\<not> truthy (of_int_opt nat_vrf_id)"
     "state = absent \<longrightarrow> truthy (of_str nat_vrf_name)
             \<or> (truthy (of_str src_subnet) \<and> truthy (of_int_opt src_port_range_end)
                \<and> truthy (of_int_opt src_port_range_start))"
     "api_get_object api (Target TETRATION_API_TENANT) (JObj [(''name'', of_str nat_vrf_name)])
            JNull JNull s = (Inr found, t1)"
     "\<not> truthy found"
  then show "outcome (nat_main api check_mode state src_subnet src_port_range_start src_port_range_end
                     nat_vrf_name nat_vrf_id nat_config_id) s
            = Inl (FailJson ''A vrf could not be found matching vrf name: %s'' [of_str nat_vrf_name])"
    by (rule nat_unresolved_vrf)
next
  assume "\<not> truthy (of_str vrf_id)" "truthy (of_str vrf_name)"
     "truthy (of_str inventory_filter_name) \<or> truthy (of_str inventory_filter_id)"
     "api_get_object api (Target TETRATION_API_TENANT) (JObj [(''name'', of_str vrf_name)])
            JNull JNull s = (Inr JNull, s1)"
     "state \<noteq> query"
  then show "outcome (intent_main py api check_mode state vrf_name vrf_id inventory_filter_name
                           inventory_filter_id query_type) s
                  = Inl (FailJson ''A VRF could not be found matching name: %s'' [of_str vrf_name])"
    by (rule intent_unresolved_vrf_fatal)
next
  assume h: "\<not> truthy (of_str vrf_id)" "truthy (of_str vrf_name)"
     "truthy (of_str inventory_filter_name) \<or> truthy (of_str inventory_filter_id)"
     "api_get_object api (Target TETRATION_API_TENANT) (JObj [(''name'', of_str vrf_name)])
            JNull JNull s = (Inr JNull, s1)"
     "intent_resolve_filter api query inventory_filter_name inventory_filter_id
                \<lparr>remote = s1,
                 calls = [GetObject (Target TETRATION_API_TENANT)
                            (JObj [(''name'', of_str vrf_name)])]\<rparr> = (Inr f, w2)"
     "intent_list api w2 = (Inr current_intents, w3)"
     "intent_find JNull f 0 current_intents = Inr (None, False)"
  {
    assume "query_type \<noteq> ''single''"
    then show "outcome (intent_main py api check_mode query vrf_name vrf_id
                                   inventory_filter_name inventory_filter_id query_type) s
                          = Inr \<lparr>changed = False, object = JList current_intents\<rparr>"
      using intent_unresolved_vrf_query [OF h, of py check_mode query_type]
      by (simp add: outcome_def intent_query_nothing)
  }
  show "outcome (intent_main Python2 api check_mode query vrf_name vrf_id
                               inventory_filter_name inventory_filter_id ''single'') s
                      = Inr \<lparr>changed = False, object = JNull\<rparr>"
    using intent_unresolved_vrf_query [OF h, of Python2 check_mode "''single''"]
    by (simp add: outcome_def intent_query_nothing)
next
  assume "truthy (of_str vrf_name') \<or> truthy (of_str vrf_id')"
     "truthy (of_str filter_name)" "\<not> truthy (of_str filter_id)"
     "intent_resolve_vrf api state vrf_name' vrf_id' \<lparr>remote = s, calls = []\<rparr> = (Inr v, w1)"
     "api_get_object api (Target TETRATION_API_SCOPES) (JObj [(''name'', JStr ''Default'')])
            JNull JNull (remote w1) = (Inr scope_object, s2)"
     "truthy scope_object"
     "getitem scope_object ''id'' = Inr app_scope_id"
     "api_get_object api (Target TETRATION_API_INVENTORY_FILTER)
            (JObj [(''name'', of_str filter_name), (''app_scope_id'', app_scope_id)])
            JNull JNull s2 = (Inr JNull, s3)"
     "state \<noteq> query"
  then show "outcome (intent_main py api check_mode state vrf_name' vrf_id' filter_name filter_id
                           query_type) s
                  = Inl (FailJson ''An inventory filter could not be found matching name: %s''
                           [of_str filter_name])"
    by (rule intent_unresolved_filter_fatal)
next
  assume h: "truthy (of_str vrf_name') \<or> truthy (of_str vrf_id')"
     "truthy (of_str filter_name)" "\<not> truthy (of_str filter_id)"
     "intent_resolve_vrf api state vrf_name' vrf_id' \<lparr>remote = s, calls = []\<rparr> = (Inr v, w1)"
     "api_get_object api (Target TETRATION_API_SCOPES) (JObj [(''name'', JStr ''Default'')])
            JNull JNull (remote w1) = (Inr scope_object, s2)"
     "truthy scope_object"
     "getitem scope_object ''id'' = Inr app_scope_id"
     "api_get_object api (Target TETRATION_API_INVENTORY_FILTER)
            (JObj [(''name'', of_str filter_name), (''app_scope_id'', app_scope_id)])
            JNull JNull s2 = (Inr JNull, s3)"
    and q: "state = query"
    and h2: "intent_list api
                    \<lparr>remote = s3,
                     calls = calls w1 @
                       [GetObject (Target TETRATION_API_SCOPES) (JObj [(''name'', JStr ''Default'')]),
                        GetObject (Target TETRATION_API_INVENTORY_FILTER)
                          (JObj [(''name'', of_str filter_name), (''app_scope_id'', app_scope_id)])]\<rparr>
                    = (Inr intents, w4)"
     "intent_find v JNull 0 intents = Inr (None, False)"
  note r = intent_unresolved_filter_query [OF h(1-3) h(4) [unfolded q] h(5-8) h2]
  {
    assume "query_type \<noteq> ''single''"
    then show "outcome (intent_main py api check_mode query vrf_name' vrf_id' filter_name
                                   filter_id query_type) s
                          = Inr \<lparr>changed = False, object = JList intents\<rparr>"
      using r [of py check_mode query_type] by (simp add: outcome_def intent_query_nothing)
  }
  show "outcome (intent_main Python2 api check_mode query vrf_name' vrf_id' filter_name
                               filter_id ''single'') s
                      = Inr \<lparr>changed = False, object = JNull\<rparr>"
    using r [of Python2 check_mode "''single''"] by (simp add: outcome_def intent_query_nothing)
qed

text \<open>A remote with the scope Default and no tenant, filter or intent.\<close>

theorem resolution_failure_by_module_witness:
  "outcome (nat_main model_api False absent None None None (Some ''Nowhere'') None None) scoped_remote
     = Inl (FailJson ''A vrf could not be found matching vrf name: %s'' [JStr ''Nowhere''])
   \<and> outcome (intent_main Python3 model_api False present (Some ''Nowhere'') None None (Some ''f1'')
                ''single'') scoped_remote
     = Inl (FailJson ''A VRF could not be found matching name: %s'' [JStr ''Nowhere''])
   \<and> outcome (intent_main Python3 model_api False query (Some ''Nowhere'') None None (Some ''f1'')
                ''all'') scoped_remote
     = Inr \<lparr>changed = False, object = JList []\<rparr>
   \<and> outcome (intent_main Python2 model_api False query (Some ''Nowhere'') None None (Some ''f1'')
                ''single'') scoped_remote
     = Inr \<lparr>changed = False, object = JNull\<rparr>
   \<and> outcome (intent_main Python3 model_api False absent None (Some ''v1'') (Some ''No filter'') None
                ''single'') scoped_remote
     = Inl (FailJson ''An inventory filter could not be found matching name: %s'' [JStr ''No filter''])
   \<and> outcome (intent_main Python3 model_api False query None (Some ''v1'') (Some ''No filter'') None
                ''all'') scoped_remote
     = Inr \<lparr>changed = False, object = JList []\<rparr>
   \<and> outcome (intent_main Python2 model_api False query None (Some ''v1'') (Some ''No filter'') None
                ''single'') scoped_remote
     = Inr \<lparr>changed = False, object = JNull\<rparr>"
proof -
  let ?scope = "JObj [(''id'', JStr ''5bb7''), (''name'', JStr ''Default'')]"
  let ?w1 = "\<lparr>remote = scoped_remote,
              calls = [GetObject (Target TETRATION_API_TENANT) (JObj [(''name'', of_str (Some ''Nowhere''))])]\<rparr>"
  let ?w3 = "\<lparr>remote = scoped_remote,
              calls = [GetObject (Target TETRATION_API_TENANT) (JObj [(''name'', of_str (Some ''Nowhere''))]),
                       RunMethod ''get'' (Target TETRATION_API_INTERFACE_INTENTS) JNull]\<rparr>"
  let ?v0 = "\<lparr>remote = scoped_remote, calls = []\<rparr>"
  let ?v2 = "\<lparr>remote = scoped_remote,
              calls = calls ?v0 @
                [GetObject (Target TETRATION_API_SCOPES) (JObj [(''name'', JStr ''Default'')]),
                 GetObject (Target TETRATION_API_INVENTORY_FILTER)
                   (JObj [(''name'', of_str (Some ''No filter'')), (''app_scope_id'', JStr ''5bb7'')])]\<rparr>"
  let ?v3 = "\<lparr>remote = scoped_remote,
              calls = [GetObject (Target TETRATION_API_SCOPES) (JObj [(''name'', JStr ''Default'')]),
                 GetObject (Target TETRATION_API_INVENTORY_FILTER)
                   (JObj [(''name'', JStr ''No filter''), (''app_scope_id'', JStr ''5bb7'')]),
                 RunMethod ''get'' (Target TETRATION_API_INTERFACE_INTENTS) JNull]\<rparr>"
  have a: "api_get_object model_api (Target TETRATION_API_TENANT)
             (JObj [(''name'', of_str (Some ''Nowhere''))]) JNull JNull scoped_remote
             = (Inr JNull, scoped_remote)"
    by (simp add: model_defs scoped_remote_def)
  have rf: "intent_resolve_filter model_api query None (Some ''f1'') ?w1 = (Inr (JStr ''f1''), ?w1)"
    by (simp add: intent_resolve_filter_def prog_defs)
  have li: "intent_list model_api ?w1 = (Inr [], ?w3)"
    by (simp add: intent_list_def prog_defs model_defs scoped_remote_def err_bind_def)
  have rv: "intent_resolve_vrf model_api state None (Some ''v1'') ?v0 = (Inr (JStr ''v1''), ?v0)"
    for state
    by (simp add: intent_resolve_vrf_def prog_defs)
  have sc: "api_get_object model_api (Target TETRATION_API_SCOPES) (JObj [(''name'', JStr ''Default'')])
              JNull JNull (remote ?v0) = (Inr ?scope, scoped_remote)"
    by (simp add: model_defs scoped_remote_def)
  have fl: "api_get_object model_api (Target TETRATION_API_INVENTORY_FILTER)
              (JObj [(''name'', of_str (Some ''No filter'')), (''app_scope_id'', JStr ''5bb7'')])
              JNull JNull scoped_remote = (Inr JNull, scoped_remote)"
    by (simp add: model_defs scoped_remote_def)
  have li2: "intent_list model_api ?v2 = (Inr [], ?v3)"
    by (simp add: intent_list_def prog_defs model_defs scoped_remote_def err_bind_def)
  note t = resolution_failure_by_module [where api = model_api and s = scoped_remote
      and check_mode = False and nat_config_id = None and nat_vrf_id = None
      and nat_vrf_name = "Some ''Nowhere''" and src_subnet = None and src_port_range_start = None
      and src_port_range_end = None and found = JNull and ?t1.0 = scoped_remote
      and vrf_id = None and vrf_name = "Some ''Nowhere''" and inventory_filter_name = None
      and inventory_filter_id = "Some ''f1''" and ?s1.0 = scoped_remote and f = "JStr ''f1''"
      and ?w2.0 = ?w1 and current_intents = "[]" and ?w3.0 = ?w3
      and vrf_name' = None and vrf_id' = "Some ''v1''" and filter_name = "Some ''No filter''"
      and filter_id = None and v = "JStr ''v1''" and ?w1.0 = ?v0 and scope_object = ?scope
      and ?s2.0 = scoped_remote and app_scope_id = "JStr ''5bb7''" and ?s3.0 = scoped_remote
      and intents = "[]" and ?w4.0 = ?v3]
  have 1: "outcome (nat_main model_api False absent None None None (Some ''Nowhere'') None None) scoped_remote
     = Inl (FailJson ''A vrf could not be found matching vrf name: %s'' [JStr ''Nowhere''])"
    using t [where state = absent, THEN conjunct1] a by simp
  have 2: "outcome (intent_main Python3 model_api False present (Some ''Nowhere'') None None (Some ''f1'')
                ''single'') scoped_remote
     = Inl (FailJson ''A VRF could not be found matching name: %s'' [JStr ''Nowhere''])"
    using t [where state = present and py = Python3 and query_type = "''single''",
             THEN conjunct2, THEN conjunct1] a by simp
  have 3: "outcome (intent_main Python3 model_api False query (Some ''Nowhere'') None None (Some ''f1'')
                ''all'') scoped_remote
     = Inr \<lparr>changed = False, object = JList []\<rparr>"
    using t [where state = query and py = Python3 and query_type = "''all''",
             THEN conjunct2, THEN conjunct1] a rf li by simp
  have 4: "outcome (intent_main Python2 model_api False query (Some ''Nowhere'') None None (Some ''f1'')
                ''single'') scoped_remote
     = Inr \<lparr>changed = False, object = JNull\<rparr>"
    using t [where state = query and py = Python3 and query_type = "''all''",
             THEN conjunct2, THEN conjunct1] a rf li by simp
  have 5: "outcome (intent_main Python3 model_api False absent None (Some ''v1'') (Some ''No filter'') None
                ''single'') scoped_remote
     = Inl (FailJson ''An inventory filter could not be found matching name: %s'' [JStr ''No filter''])"
    using t [where state = absent and py = Python3 and query_type = "''single''",
             THEN conjunct2, THEN conjunct2] rv [of absent] sc fl by simp
  have 6: "outcome (intent_main Python3 model_api False query None (Some ''v1'') (Some ''No filter'') None
                ''all'') scoped_remote
     = Inr \<lparr>changed = False, object = JList []\<rparr>"
    using t [where state = query and py = Python3 and query_type = "''all''",
             THEN conjunct2, THEN conjunct2] rv [of query] sc fl li2 by simp
  have 7: "outcome (intent_main Python2 model_api False query None (Some ''v1'') (Some ''No filter'') None
                ''single'') scoped_remote
     = Inr \<lparr>changed = False, object = JNull\<rparr>"
    using t [where state = query and py = Python3 and query_type = "''all''",
             THEN conjunct2, THEN conjunct2] rv [of query] sc fl li2 by simp
  from 1 2 3 4 5 6 7 show ?thesis by simp
qed

section \<open>Absent with nothing to remove\<close>

lemma emits_step:
  assumes "emits_only P m" and "m w = (r, w')" and "list_all P (calls w)"
  shows "list_all P (calls w')"
proof -
  from assms(1) obtain cs where "calls (snd (m w)) = calls w @ cs" "list_all P cs"
    unfolding emits_only_def by blast
  with assms(2,3) show ?thesis by simp
qed

lemma tenant_read_quiet: "emits_only (\<lambda>c. \<not> mutating c) (tenant_read py api state name id' query_type)"
  unfolding tenant_read_def by (intro emits_all) simp_all

lemma tenant_generate_quiet: "emits_only (\<lambda>c. \<not> mutating c) (tenant_generate api cur_id)"
  unfolding tenant_generate_def by (intro emits_all) simp_all

lemma user_read_quiet: "emits_only (\<lambda>c. \<not> mutating c) (user_read api email)"
  unfolding user_read_def user_lookup_def by (intro emits_all) simp_all

lemma role_read_quiet: "emits_only (\<lambda>c. \<not> mutating c) (role_read api state scope name id')"
  unfolding role_read_def by (intro emits_all) simp_all

lemma nat_read_quiet:
  "emits_only (\<lambda>c. \<not> mutating c)
     (nat_read api src_subnet src_port_range_start src_port_range_end vrf_name vrf_id nat_config_id)"
  unfolding nat_read_def by (intro emits_all) simp_all

lemma intent_resolve_vrf_quiet:
  "emits_only (\<lambda>c. \<not> mutating c) (intent_resolve_vrf api state vrf_name vrf_id)"
  unfolding intent_resolve_vrf_def by (intro emits_all) simp_all

lemma intent_resolve_filter_quiet:
  "emits_only (\<lambda>c. \<not> mutating c)
     (intent_resolve_filter api state inventory_filter_name inventory_filter_id)"
  unfolding intent_resolve_filter_def by (intro emits_all) simp_all

lemma intent_list_quiet: "emits_only (\<lambda>c. \<not> mutating c) (intent_list api)"
  unfolding intent_list_def by (intro emits_all) simp_all

lemma tenant_absent_nothing:
  assumes pre: "truthy (of_str name) \<or> truthy (of_str id')"
      and rd: "tenant_read py api absent name id' query_type \<lparr>remote = s, calls = []\<rparr>
                 = (Inr (existing_object, cur_id), w1)"
      and gen: "tenant_generate api cur_id w1 = (Inr new_id, w2)"
      and none: "\<not> truthy existing_object"
  shows "outcome (tenant_main py api check_mode absent name id' switch_vrfs query_type) s
           = Inr \<lparr>changed = False, object = JNull\<rparr>
       \<and> list_all (\<lambda>c. \<not> mutating c)
           (issued (tenant_main py api check_mode absent name id' switch_vrfs query_type) s)"
proof -
  have "run (tenant_main py api check_mode absent name id' switch_vrfs query_type) s
          = (Inr \<lparr>changed = False, object = JNull\<rparr>, w2)"
    using pre rd gen none by (auto simp: run_def tenant_main_def tenant_absent_def bnd_def ret_def)
  moreover have "list_all (\<lambda>c. \<not> mutating c) (calls w1)"
    by (rule emits_step [OF tenant_read_quiet rd]) simp
  then have "list_all (\<lambda>c. \<not> mutating c) (calls w2)"
    by (rule emits_step [OF tenant_generate_quiet gen])
  ultimately show ?thesis by (simp add: outcome_def issued_def)
qed

lemma user_absent_nothing:
  assumes rd: "user_read api email \<lparr>remote = s, calls = []\<rparr>
                 = (Inr (existing_object, disabled_user, cur_id), w1)"
      and none: "\<not> truthy existing_object \<or> disabled_user"
  shows "outcome (user_main api check_mode now absent email first_name last_name app_scope_id
                    app_scope_name) s
           = Inr \<lparr>changed = False, object = existing_object\<rparr>
       \<and> list_all (\<lambda>c. \<not> mutating c)
           (issued (user_main api check_mode now absent email first_name last_name app_scope_id
                      app_scope_name) s)"
proof -
  have "run (user_main api check_mode now absent email first_name last_name app_scope_id
                    app_scope_name) s
          = (Inr \<lparr>changed = False, object = existing_object\<rparr>, w1)"
    using rd none by (auto simp: run_def user_main_def user_absent_def bnd_def ret_def)
  moreover have "list_all (\<lambda>c. \<not> mutating c) (calls w1)"
    by (rule emits_step [OF user_read_quiet rd]) simp
  ultimately show ?thesis by (simp add: outcome_def issued_def)
qed

lemma role_absent_nothing:
  assumes rd: "role_read api absent scope name id' \<lparr>remote = s, calls = []\<rparr>
                 = (Inr (existing_object, cur_id), w1)"
      and none: "\<not> truthy existing_object"
  shows "outcome (role_main api check_mode absent scope name description id' capability_appscope
                    capability_ability) s
           = Inr \<lparr>changed = False, object = JNull\<rparr>
       \<and> list_all (\<lambda>c. \<not> mutating c)
           (issued (role_main api check_mode absent scope name description id' capability_appscope
                      capability_ability) s)"
proof -
  have "run (role_main api check_mode absent scope name description id' capability_appscope
                    capability_ability) s
          = (Inr \<lparr>changed = False, object = JNull\<rparr>, w1)"
    using rd none by (auto simp: run_def role_main_def role_absent_def bnd_def ret_def)
  moreover have "list_all (\<lambda>c. \<not> mutating c) (calls w1)"
    by (rule emits_step [OF role_read_quiet rd]) simp
  ultimately show ?thesis by (simp add: outcome_def issued_def)
qed

lemma nat_absent_nothing:
  assumes pre: "truthy (of_str nat_config_id) \<or> truthy (of_int_opt vrf_id) \<or> truthy (of_str vrf_name)"
      and rd: "nat_read api src_subnet src_port_range_start src_port_range_end vrf_name vrf_id
                 nat_config_id \<lparr>remote = s, calls = []\<rparr> = (Inr (existing_object, resolved_vrf_id), w1)"
      and none: "\<not> truthy existing_object"
  shows "outcome (nat_main api check_mode absent src_subnet src_port_range_start src_port_range_end
                    vrf_name vrf_id nat_config_id) s
           = Inr \<lparr>changed = False, object = JNull\<rparr>
       \<and> list_all (\<lambda>c. \<not> mutating c)
           (issued (nat_main api check_mode absent src_subnet src_port_range_start
                      src_port_range_end vrf_name vrf_id nat_config_id) s)"
proof -
  have "run (nat_main api check_mode absent src_subnet src_port_range_start src_port_range_end
                    vrf_name vrf_id nat_config_id) s
          = (Inr \<lparr>changed = False, object = JNull\<rparr>, w1)"
    using pre rd none by (auto simp: run_def nat_main_def nat_absent_def bnd_def ret_def)
  moreover have "list_all (\<lambda>c. \<not> mutating c) (calls w1)"
    by (rule emits_step [OF nat_read_quiet rd]) simp
  ultimately show ?thesis by (simp add: outcome_def issued_def)
qed

lemma intent_absent_nothing:
  assumes pv: "truthy (of_str vrf_name) \<or> truthy (of_str vrf_id)"
      and pf: "truthy (of_str inventory_filter_name) \<or> truthy (of_str inventory_filter_id)"
      and rv: "intent_resolve_vrf api absent vrf_name vrf_id \<lparr>remote = s, calls = []\<rparr> = (Inr v, w1)"
      and rf: "intent_resolve_filter api absent inventory_filter_name inventory_filter_id w1 = (Inr f, w2)"
      and li: "intent_list api w2 = (Inr current_intents, w3)"
      and none: "intent_find v f 0 current_intents = Inr (None, False)"
  shows "outcome (intent_main py api check_mode absent vrf_name vrf_id inventory_filter_name
                    inventory_filter_id query_type) s
           = (case py of Python2 \<Rightarrow> Inr \<lparr>changed = False, object = JList current_intents\<rparr>
              | Python3 \<Rightarrow> Inl TypeError)
       \<and> list_all (\<lambda>c. \<not> mutating c)
           (issued (intent_main py api check_mode absent vrf_name vrf_id inventory_filter_name
                      inventory_filter_id query_type) s)"
proof -
  have "run (intent_main py api check_mode absent vrf_name vrf_id inventory_filter_name
                    inventory_filter_id query_type) s
          = (case py of Python2 \<Rightarrow> Inr \<lparr>changed = False, object = JList current_intents\<rparr>
             | Python3 \<Rightarrow> Inl TypeError, w3)"
    using pv pf rv rf li none
    by (cases py)
       (simp_all add: run_def intent_main_def intent_absent_def index_ge_zero_def bnd_def ret_def
          lift_def)
  moreover have "list_all (\<lambda>c. \<not> mutating c) (calls w1)"
    by (rule emits_step [OF intent_resolve_vrf_quiet rv]) simp
  then have "list_all (\<lambda>c. \<not> mutating c) (calls w2)"
    by (rule emits_step [OF intent_resolve_filter_quiet rf])
  then have "list_all (\<lambda>c. \<not> mutating c) (calls w3)"
    by (rule emits_step [OF intent_list_quiet li])
  ultimately show ?thesis by (simp add: outcome_def issued_def)
qed

lemma remove_roles_none:
  "set requested_list \<inter> set existing_list = {}
     \<Longrightarrow> remove_roles api check_mode cur_id (JList existing_list) active_role_ids requested_list chg w
           = (Inr chg, w)"
  by (induction requested_list) (auto simp: bnd_def lift_def ret_def)

lemma user_role_absent_nothing:
  assumes us: "api_get_object api (Target TETRATION_API_USER) (JObj [(''email'', JStr email)]) JNull JNull s
                 = (Inr existing_object, s1)"
      and ex: "truthy existing_object"
      and ui: "getitem existing_object ''id'' = Inr cur_id"
      and rl: "getitem existing_object ''role_ids'' = Inr (JList existing_list)"
      and ro: "api_run_method api ''get'' (Target TETRATION_API_ROLE) JNull s1 = (Inr active_roles, s2)"
      and ids: "err_bind (py_iter active_roles) (map_err (\<lambda>role. getitem role ''id'')) = Inr active_role_ids"
      and fin: "api_run_method api ''get'' (Format ''%s/%s'' TETRATION_API_USER cur_id) JNull s2
                 = (Inr query_result, s3)"
      and none: "set requested_list \<inter> set existing_list = {}"
  shows "outcome (user_role_main api check_mode absent email requested_list) s
           = Inr \<lparr>changed = False, object = query_result\<rparr>
       \<and> list_all (\<lambda>c. \<not> mutating c) (issued (user_role_main api check_mode absent email requested_list) s)"
  using us ex ui rl ro ids fin
  by (simp add: outcome_def issued_def run_def user_role_main_def bnd_def get_object_def
        run_method_def lift_def ret_def remove_roles_none [OF none])

text \<open>
  \<open>absent\<close> with nothing to remove, in the five other reconcilers on either interpreter
  and in the interface-intent module on Python 2. Once the module's read phase has answered
  with no record (tenant, role, NAT config), with no intent of the VRF (interface intent),
  with no user or a user that is already disabled (user), or with a user holding none of
  the requested roles (user-role binding), the invocation returns \<open>changed=false\<close> and
  issues no DELETE, nor any POST or PUT, in check mode or not. On Python 3 the
  interface-intent module raises \<open>TypeError\<close> instead, still without a mutating call.
\<close>

lemma absent_without_match_elsewhere:
  "(truthy (of_str name) \<or> truthy (of_str id')
      \<longrightarrow> tenant_read py api absent name id' query_type \<lparr>remote = s, calls = []\<rparr>
            = (Inr (existing_object, cur_id), w1)
      \<longrightarrow> tenant_generate api cur_id w1 = (Inr new_id, w2)
      \<longrightarrow> \<not> truthy existing_object
      \<longrightarrow> outcome (tenant_main py api check_mode absent name id' switch_vrfs query_type) s
            = Inr \<lparr>changed = False, object = JNull\<rparr>
          \<and> list_all (\<lambda>c. \<not> mutating c)
              (issued (tenant_main py api check_mode absent name id' switch_vrfs query_type) s))
   \<and> (user_read api email \<lparr>remote = s, calls = []\<rparr> = (Inr (existing_user, disabled_user, user_id), w1)
      \<longrightarrow> \<not> truthy existing_user \<or> disabled_user
      \<longrightarrow> outcome (user_main api check_mode now absent email first_name last_name app_scope_id
                     app_scope_name) s
            = Inr \<lparr>changed = False, object = existing_user\<rparr>
          \<and> list_all (\<lambda>c. \<not> mutating c)
              (issued (user_main api check_mode now absent email first_name last_name app_scope_id
                         app_scope_name) s))
   \<and> (role_read api absent scope role_name role_id \<lparr>remote = s, calls = []\<rparr>
            = (Inr (existing_role, cur_role_id), w1)
      \<longrightarrow> \<not> truthy existing_role
      \<longrightarrow> outcome (role_main api check_mode absent scope role_name description role_id
                     capability_appscope capability_ability) s
            = Inr \<lparr>changed = False, object = JNull\<rparr>
          \<and> list_all (\<lambda>c. \<not> mutating c)
              (issued (role_main api check_mode absent scope role_name description role_id
                         capability_appscope capability_ability) s))
   \<and> (truthy (of_str nat_config_id) \<or> truthy (of_int_opt vrf_id) \<or> truthy (of_str vrf_name)
      \<longrightarrow> nat_read api src_subnet src_port_range_start src_port_range_end vrf_name vrf_id
            nat_config_id \<lparr>remote = s, calls = []\<rparr> = (Inr (existing_nat, resolved_vrf_id), w1)
      \<longrightarrow> \<not> truthy existing_nat
      \<longrightarrow> outcome (nat_main api check_mode absent src_subnet src_port_range_start
                     src_port_range_end vrf_name vrf_id nat_config_id) s
            = Inr \<lparr>changed = False, object = JNull\<rparr>
          \<and> list_all (\<lambda>c. \<not> mutating c)
              (issued (nat_main api check_mode absent src_subnet src_port_range_start
                         src_port_range_end vrf_name vrf_id nat_config_id) s))
   \<and> (truthy (of_str intent_vrf_name) \<or> truthy (of_str intent_vrf_id)
      \<longrightarrow> truthy (of_str inventory_filter_name) \<or> truthy (of_str inventory_filter_id)
      \<longrightarrow> intent_resolve_vrf api absent intent_vrf_name intent_vrf_id \<lparr>remote = s, calls = []\<rparr>
            = (Inr v, w1)
      \<longrightarrow> intent_resolve_filter api absent inventory_filter_name inventory_filter_id w1 = (Inr f, w2)
      \<longrightarrow> intent_list api w2 = (Inr current_intents, w3)
      \<longrightarrow> intent_find v f 0 current_intents = Inr (None, False)
      \<longrightarrow> outcome (intent_main py api check_mode absent intent_vrf_name intent_vrf_id
                     inventory_filter_name inventory_filter_id query_type) s
            = (case py of Python2 \<Rightarrow> Inr \<lparr>changed = False, object = JList current_intents\<rparr>
               | Python3 \<Rightarrow> Inl TypeError)
          \<and> list_all (\<lambda>c. \<not> mutating c)
              (issued (intent_main py api check_mode absent intent_vrf_name intent_vrf_id
                         inventory_filter_name inventory_filter_id query_type) s))
   \<and> (api_get_object api (Target TETRATION_API_USER) (JObj [(''email'', JStr email)]) JNull JNull s
            = (Inr bound_user, s1)
      \<longrightarrow> truthy bound_user
      \<longrightarrow> getitem bound_user ''id'' = Inr bound_id
      \<longrightarrow> getitem bound_user ''role_ids'' = Inr (JList existing_list)
      \<longrightarrow> api_run_method api ''get'' (Target TETRATION_API_ROLE) JNull s1 = (Inr active_roles, s2)
      \<longrightarrow> err_bind (py_iter active_roles) (map_err (\<lambda>role. getitem role ''id'')) = Inr active_role_ids
      \<longrightarrow> api_run_method api ''get'' (Format ''%s/%s'' TETRATION_API_USER bound_id) JNull s2
            = (Inr query_result, s3)
      \<longrightarrow> set requested_list \<inter> set existing_list = {}
      \<longrightarrow> outcome (user_role_main api check_mode absent email requested_list) s
            = Inr \<lparr>changed = False, object = query_result\<rparr>
          \<and> list_all (\<lambda>c. \<not> mutating c)
              (issued (user_role_main api check_mode absent email requested_list) s))"
proof (intro conjI impI)
qed (rule tenant_absent_nothing [THEN conjunct1] tenant_absent_nothing [THEN conjunct2]
          user_absent_nothing [THEN conjunct1] user_absent_nothing [THEN conjunct2]
          role_absent_nothing [THEN conjunct1] role_absent_nothing [THEN conjunct2]
          nat_absent_nothing [THEN conjunct1] nat_absent_nothing [THEN conjunct2]
          intent_absent_nothing [THEN conjunct1] intent_absent_nothing [THEN conjunct2]
          user_role_absent_nothing [THEN conjunct1] user_role_absent_nothing [THEN conjunct2];
      assumption)+

text \<open>
  The same comparison of \<open>None\<close> stands at the head of the \<open>present\<close> branch and of the
  single query: on Python 3 the creation of the first intent of a VRF and the query for a
  VRF without an intent raise too.
\<close>

lemma intent_without_match_python3:
  assumes pv: "truthy (of_str vrf_name) \<or> truthy (of_str vrf_id)"
      and pf: "truthy (of_str inventory_filter_name) \<or> truthy (of_str inventory_filter_id)"
      and rv: "intent_resolve_vrf api state vrf_name vrf_id \<lparr>remote = s, calls = []\<rparr> = (Inr v, w1)"
      and rf: "intent_resolve_filter api state inventory_filter_name inventory_filter_id w1 = (Inr f, w2)"
      and li: "intent_list api w2 = (Inr current_intents, w3)"
      and none: "intent_find v f 0 current_intents = Inr (None, False)"
  shows "run (intent_main Python3 api check_mode state vrf_name vrf_id inventory_filter_name
                inventory_filter_id ''single'') s = (Inl TypeError, w3)"
  using pv pf rv rf li none
  by (cases state)
     (simp_all add: run_def intent_main_def intent_present_def intent_absent_def intent_query_def
        index_ge_zero_def bnd_def ret_def lift_def Let_def)

text \<open>
  Claim C3, at the failing input. The interface-intent module is run by Python 3 with
  \<open>state=absent\<close> for a VRF that has no intent, on a remote whose two intents belong to
  other VRFs. The claim asks for \<open>changed=false\<close>; the module reads the intents and then
  raises \<open>TypeError\<close> at \<open>target_object_index >= 0\<close>, where the index is still \<open>None\<close>.
  No DELETE and no other mutating call is issued.
\<close>

theorem intent_absent_without_match_raises:
  "outcome (intent_main Python3 model_api False absent None (Some ''v9'') None (Some ''f9'') ''single'')
     acme_remote = Inl TypeError
   \<and> issued (intent_main Python3 model_api False absent None (Some ''v9'') None (Some ''f9'') ''single'')
       acme_remote = [RunMethod ''get'' (Target TETRATION_API_INTERFACE_INTENTS) JNull]"
  by (simp add: intent_main_def intent_resolve_vrf_def intent_resolve_filter_def intent_list_def
        intent_absent_def index_ge_zero_def prog_defs model_defs acme_remote_def err_bind_def)

text \<open>
  At that input the precondition of the module holds (a VRF and a filter are given) and the
  result is not the one the claim asks for, the unchanged list of intents with
  \<open>changed=false\<close>.
\<close>

theorem intent_absent_without_match_raises_witness:
  "(truthy (of_str None) \<or> truthy (of_str (Some ''v9'')))
   \<and> outcome (intent_main Python3 model_api False absent None (Some ''v9'') None (Some ''f9'') ''single'')
       acme_remote
     \<noteq> Inr \<lparr>changed = False,
             object = JList [JObj [(''vrf_id'', JInt 1), (''inventory_filter_id'', JStr ''f0'')],
                             JObj [(''vrf_id'', JInt 676740), (''inventory_filter_id'', JStr ''f1'')]]\<rparr>"
  using intent_absent_without_match_raises by simp
section \<open>Properties of the role module\<close>

text \<open>
  Claim C5, as stated, fails in check mode: the role \<open>writer\<close> has no capability, the
  invocation asks for \<open>read\<close> on scope s1, and the module reports \<open>changed\<close> but
  issues no POST on the capabilities sub-resource (its only calls are the two reads).
\<close>

theorem role_check_mode_capability_not_posted:
  "role_capability_pairs (JObj [(''id'', JStr ''r2''), (''name'', JStr ''writer''), (''app_scope_id'', JStr []),
                                (''capabilities'', JList [])]) = Inr []
   \<and> run (role_main model_api True present (Some []) (Some ''writer'') None None (Some ''s1'') (Some ''read''))
       alice_remote
     = (Inr \<lparr>changed = True, object = JObj [(''name'', JStr ''writer'')]\<rparr>,
        \<lparr>remote = alice_remote,
         calls = [GetObject (Target TETRATION_API_ROLE)
                    (JObj [(''name'', JStr ''writer''), (''app_scope_id'', JStr [])]),
                  RunMethod ''get'' (Format ''%s/%s'' TETRATION_API_ROLE (JStr ''r2'')) JNull]\<rparr>)"
  by (simp add: role_main_def role_read_def role_present_def role_upsert_def role_add_capability_def
        role_capability_pairs_def role_differs_def role_new_object_def CAPABILITIES_def
        prog_defs model_defs alice_remote_def err_bind_def Let_def)

lemma role_capability_present:
  assumes "map_of CAPABILITIES ability = Some my_ability"
      and "role_capability_pairs existing_object = Inr t"
      and "(JStr my_ability, of_str capability_appscope) \<in> set t"
  shows "role_add_capability api check_mode capability_appscope (Some ability) existing_object cur_id chg w
           = (Inr chg, w)"
  using assms by (simp add: role_add_capability_def bnd_def lift_def ret_def)

lemma role_capability_absent:
  assumes "map_of CAPABILITIES ability = Some my_ability"
      and "role_capability_pairs existing_object = Inr t"
      and "(JStr my_ability, of_str capability_appscope) \<notin> set t"
  shows "role_add_capability api check_mode capability_appscope (Some ability) existing_object cur_id chg w
           = (if check_mode then ret True w
              else bnd (run_method api ''post'' (Format ''%s/%s/capabilities'' TETRATION_API_ROLE cur_id)
                          (JObj [(''app_scope_id'', of_str capability_appscope),
                                 (''ability'', JStr my_ability)])) (\<lambda>_. ret True) w)"
  using assms by (simp add: role_add_capability_def bnd_def lift_def ret_def)

lemma role_read_no_capabilities:
  "emits_only (\<lambda>c. \<not> on_capabilities c) (role_read api state scope name id')"
  unfolding role_read_def by (intro emits_all) simp_all

lemma role_upsert_no_capabilities:
  "emits_only (\<lambda>c. \<not> on_capabilities c)
     (role_upsert api check_mode scope name description existing_object cur_id)"
  unfolding role_upsert_def by (intro emits_all) simp_all

lemma role_present_pair_held:
  assumes rd: "role_read api present scope name id' \<lparr>remote = s, calls = []\<rparr>
                 = (Inr (existing_object, cur_id), w1)"
      and up: "role_upsert api check_mode scope name description existing_object cur_id w1
                 = (Inr (chg, new_object, role_id), w2)"
      and ab: "map_of CAPABILITIES ability = Some my_ability"
      and pairs: "role_capability_pairs existing_object = Inr t"
      and mem: "(JStr my_ability, of_str capability_appscope) \<in> set t"
  shows "list_all (\<lambda>c. \<not> on_capabilities c)
           (issued (role_main api check_mode present scope name description id' capability_appscope
                      (Some ability)) s)
       \<and> (\<forall>r. outcome (role_main api check_mode present scope name description id'
                           capability_appscope (Some ability)) s = Inr r \<longrightarrow> changed r = chg)
       \<and> (\<not> chg \<longrightarrow> outcome (role_main api check_mode present scope name description id'
                                capability_appscope (Some ability)) s
                       = Inr \<lparr>changed = False, object = existing_object\<rparr>)"
proof -
  have 1: "list_all (\<lambda>c. \<not> on_capabilities c) (calls w1)"
    by (rule emits_step [OF role_read_no_capabilities rd]) simp
  have 2: "list_all (\<lambda>c. \<not> on_capabilities c) (calls w2)"
    by (rule emits_step [OF role_upsert_no_capabilities up 1])
  have run: "run (role_main api check_mode present scope name description id' capability_appscope
                    (Some ability)) s
               = (if \<not> chg then (Inr \<lparr>changed = chg, object = existing_object\<rparr>, w2)
                  else if check_mode then (Inr \<lparr>changed = chg, object = JObj new_object\<rparr>, w2)
                  else bnd (run_method api ''get'' (Format ''%s/%s'' TETRATION_API_ROLE role_id) JNull)
                         (\<lambda>query_result. ret \<lparr>changed = chg, object = query_result\<rparr>) w2)"
    using rd up
    by (simp add: run_def role_main_def role_present_def bnd_def ret_def
          role_capability_present [OF ab pairs mem])
  show ?thesis
    using 2 unfolding outcome_def issued_def run
    by (auto simp: bnd_def run_method_def ret_def split: prod.splits sum.splits)
qed

lemma role_present_pair_missing:
  assumes rd: "role_read api present scope name id' \<lparr>remote = s, calls = []\<rparr>
                 = (Inr (existing_object, cur_id), w1)"
      and up: "role_upsert api check_mode scope name description existing_object cur_id w1
                 = (Inr (chg, new_object, role_id), w2)"
      and ab: "map_of CAPABILITIES ability = Some my_ability"
      and pairs: "role_capability_pairs existing_object = Inr t"
      and mem: "(JStr my_ability, of_str capability_appscope) \<notin> set t"
  shows "(\<forall>r. outcome (role_main api check_mode present scope name description id'
                         capability_appscope (Some ability)) s = Inr r \<longrightarrow> changed r)
       \<and> (check_mode \<longrightarrow> outcome (role_main api check_mode present scope name description id'
                                    capability_appscope (Some ability)) s
                           = Inr \<lparr>changed = True, object = JObj new_object\<rparr>)
       \<and> (\<not> check_mode \<longrightarrow>
            RunMethod ''post'' (Format ''%s/%s/capabilities'' TETRATION_API_ROLE role_id)
              (JObj [(''app_scope_id'', of_str capability_appscope), (''ability'', JStr my_ability)])
            \<in> set (issued (role_main api check_mode present scope name description id'
                             capability_appscope (Some ability)) s))"
proof -
  have run: "run (role_main api check_mode present scope name description id' capability_appscope
                    (Some ability)) s
               = (if check_mode then (Inr \<lparr>changed = True, object = JObj new_object\<rparr>, w2)
                  else bnd (run_method api ''post''
                              (Format ''%s/%s/capabilities'' TETRATION_API_ROLE role_id)
                              (JObj [(''app_scope_id'', of_str capability_appscope),
                                     (''ability'', JStr my_ability)])) (\<lambda>_.
                       bnd (run_method api ''get'' (Format ''%s/%s'' TETRATION_API_ROLE role_id) JNull)
                         (\<lambda>query_result. ret \<lparr>changed = True, object = query_result\<rparr>)) w2)"
    using rd up
    by (simp add: run_def role_main_def role_present_def bnd_def ret_def
          role_capability_absent [OF ab pairs mem] split: prod.splits sum.splits)
  show ?thesis
    unfolding outcome_def issued_def run
    by (auto simp: bnd_def run_method_def ret_def split: prod.splits sum.splits)
qed

lemma role_new_object_no_capabilities:
  "map_of (role_new_object name description) ''capabilities'' = None"
  "map_of (setitem ''app_scope_id'' v (role_new_object name description)) ''capabilities'' = None"
  by (simp_all add: role_new_object_def setitem_def Let_def)

lemma role_capabilities_only_posted:
  "emits_only (\<lambda>c. \<not> on_capabilities c \<or> is_post c)
     (role_main api check_mode state scope name description id' capability_appscope capability_ability)"
  unfolding role_main_def role_read_def role_present_def role_upsert_def role_add_capability_def
    role_absent_def
  by (intro emits_all) simp_all

lemma role_payloads_without_capabilities:
  "emits_only (\<lambda>c. \<not> carries_capabilities c)
     (role_main api check_mode state scope name description id' capability_appscope capability_ability)"
  unfolding role_main_def role_read_def role_present_def role_upsert_def role_add_capability_def
    role_absent_def
  by (intro emits_all) (simp_all add: role_new_object_no_capabilities)

lemma role_deletes_under_absent_only:
  "state \<noteq> absent \<Longrightarrow> emits_only (\<lambda>c. \<not> is_delete c)
     (role_main api check_mode state scope name description id' capability_appscope
        capability_ability)"
  by (cases state)
     (auto simp: role_main_def role_read_def role_present_def role_upsert_def
        role_add_capability_def intro!: emits_all)

lemma map_of_setitem:
  "map_of (setitem k v kvs) k' = (if k' = k then Some v else map_of kvs k')"
  by (simp add: setitem_def update_conv')

lemma map_of_merge_other:
  "k \<notin> fst ` set new
     \<Longrightarrow> map_of (foldl (\<lambda>acc kv. setitem (fst kv) (snd kv) acc) old new) k = map_of old k"
  by (induction new arbitrary: old) (auto simp: map_of_setitem)

lemma getitem_merge_other:
  "k \<notin> fst ` set new \<Longrightarrow> getitem (merge (JObj new) r) k = getitem r k"
  by (cases r) (simp_all add: merge_def map_of_merge_other)

lemma role_kept_refl: "role_kept r r"
  by (simp add: role_kept_def)

lemma role_kept_trans: "role_kept a b \<Longrightarrow> role_kept b c \<Longrightarrow> role_kept a c"
  by (auto simp: role_kept_def)

lemma role_kept_merge:
  "''id'' \<notin> fst ` set new \<Longrightarrow> ''capabilities'' \<notin> fst ` set new \<Longrightarrow> role_kept r (merge (JObj new) r)"
  by (simp add: role_kept_def id_path_def capabilities_of_def getitem_merge_other)

lemma role_kept_append: "role_kept r (append_to ''capabilities'' v r)"
proof (cases r)
  case (JObj old)
  have "getitem (merge (JObj [(''capabilities'', c)]) (JObj old)) ''capabilities'' = Inr c" for c
    by (simp add: merge_def map_of_setitem)
  moreover have "getitem (merge (JObj [(''capabilities'', c)]) (JObj old)) ''id''
                   = getitem (JObj old) ''id''" for c
    by (rule getitem_merge_other) simp
  ultimately show ?thesis using JObj
    by (auto simp: role_kept_def id_path_def capabilities_of_def append_to_def
          split: sum.splits json.splits)
qed (simp_all add: role_kept_def append_to_def merge_def)

lemma roles_kept_refl: "roles_kept s s"
  by (simp add: roles_kept_def list_all2_same role_kept_refl)

lemma roles_kept_trans:
  assumes "roles_kept a b" and "roles_kept b c"
  shows "roles_kept a c"
proof -
  let ?A = "a TETRATION_API_ROLE" and ?B = "b TETRATION_API_ROLE" and ?C = "c TETRATION_API_ROLE"
  from assms have le: "length ?A \<le> length ?B" "length ?B \<le> length ?C"
    and ab: "list_all2 role_kept ?A (take (length ?A) ?B)"
    and bc: "list_all2 role_kept ?B (take (length ?B) ?C)"
    by (simp_all add: roles_kept_def)
  have "list_all2 role_kept ?A (take (length ?A) ?C)"
  proof (rule list_all2_all_nthI)
    show "length ?A = length (take (length ?A) ?C)" using le by simp
  next
    fix n assume n: "n < length ?A"
    from ab n le have 1: "role_kept (?A ! n) (?B ! n)"
      by (auto simp: list_all2_conv_all_nth)
    from bc n le have 2: "role_kept (?B ! n) (?C ! n)"
      by (auto simp: list_all2_conv_all_nth)
    from role_kept_trans [OF 1 2] n show "role_kept (?A ! n) (take (length ?A) ?C ! n)" by simp
  qed
  with le show ?thesis by (simp add: roles_kept_def)
qed

lemma roles_kept_update:
  assumes "\<And>r. role_kept r (f r)"
  shows "roles_kept s (s(TETRATION_API_ROLE := update_record f i (s TETRATION_API_ROLE)))"
  using assms
  by (simp add: roles_kept_def update_record_def list_all2_conv_all_nth role_kept_refl)

lemma keeps_ret: "keeps roles_kept (ret x)"
  by (simp add: keeps_def ret_def roles_kept_refl)

lemma keeps_throw: "keeps roles_kept (throw e)"
  by (simp add: keeps_def throw_def roles_kept_refl)

lemma keeps_lift: "keeps roles_kept (lift r)"
  by (simp add: keeps_def lift_def roles_kept_refl)

lemma keeps_bnd:
  assumes m: "keeps roles_kept m" and f: "\<And>x. keeps roles_kept (f x)"
  shows "keeps roles_kept (bnd m f)"
  unfolding keeps_def
proof
  fix w
  show "roles_kept (remote w) (remote (snd (bnd m f w)))"
  proof (cases "m w")
    case (Pair r w')
    from m have 1: "roles_kept (remote w) (remote w')" using Pair
      by (auto simp: keeps_def dest: spec [of _ w])
    show ?thesis
    proof (cases r)
      case (Inl e)
      with Pair 1 show ?thesis by (simp add: bnd_def)
    next
      case (Inr x)
      from f [of x] have "roles_kept (remote w') (remote (snd (f x w')))" by (simp add: keeps_def)
      with 1 Pair Inr show ?thesis by (auto simp: bnd_def intro: roles_kept_trans)
    qed
  qed
qed

lemma keeps_if:
  "(c \<Longrightarrow> keeps R a) \<Longrightarrow> (\<not> c \<Longrightarrow> keeps R b) \<Longrightarrow> keeps R (if c then a else b)"
  by simp

lemma keeps_case_prod: "(\<And>a b. keeps R (f a b)) \<Longrightarrow> keeps R (case_prod f x)"
  by (cases x) simp

lemma keeps_case_option:
  "keeps R a \<Longrightarrow> (\<And>x. keeps R (f x)) \<Longrightarrow> keeps R (case_option a f x)"
  by (cases x) simp_all

lemma keeps_let: "keeps R (f x) \<Longrightarrow> keeps R (Let x f)"
  by simp

lemma keeps_get_object: "keeps roles_kept (get_object model_api t flt params sub_element)"
  by (auto simp: keeps_def get_object_def model_api_def model_get_object_def roles_kept_refl
        split: target.splits list.splits)

lemma keeps_get: "keeps roles_kept (run_method model_api ''get'' t payload)"
  by (auto simp: keeps_def run_method_def model_api_def model_run_method_def model_get_def
        roles_kept_refl split: target.splits list.splits)

lemma keeps_post_role:
  "keeps roles_kept (run_method model_api ''post'' (Target TETRATION_API_ROLE) payload)"
  by (simp add: keeps_def run_method_def model_api_def model_run_method_def model_post_def
        roles_kept_def Let_def list_all2_same role_kept_refl)

lemma keeps_put_role:
  "map_of new ''id'' = None \<Longrightarrow> map_of new ''capabilities'' = None
     \<Longrightarrow> keeps roles_kept
           (run_method model_api ''put'' (Format ''%s/%s'' TETRATION_API_ROLE i) (JObj new))"
  by (simp add: keeps_def run_method_def model_api_def model_run_method_def model_put_def
        roles_kept_update role_kept_merge map_of_eq_None_iff)

lemma keeps_post_capability:
  "keeps roles_kept
     (run_method model_api ''post'' (Format ''%s/%s/capabilities'' TETRATION_API_ROLE i) payload)"
  by (simp add: keeps_def run_method_def model_api_def model_run_method_def model_post_def
        roles_kept_update role_kept_append)

lemmas keeps_all =
  keeps_ret keeps_throw keeps_lift keeps_get_object keeps_get keeps_post_role keeps_put_role
  keeps_post_capability keeps_bnd keeps_if keeps_case_prod keeps_case_option keeps_let

lemma role_new_object_keys:
  "map_of (role_new_object name description) ''capabilities'' = None"
  "map_of (role_new_object name description) ''id'' = None"
  by (simp_all add: role_new_object_def setitem_def Let_def)

lemma role_main_keeps_roles:
  "state \<noteq> absent \<Longrightarrow> keeps roles_kept
     (role_main model_api check_mode state scope name description id' capability_appscope
        capability_ability)"
  by (cases state)
     (auto simp: role_main_def role_read_def role_present_def role_upsert_def
        role_add_capability_def role_new_object_keys intro!: keeps_all)

lemma keeps_after: "keeps R m \<Longrightarrow> R s (after m s)"
  unfolding keeps_def after_def run_def
proof -
  assume "\<forall>w. R (remote w) (remote (snd (m w)))"
  then have "R (remote \<lparr>remote = s, calls = []\<rparr>) (remote (snd (m \<lparr>remote = s, calls = []\<rparr>)))" ..
  then show "R s (remote (snd (m \<lparr>remote = s, calls = []\<rparr>)))" by simp
qed

text \<open>
  Claim C5, amended. A \<open>present\<close> invocation that supplies a capability, once the role
  has been read and created or updated, with \<open>t\<close> the (ability, app_scope_id) pairs of the
  record read: when the requested pair is in \<open>t\<close> the invocation issues no call on the
  capabilities sub-resource and reports the \<open>changed\<close> that name and description alone
  give; when the pair is not in \<open>t\<close> the invocation reports \<open>changed=true\<close>, outside
  check mode it issues the POST of the pair on the capabilities sub-resource, and in check
  mode it issues no mutating call. No invocation takes a capability from a role: a call on
  the capabilities sub-resource is a POST, no payload carries a \<open>capabilities\<close> field,
  \<open>present\<close> and \<open>query\<close> issue no DELETE (the one DELETE of the module is that of the
  whole role, under \<open>absent\<close>), and on the reference remote every role is still there
  after a \<open>present\<close> or \<open>query\<close> invocation, with every capability it had.
\<close>

theorem role_capabilities_append_only:
  "(role_read api present scope name id' \<lparr>remote = s, calls = []\<rparr>
        = (Inr (existing_object, cur_id), w1)
      \<longrightarrow> role_upsert api check_mode scope name description existing_object cur_id w1
            = (Inr (chg, new_object, role_id), w2)
      \<longrightarrow> map_of CAPABILITIES ability = Some my_ability
      \<longrightarrow> role_capability_pairs existing_object = Inr t
      \<longrightarrow> ((JStr my_ability, of_str capability_appscope) \<in> set t
            \<longrightarrow> list_all (\<lambda>c. \<not> on_capabilities c)
                  (issued (role_main api check_mode present scope name description id'
                             capability_appscope (Some ability)) s)
                \<and> (\<forall>r. outcome (role_main api check_mode present scope name description id'
                                    capability_appscope (Some ability)) s = Inr r
                         \<longrightarrow> changed r = chg)
                \<and> (\<not> chg \<longrightarrow> outcome (role_main api check_mode present scope name description id'
                                         capability_appscope (Some ability)) s
                                = Inr \<lparr>changed = False, object = existing_object\<rparr>))
          \<and> ((JStr my_ability, of_str capability_appscope) \<notin> set t
              \<longrightarrow> (\<forall>r. outcome (role_main api check_mode present scope name description id'
                                    capability_appscope (Some ability)) s = Inr r
                         \<longrightarrow> changed r)
                  \<and> (check_mode
                        \<longrightarrow> outcome (role_main api check_mode present scope name description id'
                                       capability_appscope (Some ability)) s
                              = Inr \<lparr>changed = True, object = JObj new_object\<rparr>
                            \<and> list_all (\<lambda>c. \<not> mutating c)
                                (issued (role_main api check_mode present scope name description id'
                                           capability_appscope (Some ability)) s))
                  \<and> (\<not> check_mode
                        \<longrightarrow> RunMethod ''post'' (Format ''%s/%s/capabilities'' TETRATION_API_ROLE role_id)
                              (JObj [(''app_scope_id'', of_str capability_appscope),
                                     (''ability'', JStr my_ability)])
                            \<in> set (issued (role_main api check_mode present scope name description id'
                                             capability_appscope (Some ability)) s))))
   \<and> list_all (\<lambda>c. \<not> on_capabilities c \<or> is_post c)
        (issued (role_main api any_mode state any_scope any_name any_description any_id any_appscope
                   any_ability) s)
   \<and> list_all (\<lambda>c. \<not> carries_capabilities c)
        (issued (role_main api any_mode state any_scope any_name any_description any_id any_appscope
                   any_ability) s)
   \<and> (state \<noteq> absent
        \<longrightarrow> list_all (\<lambda>c. \<not> is_delete c)
              (issued (role_main api any_mode state any_scope any_name any_description any_id
                         any_appscope any_ability) s))
   \<and> (state \<noteq> absent
        \<longrightarrow> roles_kept m
              (after (role_main model_api any_mode state any_scope any_name any_description any_id
                        any_appscope any_ability) m))"
proof (intro conjI impI)
  assume h: "role_read api present scope name id' \<lparr>remote = s, calls = []\<rparr>
               = (Inr (existing_object, cur_id), w1)"
     "role_upsert api check_mode scope name description existing_object cur_id w1
               = (Inr (chg, new_object, role_id), w2)"
     "map_of CAPABILITIES ability = Some my_ability"
     "role_capability_pairs existing_object = Inr t"
  {
    assume mem: "(JStr my_ability, of_str capability_appscope) \<in> set t"
    note held = role_present_pair_held [OF h mem]
    from held show "list_all (\<lambda>c. \<not> on_capabilities c)
                  (issued (role_main api check_mode present scope name description id'
                             capability_appscope (Some ability)) s)" by (rule conjunct1)
    from held show "\<forall>r. outcome (role_main api check_mode present scope name description id'
                                    capability_appscope (Some ability)) s = Inr r
                         \<longrightarrow> changed r = chg" by simp
    assume "\<not> chg"
    with held show "outcome (role_main api check_mode present scope name description id'
                                         capability_appscope (Some ability)) s
                                = Inr \<lparr>changed = False, object = existing_object\<rparr>" by simp
  }
  {
    assume mem: "(JStr my_ability, of_str capability_appscope) \<notin> set t"
    note missing = role_present_pair_missing [OF h mem]
    from missing show "\<forall>r. outcome (role_main api check_mode present scope name description id'
                                    capability_appscope (Some ability)) s = Inr r
                         \<longrightarrow> changed r" by (rule conjunct1)
    {
      assume cm: check_mode
      with missing show "outcome (role_main api check_mode present scope name description id'
                                       capability_appscope (Some ability)) s
                              = Inr \<lparr>changed = True, object = JObj new_object\<rparr>" by simp
      from cm show "list_all (\<lambda>c. \<not> mutating c)
                                (issued (role_main api check_mode present scope name description id'
                                           capability_appscope (Some ability)) s)"
        using emits_issued [OF role_check_mode_quiet] by simp
    }
    assume "\<not> check_mode"
    with missing show "RunMethod ''post'' (Format ''%s/%s/capabilities'' TETRATION_API_ROLE role_id)
                              (JObj [(''app_scope_id'', of_str capability_appscope),
                                     (''ability'', JStr my_ability)])
                            \<in> set (issued (role_main api check_mode present scope name description id'
                                             capability_appscope (Some ability)) s)" by simp
  }
next
  show "list_all (\<lambda>c. \<not> on_capabilities c \<or> is_post c)
        (issued (role_main api any_mode state any_scope any_name any_description any_id any_appscope
                   any_ability) s)"
    by (rule emits_issued [OF role_capabilities_only_posted])
next
  show "list_all (\<lambda>c. \<not> carries_capabilities c)
        (issued (role_main api any_mode state any_scope any_name any_description any_id any_appscope
                   any_ability) s)"
    by (rule emits_issued [OF role_payloads_without_capabilities])
next
  assume "state \<noteq> absent"
  then show "list_all (\<lambda>c. \<not> is_delete c)
              (issued (role_main api any_mode state any_scope any_name any_description any_id
                         any_appscope any_ability) s)"
    by (rule emits_issued [OF role_deletes_under_absent_only])
next
  assume "state \<noteq> absent"
  then show "roles_kept m
              (after (role_main model_api any_mode state any_scope any_name any_description any_id
                        any_appscope any_ability) m)"
    by (rule keeps_after [OF role_main_keeps_roles])
qed

text \<open>
  The role \<open>reader\<close> holds \<open>read\<close> on s1: asking for it again changes nothing; asking for
  \<open>write\<close> posts it, or in check mode only reports the change; the invocation issues no
  DELETE and the roles of the remote keep their capabilities.
\<close>

theorem role_capabilities_append_only_witness:
  "outcome (role_main model_api False present (Some []) (Some ''reader'') None None (Some ''s1'')
              (Some ''read'')) alice_remote
     = Inr \<lparr>changed = False,
            object = JObj [(''id'', JStr ''r1''), (''name'', JStr ''reader''), (''app_scope_id'', JStr []),
                           (''capabilities'',
                            JList [JObj [(''app_scope_id'', JStr ''s1''), (''ability'', JStr ''SCOPE_READ'')]])]\<rparr>
   \<and> RunMethod ''post'' (Format ''%s/%s/capabilities'' TETRATION_API_ROLE (JStr ''r1''))
       (JObj [(''app_scope_id'', JStr ''s1''), (''ability'', JStr ''SCOPE_WRITE'')])
     \<in> set (issued (role_main model_api False present (Some []) (Some ''reader'') None None (Some ''s1'')
                      (Some ''write'')) alice_remote)
   \<and> outcome (role_main model_api True present (Some []) (Some ''reader'') None None (Some ''s1'')
                (Some ''write'')) alice_remote
     = Inr \<lparr>changed = True, object = JObj [(''name'', JStr ''reader'')]\<rparr>
   \<and> list_all (\<lambda>c. \<not> is_delete c)
       (issued (role_main model_api False present (Some []) (Some ''reader'') None None (Some ''s1'')
                  (Some ''write'')) alice_remote)
   \<and> roles_kept alice_remote
       (after (role_main model_api False present (Some []) (Some ''reader'') None None (Some ''s1'')
                 (Some ''write'')) alice_remote)"
proof -
  let ?r1 = "JObj [(''id'', JStr ''r1''), (''name'', JStr ''reader''), (''app_scope_id'', JStr []),
            (''capabilities'', JList [JObj [(''app_scope_id'', JStr ''s1''), (''ability'', JStr ''SCOPE_READ'')]])]"
  let ?w1 = "\<lparr>remote = alice_remote,
              calls = [GetObject (Target TETRATION_API_ROLE)
                         (JObj [(''name'', JStr ''reader''), (''app_scope_id'', JStr [])]),
                       RunMethod ''get'' (Format ''%s/%s'' TETRATION_API_ROLE (JStr ''r1'')) JNull]\<rparr>"
  have rd: "role_read model_api present (Some []) (Some ''reader'') None
              \<lparr>remote = alice_remote, calls = []\<rparr> = (Inr (?r1, JStr ''r1''), ?w1)"
    by (simp add: role_read_def prog_defs model_defs alice_remote_def)
  have up: "role_upsert model_api check_mode (Some []) (Some ''reader'') None ?r1 (JStr ''r1'') ?w1
              = (Inr (False, [(''name'', JStr ''reader'')], JStr ''r1''), ?w1)" for check_mode
    by (simp add: role_upsert_def role_differs_def role_new_object_def prog_defs setitem_def
          err_bind_def Let_def)
  have rdc: "map_of CAPABILITIES ''read'' = Some ''SCOPE_READ''" by (simp add: CAPABILITIES_def)
  have wrc: "map_of CAPABILITIES ''write'' = Some ''SCOPE_WRITE''" by (simp add: CAPABILITIES_def)
  have t: "role_capability_pairs ?r1 = Inr [(JStr ''SCOPE_READ'', JStr ''s1'')]"
    by (simp add: role_capability_pairs_def err_bind_def)
  note T = role_capabilities_append_only [where api = model_api and s = alice_remote
      and scope = "Some []" and name = "Some ''reader''" and description = None and id' = None
      and capability_appscope = "Some ''s1''" and existing_object = ?r1 and cur_id = "JStr ''r1''"
      and ?w1.0 = ?w1 and chg = False and new_object = "[(''name'', JStr ''reader'')]"
      and role_id = "JStr ''r1''" and ?w2.0 = ?w1 and t = "[(JStr ''SCOPE_READ'', JStr ''s1'')]"
      and state = present and any_mode = False and any_scope = "Some []"
      and any_name = "Some ''reader''" and any_description = None and any_id = None
      and any_appscope = "Some ''s1''" and any_ability = "Some ''write''" and m = alice_remote]
  have 1: "outcome (role_main model_api False present (Some []) (Some ''reader'') None None (Some ''s1'')
              (Some ''read'')) alice_remote = Inr \<lparr>changed = False, object = ?r1\<rparr>"
    using T [where check_mode = False and ability = "''read''" and my_ability = "''SCOPE_READ''",
             THEN conjunct1] rd up [of False] rdc t by simp
  have 2: "RunMethod ''post'' (Format ''%s/%s/capabilities'' TETRATION_API_ROLE (JStr ''r1''))
       (JObj [(''app_scope_id'', JStr ''s1''), (''ability'', JStr ''SCOPE_WRITE'')])
     \<in> set (issued (role_main model_api False present (Some []) (Some ''reader'') None None (Some ''s1'')
                      (Some ''write'')) alice_remote)"
    using T [where check_mode = False and ability = "''write''" and my_ability = "''SCOPE_WRITE''",
             THEN conjunct1] rd up [of False] wrc t by simp
  have 3: "outcome (role_main model_api True present (Some []) (Some ''reader'') None None (Some ''s1'')
                (Some ''write'')) alice_remote
     = Inr \<lparr>changed = True, object = JObj [(''name'', JStr ''reader'')]\<rparr>"
    using T [where check_mode = True and ability = "''write''" and my_ability = "''SCOPE_WRITE''",
             THEN conjunct1] rd up [of True] wrc t by simp
  have 4: "list_all (\<lambda>c. \<not> is_delete c)
       (issued (role_main model_api False present (Some []) (Some ''reader'') None None (Some ''s1'')
                  (Some ''write'')) alice_remote)"
    using T [THEN conjunct2, THEN conjunct2, THEN conjunct2, THEN conjunct1] by simp
  have 5: "roles_kept alice_remote
       (after (role_main model_api False present (Some []) (Some ''reader'') None None (Some ''s1'')
                 (Some ''write'')) alice_remote)"
    using T [THEN conjunct2, THEN conjunct2, THEN conjunct2, THEN conjunct2] by simp
  from 1 2 3 4 5 show ?thesis by simp
qed

text \<open>The roles of that remote after \<open>write\<close> has been added to \<open>reader\<close>.\<close>

lemma role_add_on_reference_remote:
  "after (role_main model_api False present (Some []) (Some ''reader'') None None (Some ''s1'')
            (Some ''write'')) alice_remote TETRATION_API_ROLE
     = [JObj [(''id'', JStr ''r1''), (''name'', JStr ''reader''), (''app_scope_id'', JStr []),
               (''capabilities'',
                JList [JObj [(''app_scope_id'', JStr ''s1''), (''ability'', JStr ''SCOPE_READ'')],
                       JObj [(''app_scope_id'', JStr ''s1''), (''ability'', JStr ''SCOPE_WRITE'')]])],
        JObj [(''id'', JStr ''r2''), (''name'', JStr ''writer''), (''app_scope_id'', JStr []),
               (''capabilities'', JList [])]]"
  by (simp add: role_main_def role_read_def role_present_def role_upsert_def role_add_capability_def
        role_capability_pairs_def role_differs_def role_new_object_def CAPABILITIES_def
        prog_defs model_defs alice_remote_def err_bind_def Let_def)

section \<open>Properties of the user-role-binding module\<close>

text \<open>
  Claim C6, as stated, fails on the present path: asked to add the role \<open>ghost\<close>, which
  is not on the remote (a lookup of the role finds nothing), the module issues the add call
  at once. The roles collection is never read under \<open>present\<close>.
\<close>

theorem user_role_present_skips_role_list:
  "issued (user_role_main model_api False present ''alice@example.com'' [JStr ''ghost'']) alice_remote
     = [GetObject (Target TETRATION_API_USER) (JObj [(''email'', JStr ''alice@example.com'')]),
        RunMethod ''put'' (Format ''%s/%s/add_role'' TETRATION_API_USER (JStr ''u1''))
          (JObj [(''role_id'', JStr ''ghost'')]),
        RunMethod ''get'' (Format ''%s/%s'' TETRATION_API_USER (JStr ''u1'')) JNull]
   \<and> model_get_object (Target TETRATION_API_ROLE) (JObj [(''id'', JStr ''ghost'')]) JNull JNull alice_remote
       = (Inr JNull, alice_remote)"
  by (simp add: user_role_main_def prog_defs model_defs alice_remote_def err_bind_def)

lemma add_roles_calls:
  assumes ok: "\<forall>role s. \<exists>r s'. api_run_method api ''put'' (Format ''%s/%s/add_role'' TETRATION_API_USER cur_id)
                   (JObj [(''role_id'', role)]) s = (Inr r, s')"
  shows "\<exists>s'. add_roles api False cur_id (JList existing_list) requested_list chg w
           = (Inr (chg \<or> (\<exists>role\<in>set requested_list. role \<notin> set existing_list)),
              \<lparr>remote = s',
               calls = calls w @ map (\<lambda>role. RunMethod ''put'' (Format ''%s/%s/add_role'' TETRATION_API_USER cur_id)
                                             (JObj [(''role_id'', role)]))
                                 (filter (\<lambda>role. role \<notin> set existing_list) requested_list)\<rparr>)"
proof (induction requested_list arbitrary: chg w)
  case Nil
  show ?case by (simp add: ret_def exI [of _ "remote w"])
next
  case (Cons role requested_list)
  show ?case
  proof (cases "role \<in> set existing_list")
    case True
    with Cons [of chg w] show ?thesis by (auto simp: bnd_def lift_def)
  next
    case False
    from ok obtain r s1 where r: "api_run_method api ''put'' (Format ''%s/%s/add_role'' TETRATION_API_USER cur_id)
                   (JObj [(''role_id'', role)]) (remote w) = (Inr r, s1)" by blast
    let ?w1 = "\<lparr>remote = s1, calls = calls w @ [RunMethod ''put'' (Format ''%s/%s/add_role'' TETRATION_API_USER cur_id)
                   (JObj [(''role_id'', role)])]\<rparr>"
    from Cons [of True ?w1] False r show ?thesis
      by (auto simp: bnd_def lift_def run_method_def)
  qed
qed

lemma remove_roles_calls:
  assumes ok: "\<forall>role s. \<exists>r s'. api_run_method api ''delete'' (Format ''%s/%s/remove_role'' TETRATION_API_USER cur_id)
                   (JObj [(''role_id'', role)]) s = (Inr r, s')"
  shows "\<exists>s'. remove_roles api False cur_id (JList existing_list) active_role_ids requested_list chg w
           = (Inr (chg \<or> (\<exists>role\<in>set requested_list. role \<in> set existing_list)),
              \<lparr>remote = s',
               calls = calls w @ map (\<lambda>role. RunMethod ''delete'' (Format ''%s/%s/remove_role'' TETRATION_API_USER cur_id)
                                             (JObj [(''role_id'', role)]))
                                 (filter (\<lambda>role. role \<in> set existing_list \<and> role \<in> set active_role_ids)
                                    requested_list)\<rparr>)"
proof (induction requested_list arbitrary: chg w)
  case Nil
  show ?case by (simp add: ret_def exI [of _ "remote w"])
next
  case (Cons role requested_list)
  show ?case
  proof (cases "role \<in> set existing_list \<and> role \<in> set active_role_ids")
    case False
    with Cons [of chg w] Cons [of True w] show ?thesis by (auto simp: bnd_def lift_def)
  next
    case True
    from ok obtain r s1 where r: "api_run_method api ''delete'' (Format ''%s/%s/remove_role'' TETRATION_API_USER cur_id)
                   (JObj [(''role_id'', role)]) (remote w) = (Inr r, s1)" by blast
    let ?w1 = "\<lparr>remote = s1, calls = calls w @ [RunMethod ''delete'' (Format ''%s/%s/remove_role'' TETRATION_API_USER cur_id)
                   (JObj [(''role_id'', role)])]\<rparr>"
    from Cons [of True ?w1] True r show ?thesis
      by (auto simp: bnd_def lift_def run_method_def)
  qed
qed


text \<open>
  Claim C6, amended. For a user that is found, with role list \<open>existing_list\<close>, and
  outside check mode: \<open>present\<close> issues, after the lookup, one \<open>add_role\<close> call for each
  requested role that is not in the user's list, in the order requested, and nothing else
  before the final read (the roles collection is not consulted); \<open>absent\<close> reads the
  roles collection first and issues one \<open>remove_role\<close> call for each requested role that
  is in the user's list and among the identifiers of that collection. The calls are exact
  when the remote accepts each add or remove.
\<close>

theorem user_role_union_and_difference:
  assumes us: "api_get_object api (Target TETRATION_API_USER) (JObj [(''email'', JStr email)]) JNull JNull s
                 = (Inr existing_object, s1)"
      and ex: "truthy existing_object"
      and ui: "getitem existing_object ''id'' = Inr cur_id"
      and rl: "getitem existing_object ''role_ids'' = Inr (JList existing_list)"
  shows "((\<forall>role s. \<exists>r s'. api_run_method api ''put'' (Format ''%s/%s/add_role'' TETRATION_API_USER cur_id)
                   (JObj [(''role_id'', role)]) s = (Inr r, s'))
          \<longrightarrow> issued (user_role_main api False present email requested_list) s
              = GetObject (Target TETRATION_API_USER) (JObj [(''email'', JStr email)])
                # map (\<lambda>role. RunMethod ''put'' (Format ''%s/%s/add_role'' TETRATION_API_USER cur_id)
                                  (JObj [(''role_id'', role)]))
                      (filter (\<lambda>role. role \<notin> set existing_list) requested_list)
                @ [RunMethod ''get'' (Format ''%s/%s'' TETRATION_API_USER cur_id) JNull])
       \<and> (api_run_method api ''get'' (Target TETRATION_API_ROLE) JNull s1 = (Inr active_roles, s2)
          \<longrightarrow> err_bind (py_iter active_roles) (map_err (\<lambda>role. getitem role ''id'')) = Inr active_role_ids
          \<longrightarrow> (\<forall>role s. \<exists>r s'. api_run_method api ''delete''
                   (Format ''%s/%s/remove_role'' TETRATION_API_USER cur_id)
                   (JObj [(''role_id'', role)]) s = (Inr r, s'))
          \<longrightarrow> issued (user_role_main api False absent email requested_list) s
              = GetObject (Target TETRATION_API_USER) (JObj [(''email'', JStr email)])
                # RunMethod ''get'' (Target TETRATION_API_ROLE) JNull
                # map (\<lambda>role. RunMethod ''delete'' (Format ''%s/%s/remove_role'' TETRATION_API_USER cur_id)
                                  (JObj [(''role_id'', role)]))
                      (filter (\<lambda>role. role \<in> set existing_list \<and> role \<in> set active_role_ids)
                         requested_list)
                @ [RunMethod ''get'' (Format ''%s/%s'' TETRATION_API_USER cur_id) JNull])"
proof (intro conjI impI)
  let ?w1 = "\<lparr>remote = s1, calls = [GetObject (Target TETRATION_API_USER) (JObj [(''email'', JStr email)])]\<rparr>"
  assume ok: "\<forall>role s. \<exists>r s'. api_run_method api ''put'' (Format ''%s/%s/add_role'' TETRATION_API_USER cur_id)
                   (JObj [(''role_id'', role)]) s = (Inr r, s')"
  from add_roles_calls [OF ok, of existing_list requested_list False ?w1]
  obtain s' where "add_roles api False cur_id (JList existing_list) requested_list False ?w1
           = (Inr (False \<or> (\<exists>role\<in>set requested_list. role \<notin> set existing_list)),
              \<lparr>remote = s',
               calls = calls ?w1 @ map (\<lambda>role. RunMethod ''put'' (Format ''%s/%s/add_role'' TETRATION_API_USER cur_id)
                                             (JObj [(''role_id'', role)]))
                                 (filter (\<lambda>role. role \<notin> set existing_list) requested_list)\<rparr>)"
    by blast
  with us ex ui rl
  show "issued (user_role_main api False present email requested_list) s
              = GetObject (Target TETRATION_API_USER) (JObj [(''email'', JStr email)])
                # map (\<lambda>role. RunMethod ''put'' (Format ''%s/%s/add_role'' TETRATION_API_USER cur_id)
                                  (JObj [(''role_id'', role)]))
                      (filter (\<lambda>role. role \<notin> set existing_list) requested_list)
                @ [RunMethod ''get'' (Format ''%s/%s'' TETRATION_API_USER cur_id) JNull]"
    by (simp add: issued_def run_def user_role_main_def bnd_def get_object_def lift_def
          run_method_def ret_def split: prod.splits sum.splits)
next
  let ?w2 = "\<lparr>remote = s2, calls = [GetObject (Target TETRATION_API_USER) (JObj [(''email'', JStr email)]),
                                        RunMethod ''get'' (Target TETRATION_API_ROLE) JNull]\<rparr>"
  assume ro: "api_run_method api ''get'' (Target TETRATION_API_ROLE) JNull s1 = (Inr active_roles, s2)"
     and ids: "err_bind (py_iter active_roles) (map_err (\<lambda>role. getitem role ''id'')) = Inr active_role_ids"
     and ok: "\<forall>role s. \<exists>r s'. api_run_method api ''delete''
                   (Format ''%s/%s/remove_role'' TETRATION_API_USER cur_id)
                   (JObj [(''role_id'', role)]) s = (Inr r, s')"
  from remove_roles_calls [OF ok, of existing_list active_role_ids requested_list False ?w2]
  obtain s' where "remove_roles api False cur_id (JList existing_list) active_role_ids requested_list False ?w2
           = (Inr (False \<or> (\<exists>role\<in>set requested_list. role \<in> set existing_list)),
              \<lparr>remote = s',
               calls = calls ?w2 @ map (\<lambda>role. RunMethod ''delete'' (Format ''%s/%s/remove_role'' TETRATION_API_USER cur_id)
                                             (JObj [(''role_id'', role)]))
                                 (filter (\<lambda>role. role \<in> set existing_list \<and> role \<in> set active_role_ids)
                                    requested_list)\<rparr>)"
    by blast
  with us ex ui rl ro ids
  show "issued (user_role_main api False absent email requested_list) s
              = GetObject (Target TETRATION_API_USER) (JObj [(''email'', JStr email)])
                # RunMethod ''get'' (Target TETRATION_API_ROLE) JNull
                # map (\<lambda>role. RunMethod ''delete'' (Format ''%s/%s/remove_role'' TETRATION_API_USER cur_id)
                                  (JObj [(''role_id'', role)]))
                      (filter (\<lambda>role. role \<in> set existing_list \<and> role \<in> set active_role_ids)
                         requested_list)
                @ [RunMethod ''get'' (Format ''%s/%s'' TETRATION_API_USER cur_id) JNull]"
    by (simp add: issued_def run_def user_role_main_def bnd_def get_object_def lift_def
          run_method_def ret_def split: prod.splits sum.splits)
qed

text \<open>The user holds r1: asking for r1 and r2 adds r2 alone, removing r1 and r2 removes r1 alone.\<close>

theorem user_role_union_and_difference_witness:
  "issued (user_role_main model_api False present ''alice@example.com'' [JStr ''r1'', JStr ''r2''])
     alice_remote
     = [GetObject (Target TETRATION_API_USER) (JObj [(''email'', JStr ''alice@example.com'')]),
        RunMethod ''put'' (Format ''%s/%s/add_role'' TETRATION_API_USER (JStr ''u1''))
          (JObj [(''role_id'', JStr ''r2'')]),
        RunMethod ''get'' (Format ''%s/%s'' TETRATION_API_USER (JStr ''u1'')) JNull]
   \<and> issued (user_role_main model_api False absent ''alice@example.com'' [JStr ''r1'', JStr ''r2''])
       alice_remote
     = [GetObject (Target TETRATION_API_USER) (JObj [(''email'', JStr ''alice@example.com'')]),
        RunMethod ''get'' (Target TETRATION_API_ROLE) JNull,
        RunMethod ''delete'' (Format ''%s/%s/remove_role'' TETRATION_API_USER (JStr ''u1''))
          (JObj [(''role_id'', JStr ''r1'')]),
        RunMethod ''get'' (Format ''%s/%s'' TETRATION_API_USER (JStr ''u1'')) JNull]"
proof -
  let ?alice = "JObj [(''id'', JStr ''u1''), (''email'', JStr ''alice@example.com''),
                      (''disabled_at'', JNull), (''role_ids'', JList [JStr ''r1''])]"
  have b1: "api_get_object model_api (Target TETRATION_API_USER) (JObj [(''email'', JStr ''alice@example.com'')])
              JNull JNull alice_remote = (Inr ?alice, alice_remote)"
    by (simp add: model_defs alice_remote_def)
  have b2: "truthy ?alice" by simp
  have b3: "getitem ?alice ''id'' = Inr (JStr ''u1'')" by simp
  have b4: "getitem ?alice ''role_ids'' = Inr (JList [JStr ''r1''])" by simp
  have b5: "api_run_method model_api ''get'' (Target TETRATION_API_ROLE) JNull alice_remote
              = (Inr (JList (alice_remote TETRATION_API_ROLE)), alice_remote)"
    by (simp add: model_defs)
  have b6: "err_bind (py_iter (JList (alice_remote TETRATION_API_ROLE))) (map_err (\<lambda>role. getitem role ''id''))
              = Inr [JStr ''r1'', JStr ''r2'']"
    by (simp add: err_bind_def alice_remote_def)
  have p: "\<forall>role s. \<exists>r s'. api_run_method model_api ''put''
             (Format ''%s/%s/add_role'' TETRATION_API_USER (JStr ''u1'')) (JObj [(''role_id'', role)]) s
             = (Inr r, s')"
    by (simp add: model_api_def model_run_method_def model_put_def)
  have d: "\<forall>role s. \<exists>r s'. api_run_method model_api ''delete''
             (Format ''%s/%s/remove_role'' TETRATION_API_USER (JStr ''u1'')) (JObj [(''role_id'', role)]) s
             = (Inr r, s')"
    by (simp add: model_api_def model_run_method_def model_delete_def)
  note T = user_role_union_and_difference [OF b1 b2 b3 b4]
  from T [THEN conjunct1, THEN mp, OF p, of "[JStr ''r1'', JStr ''r2'']"]
       T [THEN conjunct2, THEN mp, OF b5, THEN mp, OF b6, THEN mp, OF d, of "[JStr ''r1'', JStr ''r2'']"]
  show ?thesis by simp
qed

text \<open>
  The scenario of the specification on the reference remote: \<open>present\<close> with r1 and r2,
  then \<open>absent\<close> with r1, leaves the user with r2 alone.
\<close>

lemma user_role_scenario:
  "after (user_role_main model_api False absent ''alice@example.com'' [JStr ''r1''])
     (after (user_role_main model_api False present ''alice@example.com'' [JStr ''r1'', JStr ''r2''])
        alice_remote) TETRATION_API_USER
   = [JObj [(''id'', JStr ''u1''), (''email'', JStr ''alice@example.com''),
            (''disabled_at'', JNull), (''role_ids'', JList [JStr ''r2''])]]"
  by (simp add: user_role_main_def prog_defs model_defs alice_remote_def err_bind_def)

end
